theory Spec2Isabelle
  imports Complex_Main "HOL-Library.AList"
begin

section \<open>Projection subtraction (projection\_subtraction.py): data model\<close>

text \<open>
  The program is a Python 2 script over external libraries (EMAN2, sparx, pathos, the
  Python runtime). The script itself is embedded function by function; what the
  libraries compute is taken as a parameter (the record \<open>ext\<close> below) or, for the
  image difference, the processor \<open>math.sub.optimal\<close> and the ordered map of the pool,
  modelled from the spec; every exception the script can raise is a value of \<open>error\<close>.

  Python's \<open>int\<close> is modelled by \<open>int\<close>, Python's \<open>float\<close> by the exact reals:
  rounding, infinities and NaN are outside the model. Both branches of \<open>main\<close> are
  embedded: the serial generator (\<open>nproc \<le> 1\<close>), consumed lazily by the writing loop,
  and the ordered parallel map of the pool (\<open>nproc > 1\<close>).
\<close>

datatype error =
    KeyError | IndexError | TypeError | ValueError | AttributeError
  | ZeroDivisionError | AssertionError | IncompatibleShapes | LibraryError

text \<open>A cell of the StarFile: EMAN2star keeps a token as int, float or str.\<close>

datatype val = VInt int | VFloat real | VStr string

text \<open>\<open>ebind\<close> threads an exception through a sequence of statements.\<close>

definition ebind :: "error + 'a \<Rightarrow> ('a \<Rightarrow> error + 'b) \<Rightarrow> error + 'b" where
  "ebind m f = (case m of Inl e \<Rightarrow> Inl e | Inr x \<Rightarrow> f x)"

subsection \<open>Python arithmetic on cells\<close>

text \<open>\<open>a + b\<close>: numbers add (an int and a float give a float), two strings concatenate.\<close>

fun py_add :: "val \<Rightarrow> val \<Rightarrow> error + val" where
  "py_add (VInt a) (VInt b) = Inr (VInt (a + b))"
| "py_add (VInt a) (VFloat b) = Inr (VFloat (of_int a + b))"
| "py_add (VFloat a) (VInt b) = Inr (VFloat (a + of_int b))"
| "py_add (VFloat a) (VFloat b) = Inr (VFloat (a + b))"
| "py_add (VStr a) (VStr b) = Inr (VStr (a @ b))"
| "py_add _ _ = Inl TypeError"

fun py_sub :: "val \<Rightarrow> val \<Rightarrow> error + val" where
  "py_sub (VInt a) (VInt b) = Inr (VInt (a - b))"
| "py_sub (VInt a) (VFloat b) = Inr (VFloat (of_int a - b))"
| "py_sub (VFloat a) (VInt b) = Inr (VFloat (a - of_int b))"
| "py_sub (VFloat a) (VFloat b) = Inr (VFloat (a - b))"
| "py_sub _ _ = Inl TypeError"

text \<open>
  Every product and quotient of the script has a float operand (a literal or the value
  of \<open>float(...)\<close>), so the result is a float, a string operand is a TypeError, and
  the quotient is true division, which raises on a zero divisor.
\<close>

fun py_mul_float :: "val \<Rightarrow> real \<Rightarrow> error + val" where
  "py_mul_float (VInt a) c = Inr (VFloat (of_int a * c))"
| "py_mul_float (VFloat a) c = Inr (VFloat (a * c))"
| "py_mul_float (VStr s) c = Inl TypeError"

fun py_div_float :: "val \<Rightarrow> real \<Rightarrow> error + val" where
  "py_div_float (VInt a) c = (if c = 0 then Inl ZeroDivisionError else Inr (VFloat (of_int a / c)))"
| "py_div_float (VFloat a) c = (if c = 0 then Inl ZeroDivisionError else Inr (VFloat (a / c)))"
| "py_div_float (VStr s) c = Inl TypeError"

fun py_neg :: "val \<Rightarrow> error + val" where
  "py_neg (VInt a) = Inr (VInt (- a))"
| "py_neg (VFloat a) = Inr (VFloat (- a))"
| "py_neg (VStr s) = Inl TypeError"

text \<open>The number a numeric cell stands for.\<close>

fun to_real :: "val \<Rightarrow> real option" where
  "to_real (VInt a) = Some (of_int a)"
| "to_real (VFloat a) = Some a"
| "to_real (VStr s) = None"

subsection \<open>Python strings\<close>

definition digit_char :: "nat \<Rightarrow> char" where
  "digit_char d = ''0123456789'' ! d"

fun dec :: "nat \<Rightarrow> string" where
  "dec n = (if n < 10 then [digit_char n] else dec (n div 10) @ [digit_char (n mod 10)])"

declare dec.simps [simp del]

text \<open>\<open>"%d" % n\<close> and \<open>str(n)\<close> of an int.\<close>

definition str_int :: "int \<Rightarrow> string" where
  "str_int n = (if n < 0 then CHR ''-'' # dec (nat (- n)) else dec (nat n))"

text \<open>\<open>"{0:06d}".format(n)\<close>: sign-aware zero padding to a width of at least six.\<close>

definition zpad :: "nat \<Rightarrow> string \<Rightarrow> string" where
  "zpad w s = replicate (w - length s) (CHR ''0'') @ s"

definition fmt_06d :: "int \<Rightarrow> string" where
  "fmt_06d n = (if n < 0 then CHR ''-'' # zpad 5 (dec (nat (- n))) else zpad 6 (dec (nat n)))"

text \<open>\<open>s.split(c)\<close> for a one-character separator: empty fields are kept.\<close>

fun split_on :: "char \<Rightarrow> string \<Rightarrow> string list" where
  "split_on c [] = [[]]"
| "split_on c (x # xs) =
     (if x = c then [] # split_on c xs
      else (case split_on c xs of [] \<Rightarrow> [[x]] | w # ws \<Rightarrow> (x # w) # ws))"

text \<open>\<open>sep.join(ws)\<close>.\<close>

fun join :: "string \<Rightarrow> string list \<Rightarrow> string" where
  "join sep [] = []"
| "join sep [w] = w"
| "join sep (w # ws) = w @ sep @ join sep ws"

definition endswith :: "string \<Rightarrow> string \<Rightarrow> bool" where
  "endswith x y = (length y \<le> length x \<and> drop (length x - length y) x = y)"

text \<open>The lambda \<open>rchop\<close> of \<open>main\<close>.\<close>

definition rchop :: "string \<Rightarrow> string \<Rightarrow> string" where
  "rchop x y = (if \<not> endswith x y \<or> length y = 0 then x else take (length x - length y) x)"

subsection \<open>The StarFile\<close>

text \<open>
  A StarFile is a dictionary from a column heading to the list of the column's cells;
  it is kept as an association list, whose order is that of \<open>star.keys()\<close>.
\<close>

type_synonym star = "(string \<times> val list) list"

text \<open>\<open>star[key][i]\<close>.\<close>

definition star_get :: "star \<Rightarrow> string \<Rightarrow> nat \<Rightarrow> error + val" where
  "star_get st key i =
     (case map_of st key of
        None \<Rightarrow> Inl KeyError
      | Some col \<Rightarrow> if i < length col then Inr (col ! i) else Inl IndexError)"

text \<open>\<open>star[key][i] = v\<close>.\<close>

definition star_set :: "star \<Rightarrow> string \<Rightarrow> nat \<Rightarrow> val \<Rightarrow> error + star" where
  "star_set st key i v =
     (case map_of st key of
        None \<Rightarrow> Inl KeyError
      | Some col \<Rightarrow>
          if i < length col then Inr (AList.update key (col[i := v]) st) else Inl IndexError)"

text \<open>\<open>len(star[key])\<close>.\<close>

definition star_len :: "star \<Rightarrow> string \<Rightarrow> error + nat" where
  "star_len st key = (case map_of st key of None \<Rightarrow> Inl KeyError | Some col \<Rightarrow> Inr (length col))"


subsection \<open>Images, volumes and the file system\<close>

text \<open>
  An EMData object (a 2-D image or a 3-D volume): its dimensions and its pixel values.
  The image files are a map from a path to the images of the stack stored there.
\<close>

record emdata =
  nx :: nat
  ny :: nat
  nz :: nat
  pixels :: "real list"

type_synonym files = "string \<rightharpoonup> emdata list"

type_synonym vec3 = "real \<times> real \<times> real"

definition same_shape :: "emdata \<Rightarrow> emdata \<Rightarrow> bool" where
  "same_shape a b = (nx a = nx b \<and> ny a = ny b \<and> nz a = nz b \<and> length (pixels a) = length (pixels b))"

text \<open>
  Modelled from the spec: the operator \<open>-\<close> of EMData (EMAN2, not under src/). It is
  the elementwise difference of two images of the same pixel dimensions, and fails with
  IncompatibleShapes when the dimensions differ.
\<close>

definition em_minus :: "emdata \<Rightarrow> emdata \<Rightarrow> error + emdata" where
  "em_minus a b =
     (if same_shape a b then Inr (a\<lparr>pixels := map2 (-) (pixels a) (pixels b)\<rparr>)
      else Inl IncompatibleShapes)"

text \<open>The difference of two Vec3f.\<close>

definition vec_minus :: "vec3 \<Rightarrow> vec3 \<Rightarrow> vec3" where
  "vec_minus u v =
     (case u of (a, b, c) \<Rightarrow> (case v of (a', b', c') \<Rightarrow> (a - a', b - b', c - c')))"

text \<open>\<open>img.append_image(path)\<close> and \<open>img.write_image(path, -1)\<close>: one more image at the end of the stack.\<close>

definition append_image :: "files \<Rightarrow> string \<Rightarrow> emdata \<Rightarrow> files" where
  "append_image fs path img = fs(path \<mapsto> (case fs path of None \<Rightarrow> [img] | Some imgs \<Rightarrow> imgs @ [img]))"

text \<open>\<open>if os.path.exists(path): os.remove(path)\<close>.\<close>

definition remove_if_exists :: "files \<Rightarrow> string \<Rightarrow> files" where
  "remove_if_exists fs path = (if fs path \<noteq> None then fs(path := None) else fs)"

subsection \<open>The external collaborators\<close>

text \<open>An argument in the parameter dictionary of an EMAN2 processor.\<close>

datatype parg = PImg emdata | PNum real | PBool bool

text \<open>
  What the script calls and does not define: \<open>os.path.relpath\<close>, Python's \<open>str\<close> of
  a float, \<open>float\<close> and \<open>int\<close> of a string, the EMData reader, \<open>phase_cog\<close>,
  the constructor \<open>Vec3f\<close>, the class \<open>Transform\<close> (\<open>'tf\<close>), \<open>project\<close>,
  sparx's \<open>generate_ctf\<close> (giving a \<open>'ctf\<close>) and \<open>filt_ctf\<close>, and the EMAN2
  processors behind \<open>process\<close>. The last field belongs to the parallel branch: there
  the generator is consumed by a thread of the pool, at moments the script does not fix,
  and \<open>pool_seen i\<close> is the content of the image files at the moment that thread loads
  particle \<open>i\<close>.
\<close>

record ('tf, 'ctf) ext =
  relpath :: "string \<Rightarrow> string \<Rightarrow> string"
  str_float :: "real \<Rightarrow> string"
  float_of_str :: "string \<Rightarrow> real option"
  int_of_str :: "string \<Rightarrow> int option"
  EMData_read :: "files \<Rightarrow> string \<Rightarrow> int \<Rightarrow> error + emdata"
  phase_cog :: "emdata \<Rightarrow> real list"
  Vec3f :: "real list \<Rightarrow> error + vec3"
  Transform :: "'tf"
  set_rotation :: "'tf \<Rightarrow> (string \<times> val) list \<Rightarrow> error + 'tf"
  set_trans :: "'tf \<Rightarrow> val \<Rightarrow> val \<Rightarrow> error + 'tf"
  transform :: "'tf \<Rightarrow> vec3 \<Rightarrow> vec3"
  project :: "emdata \<Rightarrow> string \<Rightarrow> 'tf \<Rightarrow> error + emdata"
  generate_ctf :: "val list \<Rightarrow> error + 'ctf"
  filt_ctf :: "emdata \<Rightarrow> 'ctf \<Rightarrow> error + emdata"
  process :: "emdata \<Rightarrow> string \<Rightarrow> (string \<times> parg) list \<Rightarrow> error + emdata"
  pool_seen :: "nat \<Rightarrow> files"

text \<open>\<open>float(v)\<close> and \<open>str(v)\<close> of a cell.\<close>

definition py_float :: "('tf, 'ctf) ext \<Rightarrow> val \<Rightarrow> error + real" where
  "py_float E v =
     (case v of
        VInt a \<Rightarrow> Inr (of_int a)
      | VFloat a \<Rightarrow> Inr a
      | VStr s \<Rightarrow> (case float_of_str E s of None \<Rightarrow> Inl ValueError | Some a \<Rightarrow> Inr a))"

definition py_str :: "('tf, 'ctf) ext \<Rightarrow> val \<Rightarrow> string" where
  "py_str E v = (case v of VInt a \<Rightarrow> str_int a | VFloat a \<Rightarrow> str_float E a | VStr s \<Rightarrow> s)"

subsection \<open>MetaData\<close>

record MetaData =
  meta_i :: nat
  phi :: val
  psi :: val
  theta :: val
  x_origin :: val
  y_origin :: val
  defocus :: val
  dfdiff :: val
  dfang :: val
  apix :: val
  voltage :: val
  cs :: val
  ac :: val
  bfactor :: val
  ctf_params :: "val list"

text \<open>\<open>MetaData.__init__(self, star, i)\<close>, statement by statement.\<close>

definition MetaData_init :: "('tf, 'ctf) ext \<Rightarrow> star \<Rightarrow> nat \<Rightarrow> error + MetaData" where
  "MetaData_init E st i =
     ebind (star_get st ''rlnAngleRot'' i) (\<lambda>v_phi.
     ebind (star_get st ''rlnAnglePsi'' i) (\<lambda>v_psi.
     ebind (star_get st ''rlnAngleTilt'' i) (\<lambda>v_theta.
     ebind (star_get st ''rlnOriginX'' i) (\<lambda>v_x.
     ebind (star_get st ''rlnOriginY'' i) (\<lambda>v_y.
     ebind (star_get st ''rlnDefocusU'' i) (\<lambda>u1.
     ebind (star_get st ''rlnDefocusV'' i) (\<lambda>v1.
     ebind (py_add u1 v1) (\<lambda>s1.
     ebind (py_div_float s1 20000) (\<lambda>v_defocus.
     ebind (star_get st ''rlnDefocusU'' i) (\<lambda>u2.
     ebind (star_get st ''rlnDefocusV'' i) (\<lambda>v2.
     ebind (py_sub u2 v2) (\<lambda>d2.
     ebind (py_div_float d2 10000) (\<lambda>v_dfdiff.
     ebind (star_get st ''rlnDefocusAngle'' i) (\<lambda>a.
     ebind (py_sub (VFloat 90) a) (\<lambda>v_dfang.
     ebind (star_get st ''rlnDetectorPixelSize'' i) (\<lambda>d.
     ebind (py_mul_float d 10000) (\<lambda>d'.
     ebind (star_get st ''rlnMagnification'' i) (\<lambda>mg.
     ebind (py_float E mg) (\<lambda>mg'.
     ebind (py_div_float d' mg') (\<lambda>v_apix.
     ebind (star_get st ''rlnVoltage'' i) (\<lambda>v_voltage.
     ebind (star_get st ''rlnSphericalAberration'' i) (\<lambda>v_cs.
     ebind (star_get st ''rlnAmplitudeContrast'' i) (\<lambda>c.
     ebind (py_mul_float c 100) (\<lambda>v_ac.
       Inr \<lparr>meta_i = i, phi = v_phi, psi = v_psi, theta = v_theta,
            x_origin = v_x, y_origin = v_y, defocus = v_defocus, dfdiff = v_dfdiff,
            dfang = v_dfang, apix = v_apix, voltage = v_voltage, cs = v_cs, ac = v_ac,
            bfactor = VInt 0,
            ctf_params = [v_defocus, v_cs, v_voltage, v_apix, VInt 0, v_ac, v_dfdiff,
                          v_dfang]\<rparr>))))))))))))))))))))))))"

text \<open>\<open>MetaData.update(self, star)\<close>.\<close>

definition MetaData_update :: "MetaData \<Rightarrow> star \<Rightarrow> error + star" where
  "MetaData_update m st =
     ebind (star_set st ''rlnOriginX'' (meta_i m) (x_origin m)) (\<lambda>st1.
       star_set st1 ''rlnOriginY'' (meta_i m) (y_origin m))"


subsection \<open>Projection and subtraction of one particle\<close>

text \<open>The dictionary both \<open>make_proj\<close> and \<open>subtract\<close> pass to \<open>set_rotation\<close>.\<close>

definition rotation_dict :: "MetaData \<Rightarrow> (string \<times> val) list" where
  "rotation_dict m =
     [(''psi'', psi m), (''phi'', phi m), (''theta'', theta m), (''type'', VStr ''spider'')]"

definition make_proj :: "('tf, 'ctf) ext \<Rightarrow> emdata \<Rightarrow> MetaData \<Rightarrow> error + emdata" where
  "make_proj E dens m =
     ebind (set_rotation E (Transform E) (rotation_dict m)) (\<lambda>t1.
     ebind (py_neg (x_origin m)) (\<lambda>tx.
     ebind (py_neg (y_origin m)) (\<lambda>ty.
     ebind (set_trans E t1 tx ty) (\<lambda>t2.
     ebind (project E dens ''standard'' t2) (\<lambda>proj.
     ebind (generate_ctf E (ctf_params m)) (\<lambda>ctf.
       filt_ctf E proj ctf))))))"

text \<open>
  Modelled from the spec: the processor \<open>math.sub.optimal\<close> of EMAN2 (not under src/),
  which \<open>subtract\<close> and the debug output call on the particle image with the two
  projections in its dictionary. It fails with IncompatibleShapes if the particle image
  and a projection differ in pixel dimensions; what it computes on images of one shape
  stays with the parameter \<open>process\<close>.
\<close>

definition sub_optimal ::
  "('tf, 'ctf) ext \<Rightarrow> emdata \<Rightarrow> (string \<times> parg) list \<Rightarrow> error + emdata" where
  "sub_optimal E img args =
     (if list_all (\<lambda>a. case snd a of PImg r \<Rightarrow> same_shape img r | _ \<Rightarrow> True) args
      then process E img ''math.sub.optimal'' args
      else Inl IncompatibleShapes)"

record Result =
  ptcl :: emdata
  meta :: MetaData
  ctfproj :: emdata
  ctfproj_sub :: emdata
  ptcl_sub :: emdata
  ptcl_norm_sub :: emdata

text \<open>
  \<open>subtract(particle, dens, sub_dens, recenter, no_frc, low_cutoff, high_cutoff)\<close>;
  the vector \<open>recenter\<close> is \<open>None\<close> when recentering is off.
\<close>

definition subtract ::
  "('tf, 'ctf) ext \<Rightarrow> emdata \<times> MetaData \<Rightarrow> emdata \<Rightarrow> emdata \<Rightarrow> vec3 option \<Rightarrow> bool \<Rightarrow> real \<Rightarrow> real
     \<Rightarrow> error + Result" where
  "subtract E particle dens sub_dens rc nofrc low high =
     (let p = fst particle; m = snd particle in
      ebind (make_proj E dens m) (\<lambda>cp.
      ebind (make_proj E sub_dens m) (\<lambda>cps.
      ebind (if nofrc then em_minus p cps
             else sub_optimal E p
                    [(''ref'', PImg cp), (''actual'', PImg cps),
                     (''low_cutoff_frequency'', PNum low),
                     (''high_cutoff_frequency'', PNum high)]) (\<lambda>ps.
      ebind (process E ps ''normalize'' []) (\<lambda>pns.
      ebind (case rc of
               None \<Rightarrow> Inr m
             | Some v \<Rightarrow>
                 ebind (set_rotation E (Transform E) (rotation_dict m)) (\<lambda>t.
                 (let shift = transform E t v in
                  ebind (py_add (x_origin m) (VFloat (fst shift))) (\<lambda>x'.
                  ebind (py_add (y_origin m) (VFloat (fst (snd shift)))) (\<lambda>y'.
                    Inr (m\<lparr>x_origin := x', y_origin := y'\<rparr>)))))) (\<lambda>m'.
        Inr \<lparr>ptcl = p, meta = m', ctfproj = cp, ctfproj_sub = cps, ptcl_sub = ps,
             ptcl_norm_sub = pns\<rparr>))))))"

subsection \<open>The particle generator\<close>

text \<open>
  One step of the generator \<open>particles(star)\<close>: the pair it yields for row \<open>i\<close>, read
  from the table and the files as they are when the step runs.
\<close>

definition particle_at ::
  "('tf, 'ctf) ext \<Rightarrow> star \<Rightarrow> files \<Rightarrow> nat \<Rightarrow> error + emdata \<times> MetaData" where
  "particle_at E st fs i =
     ebind (star_get st ''rlnImageName'' i) (\<lambda>name.
     (case name of
        VStr s \<Rightarrow>
          (case split_on (CHR ''@'') s of
             [] \<Rightarrow> Inl IndexError
           | frame # rest \<Rightarrow>
               (case int_of_str E frame of
                  None \<Rightarrow> Inl ValueError
                | Some n \<Rightarrow>
                    (let ptcl_n = n - 1 in
                     (case rest of
                        [] \<Rightarrow> Inl IndexError
                      | ptcl_name # others \<Rightarrow>
                          ebind (EMData_read E fs ptcl_name ptcl_n) (\<lambda>p.
                          ebind (MetaData_init E st i) (\<lambda>m. Inr (p, m)))))))
      | _ \<Rightarrow> Inl AttributeError))"

text \<open>
  A value that is computed when the loop asks for it: a step of a generator, or a
  result of the pool. It is given the table and the image files as they are at that
  moment.
\<close>

type_synonym 'a deferred = "star \<Rightarrow> files \<Rightarrow> error + 'a"

text \<open>
  \<open>particles(star)\<close>: the steps of the generator, one for each row. The generator reads
  \<open>npart\<close> at its first step; no statement of the script changes the length of a column,
  so it is read here from the table the generator is made on.
\<close>

definition particles :: "('tf, 'ctf) ext \<Rightarrow> star \<Rightarrow> (emdata \<times> MetaData) deferred list" where
  "particles E star0 =
     (case star_len star0 ''rlnImageName'' of
        Inl e \<Rightarrow> [\<lambda>st fs. Inl e]
      | Inr npart \<Rightarrow> map (\<lambda>i st fs. particle_at E st fs i) [0..<npart])"

text \<open>
  Modelled from the spec: \<open>Pool.imap\<close> of pathos (not under src/), the order-preserving
  parallel map: result \<open>i\<close> is the function applied to item \<open>i\<close> of the source, whatever
  the order of computation, and chunking does not affect results or their order; a
  failure of item \<open>i\<close> reaches the consumer when it asks for result \<open>i\<close>. Item \<open>i\<close> is
  taken from the source by a thread of the pool, no later than the consumer asks for
  result \<open>i\<close>: it finds the image files as \<open>pool_seen i\<close> says, and the table with the
  rows from \<open>i\<close> on as the consumer has them when it asks (a turn of the loop writes
  its own row only, and a step of the generator reads its own row only).
\<close>

definition imap ::
  "('tf, 'ctf) ext \<Rightarrow> ('a \<Rightarrow> error + 'b) \<Rightarrow> 'a deferred list \<Rightarrow> int \<Rightarrow> 'b deferred list" where
  "imap E f iterable chunksize =
     map (\<lambda>(i, x). (\<lambda>st fs. ebind (x st (pool_seen E i)) f)) (enumerate 0 iterable)"

subsection \<open>The writing loop of \<open>main\<close>\<close>

record options =
  output_name :: string
  suffix :: string
  nproc :: int
  maxpart :: int
  recenter :: bool
  original :: bool
  no_frc :: bool
  low_cutoff :: real
  high_cutoff :: real
  debug :: bool

text \<open>
  The variables of the loop: \<open>cnt\<close> is the counter \<open>i\<close>, \<open>stacks\<close> the image files,
  \<open>output_star\<close> the strings written to the output table so far.
\<close>

record wstate =
  cnt :: nat
  nfile :: int
  starpath :: "string option"
  mrcs :: "string option"
  mrcs_orig :: "string option"
  star_tab :: star
  stacks :: files
  output_star :: "string list"

definition newline :: string where
  "newline = [CHR 0x0A]"

definition stack_name :: "options \<Rightarrow> int \<Rightarrow> string" where
  "stack_name opts k = suffix opts @ ''_'' @ str_int k @ ''.mrcs''"

definition orig_name :: "options \<Rightarrow> int \<Rightarrow> string" where
  "orig_name opts k = suffix opts @ ''_'' @ str_int k @ ''_original.mrcs''"

text \<open>
  The \<open>starpath\<close> of stack \<open>k\<close>: the path of the stack relative to the output table,
  without its first component.
\<close>

definition star_path :: "('tf, 'ctf) ext \<Rightarrow> options \<Rightarrow> int \<Rightarrow> string" where
  "star_path E opts k =
     join ''/'' (tl (split_on (CHR ''/'')
       (relpath E (suffix opts @ ''_'' @ str_int k) (output_name opts)))) @ ''.mrcs''"

text \<open>The body of \<open>if i % options.maxpart == 0\<close>: the next pair of stacks.\<close>

definition open_stack :: "('tf, 'ctf) ext \<Rightarrow> options \<Rightarrow> wstate \<Rightarrow> wstate" where
  "open_stack E opts w =
     w\<lparr>nfile := nfile w + 1,
       starpath := Some (star_path E opts (nfile w)),
       mrcs := Some (stack_name opts (nfile w)),
       mrcs_orig := Some (orig_name opts (nfile w)),
       stacks := remove_if_exists (remove_if_exists (stacks w) (stack_name opts (nfile w)))
                   (orig_name opts (nfile w))\<rparr>"

definition append_to :: "files \<Rightarrow> string option \<Rightarrow> emdata \<Rightarrow> error + files" where
  "append_to fs p img = (case p of None \<Rightarrow> Inl TypeError | Some path \<Rightarrow> Inr (append_image fs path img))"

text \<open>The additional output at log level DEBUG.\<close>

definition debug_output :: "('tf, 'ctf) ext \<Rightarrow> Result \<Rightarrow> files \<Rightarrow> error + files" where
  "debug_output E r fs =
     ebind (sub_optimal E (ptcl r)
              [(''ref'', PImg (ctfproj r)), (''actual'', PImg (ctfproj_sub r)),
               (''return_subim'', PBool True)]) (\<lambda>ptcl_sub_img.
     ebind (process E (ptcl r) ''filter.lowpass.gauss''
              [(''apix'', PNum (122 / 100)), (''cutoff_freq'', PNum (5 / 100))]) (\<lambda>ptcl_lowpass.
     ebind (process E (ptcl_norm_sub r) ''filter.lowpass.gauss''
              [(''apix'', PNum (122 / 100)), (''cutoff_freq'', PNum (5 / 100))]) (\<lambda>ptcl_sub_lowpass.
       Inr (append_image (append_image (append_image (append_image (append_image fs
              ''poreclass_subimg.mrcs'' ptcl_sub_img)
              ''poreclass_lowpass.mrcs'' ptcl_lowpass)
              ''poreclass_sublowpass.mrcs'' ptcl_sub_lowpass)
              ''poreclass_ctfproj.mrcs'' (ctfproj r))
              ''poreclass_ctfprojsub.mrcs'' (ctfproj_sub r)))))"

fun collect :: "(error + 'a) list \<Rightarrow> error + 'a list" where
  "collect [] = Inr []"
| "collect (x # xs) =
     (case x of Inl e \<Rightarrow> Inl e
      | Inr y \<Rightarrow> (case collect xs of Inl e \<Rightarrow> Inl e | Inr ys \<Rightarrow> Inr (y # ys)))"

text \<open>The new value of \<open>rlnImageName\<close> for the particle with running count \<open>i\<close>.\<close>

definition image_name :: "options \<Rightarrow> nat \<Rightarrow> string option \<Rightarrow> string" where
  "image_name opts i sp =
     fmt_06d (int i mod maxpart opts + 1) @ ''@'' @ (case sp of None \<Rightarrow> ''None'' | Some s \<Rightarrow> s)"

text \<open>The body of \<open>for r in results\<close>, for one result \<open>r\<close>.\<close>

definition write_result ::
  "('tf, 'ctf) ext \<Rightarrow> options \<Rightarrow> string list \<Rightarrow> Result \<Rightarrow> wstate \<Rightarrow> error + wstate" where
  "write_result E opts headings r w =
     (if maxpart opts = 0 then Inl ZeroDivisionError
      else
        (let w1 = (if int (cnt w) mod maxpart opts = 0 then open_stack E opts w else w) in
         ebind (append_to (stacks w1) (mrcs w1) (ptcl_norm_sub r)) (\<lambda>fs1.
         ebind (if original opts then append_to fs1 (mrcs_orig w1) (ptcl r) else Inr fs1) (\<lambda>fs2.
         ebind (if debug opts then debug_output E r fs2 else Inr fs2) (\<lambda>fs3.
         if meta_i (meta r) \<noteq> cnt w then Inl AssertionError
         else
           ebind (star_set (star_tab w1) ''rlnImageName'' (cnt w)
                    (VStr (image_name opts (cnt w) (starpath w1)))) (\<lambda>st1.
           ebind (MetaData_update (meta r) st1) (\<lambda>st2.
           ebind (collect (map (\<lambda>key. star_get st2 key (cnt w)) headings)) (\<lambda>cells.
             Inr (w1\<lparr>cnt := cnt w + 1, star_tab := st2, stacks := fs3,
                      output_star := output_star w1 @
                        [join ''  '' (map (py_str E) cells) @ newline]\<rparr>)))))))))"

text \<open>
  \<open>for r in results\<close>: each turn takes the next result, computed on the table and the
  files as the turns before have left them, and runs the body on it; an exception ends
  the loop.
\<close>

fun for_results ::
  "('tf, 'ctf) ext \<Rightarrow> options \<Rightarrow> string list \<Rightarrow> Result deferred list \<Rightarrow> wstate \<Rightarrow> error + wstate" where
  "for_results E opts headings [] w = Inr w"
| "for_results E opts headings (x # xs) w =
     (case ebind (x (star_tab w) (stacks w)) (\<lambda>r. write_result E opts headings r w) of
        Inl e \<Rightarrow> Inl e
      | Inr w' \<Rightarrow> for_results E opts headings xs w')"

subsection \<open>\<open>main\<close>\<close>

text \<open>The vector \<open>recenter\<close> of \<open>main\<close>.\<close>

definition recenter_vector :: "('tf, 'ctf) ext \<Rightarrow> options \<Rightarrow> emdata \<Rightarrow> emdata \<Rightarrow> error + vec3 option" where
  "recenter_vector E opts dens sub_dens =
     (if recenter opts then
        ebind (em_minus dens sub_dens) (\<lambda>new_dens.
        ebind (Vec3f E (take 3 (phase_cog E dens))) (\<lambda>c_old.
        ebind (Vec3f E (take 3 (phase_cog E new_dens))) (\<lambda>c_new.
          Inr (Some (vec_minus c_old c_new)))))
      else Inr None)"

text \<open>The header of the output table: \<open>top_header\<close>, then one line for each heading.\<close>

definition star_header :: "string list \<Rightarrow> string list" where
  "star_header headings =
     (newline @ ''data_'' @ newline @ newline @ ''loop_'' @ newline) #
     map (\<lambda>(i, heading). ''_'' @ heading @ '' #'' @ str_int (int i + 1) @ newline)
       (enumerate 0 headings)"

text \<open>The first three statements of \<open>main\<close>: the extensions are cut off the two names.\<close>

definition chop_options :: "options \<Rightarrow> options" where
  "chop_options options0 =
     options0\<lparr>output_name := rchop (output_name options0) ''.star'',
              suffix := rchop (rchop (suffix options0) ''.mrc'') ''.mrcs''\<rparr>"

text \<open>The variables of the loop before its first turn.\<close>

definition init_state :: "star \<Rightarrow> files \<Rightarrow> wstate" where
  "init_state star0 fs0 =
     \<lparr>cnt = 0, nfile = 1, starpath = None, mrcs = None, mrcs_orig = None,
      star_tab = star0, stacks = fs0, output_star = star_header (map fst star0)\<rparr>"

text \<open>
  \<open>main(options)\<close> on the table \<open>star0\<close> read from \<open>options.input\<close>, the image files
  \<open>fs0\<close> and the two maps read from \<open>options.wholemap\<close> and \<open>options.submap\<close>. With
  more than one process the results are the ordered map of the pool over the generator,
  with the chunk size of the script (Python 2 divides two ints to the floor), else the
  generator expression that applies \<open>subtract\<close> to each step of the generator when the
  loop asks for it. The value is the variables of the loop at the end, where the script
  returns 0; closing the output table and the pool changes none of them.
\<close>

definition main ::
  "('tf, 'ctf) ext \<Rightarrow> options \<Rightarrow> star \<Rightarrow> files \<Rightarrow> emdata \<Rightarrow> emdata \<Rightarrow> error + wstate" where
  "main E options0 star0 fs0 dens sub_dens =
     (let opts = chop_options options0 in
      ebind (star_len star0 ''rlnImageName'') (\<lambda>npart.
      (let headings = map fst star0 in
       ebind (recenter_vector E opts dens sub_dens) (\<lambda>rc.
       (let results =
          (if nproc opts > 1 then
             imap E (\<lambda>x. subtract E x dens sub_dens rc (no_frc opts) (low_cutoff opts)
                            (high_cutoff opts))
               (particles E star0) (min (int npart div nproc opts) 1000)
           else
             map (\<lambda>g. (\<lambda>st fs.
                    ebind (g st fs) (\<lambda>x. subtract E x dens sub_dens rc (no_frc opts)
                                          (low_cutoff opts) (high_cutoff opts))))
               (particles E star0))
        in for_results E opts headings results (init_state star0 fs0))))))"

subsection \<open>Reading the tables\<close>

text \<open>
  The value of the variable \<open>results\<close> of \<open>main\<close>, for the options after the
  extensions are cut off, the recentering vector \<open>rc\<close> and the number \<open>npart\<close> of rows.
\<close>

definition results ::
  "('tf, 'ctf) ext \<Rightarrow> options \<Rightarrow> star \<Rightarrow> emdata \<Rightarrow> emdata \<Rightarrow> vec3 option \<Rightarrow> nat \<Rightarrow> Result deferred list" where
  "results E opts star0 dens sub_dens rc npart =
     (if nproc opts > 1 then
        imap E (\<lambda>x. subtract E x dens sub_dens rc (no_frc opts) (low_cutoff opts) (high_cutoff opts))
          (particles E star0) (min (int npart div nproc opts) 1000)
      else
        map (\<lambda>g. (\<lambda>st fs.
               ebind (g st fs) (\<lambda>x. subtract E x dens sub_dens rc (no_frc opts) (low_cutoff opts)
                                     (high_cutoff opts))))
          (particles E star0))"

text \<open>The number in a cell of the table, when the cell exists and is numeric.\<close>

definition cell :: "star \<Rightarrow> string \<Rightarrow> nat \<Rightarrow> real option" where
  "cell st key i = (case star_get st key i of Inl e \<Rightarrow> None | Inr v \<Rightarrow> to_real v)"

text \<open>The line \<open>main\<close> writes for row \<open>i\<close> of a table: the cells in the order of the headings.\<close>

definition star_line :: "('tf, 'ctf) ext \<Rightarrow> star \<Rightarrow> string list \<Rightarrow> nat \<Rightarrow> error + string" where
  "star_line E st headings i =
     ebind (collect (map (\<lambda>key. star_get st key i) headings)) (\<lambda>cells.
       Inr (join ''  '' (map (py_str E) cells) @ newline))"

subsection \<open>Small runs\<close>

definition img_ex :: "real \<Rightarrow> emdata" where
  "img_ex a = \<lparr>nx = 1, ny = 2, nz = 1, pixels = [a, a + 1]\<rparr>"

definition vol_ex :: "real \<Rightarrow> emdata" where
  "vol_ex a = \<lparr>nx = 1, ny = 2, nz = 2, pixels = [a, 2 * a, 3 * a, 4 * a]\<rparr>"

definition files_ex :: files where
  "files_ex = [''in.mrcs'' \<mapsto> [img_ex 10, img_ex 20, img_ex 30]]"

text \<open>
  A stand-in for the libraries, on which the script can be run: projection keeps the
  first section of the volume, the CTF and the processors leave an image as it is, and
  a rotation leaves a vector as it is. The relative path of a path under the directory
  \<open>start\<close> is the rest of the path, and of another path one step up and then the path,
  which is what \<open>os.path.relpath\<close> gives for the relative paths of the runs below. The
  thread of the pool finds the input stack as it was at the start.
\<close>

definition lib_ex :: "((string \<times> val) list \<times> val \<times> val, val list) ext" where
  "lib_ex =
     \<lparr>relpath = (\<lambda>p start. if take (length start + 1) p = start @ ''/''
                            then drop (length start + 1) p else ''../'' @ p),
      str_float = (\<lambda>x. if x = 0 then ''0.0'' else ''x''),
      float_of_str = (\<lambda>s. None),
      int_of_str = (\<lambda>s. if s = ''1'' then Some 1 else if s = ''2'' then Some 2
                         else if s = ''3'' then Some 3 else None),
      EMData_read = (\<lambda>fs path n.
         case fs path of
           None \<Rightarrow> Inl LibraryError
         | Some imgs \<Rightarrow> if 0 \<le> n \<and> nat n < length imgs then Inr (imgs ! nat n)
                        else Inl LibraryError),
      phase_cog = (\<lambda>v. [sum_list (pixels v), 0, 0]),
      Vec3f = (\<lambda>xs. case xs of [a, b, c] \<Rightarrow> Inr (a, b, c) | _ \<Rightarrow> Inl TypeError),
      Transform = ([], VInt 0, VInt 0),
      set_rotation = (\<lambda>t d. Inr (d, snd t)),
      set_trans = (\<lambda>t x y. Inr (fst t, x, y)),
      transform = (\<lambda>t v. v),
      project = (\<lambda>v name t.
         Inr \<lparr>nx = nx v, ny = ny v, nz = 1, pixels = take (nx v * ny v) (pixels v)\<rparr>),
      generate_ctf = (\<lambda>ps. Inr ps),
      filt_ctf = (\<lambda>img ctf. Inr img),
      process = (\<lambda>img name args. Inr img),
      pool_seen = (\<lambda>i. files_ex)\<rparr>"

definition star_ex :: star where
  "star_ex =
     [(''rlnImageName'', [VStr ''1@in.mrcs'', VStr ''2@in.mrcs'', VStr ''3@in.mrcs'']),
      (''rlnMicrographName'', [VStr ''a.mrc'', VStr ''b.mrc'', VStr ''c.mrc'']),
      (''rlnAngleRot'', [VInt 0, VInt 10, VInt 20]),
      (''rlnAnglePsi'', [VInt 0, VInt 30, VInt 40]),
      (''rlnAngleTilt'', [VInt 0, VInt 50, VInt 60]),
      (''rlnOriginX'', [VInt 1, VInt 2, VInt 3]),
      (''rlnOriginY'', [VInt 4, VInt 5, VInt 6]),
      (''rlnDefocusU'', [VInt 20000, VInt 21000, VInt 22000]),
      (''rlnDefocusV'', [VInt 10000, VInt 11000, VInt 12000]),
      (''rlnDefocusAngle'', [VInt 30, VInt 45, VInt 60]),
      (''rlnDetectorPixelSize'', [VInt 5, VInt 5, VInt 5]),
      (''rlnMagnification'', [VInt 50000, VInt 50000, VInt 50000]),
      (''rlnVoltage'', [VInt 300, VInt 300, VInt 300]),
      (''rlnSphericalAberration'', [VInt 2, VInt 2, VInt 2]),
      (''rlnAmplitudeContrast'', [VInt 1, VInt 1, VInt 1])]"

definition meta_ex :: MetaData where
  "meta_ex =
     \<lparr>meta_i = 0, phi = VInt 0, psi = VInt 0, theta = VInt 0, x_origin = VInt 1,
      y_origin = VInt 4, defocus = VFloat (3 / 2), dfdiff = VFloat 1, dfang = VFloat 60,
      apix = VFloat 1, voltage = VInt 300, cs = VInt 2, ac = VFloat 100, bfactor = VInt 0,
      ctf_params = [VFloat (3 / 2), VInt 2, VInt 300, VFloat 1, VInt 0, VFloat 100,
                    VFloat 1, VFloat 60]\<rparr>"

text \<open>
  Serial, direct mode, recentering, originals, two particles for each stack, the stacks
  in a directory beside the output table.
\<close>

definition options_ex :: options where
  "options_ex =
     \<lparr>output_name = ''out.star'', suffix = ''stacks/sub.mrcs'', nproc = 1, maxpart = 2,
      recenter = True, original = True, no_frc = True, low_cutoff = 0,
      high_cutoff = 7071 / 10000, debug = False\<rparr>"

text \<open>A table whose only reference has a frame token that is not a number.\<close>

definition star_bad :: star where
  "star_bad = [(''rlnImageName'', [VStr ''x@in.mrcs''])]"

text \<open>A result that carries the index 1: in the first turn of a loop it is out of order.\<close>

definition result_late :: Result where
  "result_late =
     \<lparr>ptcl = img_ex 10, meta = meta_ex\<lparr>meta_i := 1\<rparr>, ctfproj = img_ex 1, ctfproj_sub = img_ex 2,
      ptcl_sub = img_ex 8, ptcl_norm_sub = img_ex 8\<rparr>"

text \<open>A particle image larger than the sections of the maps of the small runs.\<close>

definition img_big :: emdata where
  "img_big = \<lparr>nx = 2, ny = 2, nz = 1, pixels = [1, 2, 3, 4]\<rparr>"

text \<open>An input stack whose second image is the larger one.\<close>

definition files_mixed :: files where
  "files_mixed = [''in.mrcs'' \<mapsto> [img_ex 10, img_big, img_ex 30]]"

text \<open>
  A second choice of options: two processes, FRC mode, no recentering, no originals,
  debug output, one particle for each stack.
\<close>

definition options_plain :: options where
  "options_plain =
     \<lparr>output_name = ''out'', suffix = ''sub.mrc'', nproc = 2, maxpart = 1,
      recenter = False, original = False, no_frc = False, low_cutoff = 0,
      high_cutoff = 7071 / 10000, debug = True\<rparr>"

text \<open>
  A third choice: the stacks are to be written into the directory \<open>out\<close>, named like the
  output table \<open>out.star\<close> without its extension.
\<close>

definition options_in :: options where
  "options_in =
     \<lparr>output_name = ''out.star'', suffix = ''out/sub'', nproc = 1, maxpart = 2,
      recenter = False, original = False, no_frc = True, low_cutoff = 0,
      high_cutoff = 7071 / 10000, debug = False\<rparr>"

subsection \<open>Invariants of the writing loop\<close>

text \<open>The characters \<open>dec\<close> writes.\<close>

definition is_digit :: "char \<Rightarrow> bool" where
  "is_digit c = (c \<in> set ''0123456789'')"

text \<open>The character before the extension \<open>.mrcs\<close> tells the kinds of files apart.\<close>

definition stem_last :: "string \<Rightarrow> char" where
  "stem_last s = last (take (length s - 5) s)"

text \<open>The five files of the debug output.\<close>

definition debug_names :: "string set" where
  "debug_names = {''poreclass_subimg.mrcs'', ''poreclass_lowpass.mrcs'',
     ''poreclass_sublowpass.mrcs'', ''poreclass_ctfproj.mrcs'', ''poreclass_ctfprojsub.mrcs''}"

text \<open>
  After \<open>cnt\<close> turns with a cap \<open>m\<close>, the stack in use is the one of the last particle
  written, number \<open>(cnt - 1) div m + 1\<close>, and \<open>nfile\<close> is the number of the next one.
\<close>

definition stack_inv :: "('tf, 'ctf) ext \<Rightarrow> options \<Rightarrow> nat \<Rightarrow> wstate \<Rightarrow> bool" where
  "stack_inv E opts m w =
     (if cnt w = 0 then nfile w = 1
      else nfile w = int ((cnt w - 1) div m) + 2 \<and>
           starpath w = Some (star_path E opts (nfile w - 1)) \<and>
           mrcs w = Some (stack_name opts (nfile w - 1)) \<and>
           mrcs_orig w = Some (orig_name opts (nfile w - 1)))"

text \<open>The images stored at a path, none when there is no file.\<close>

definition stack_list :: "files \<Rightarrow> string \<Rightarrow> emdata list" where
  "stack_list fs path = (case fs path of None \<Rightarrow> [] | Some imgs \<Rightarrow> imgs)"

text \<open>
  After \<open>cnt\<close> turns, stack \<open>q + 1\<close> holds the particles from \<open>q * m\<close> on, up to \<open>m\<close> of
  them, its stack of originals as many when originals are written and none otherwise, and
  the files named like a stack of a number not yet reached are as they were at the start.
\<close>

definition files_inv :: "options \<Rightarrow> nat \<Rightarrow> files \<Rightarrow> wstate \<Rightarrow> bool" where
  "files_inv opts m fs0 w =
     ((\<forall>q. q * m < cnt w \<longrightarrow>
         stacks w (stack_name opts (int q + 1)) \<noteq> None \<and>
         length (stack_list (stacks w) (stack_name opts (int q + 1))) = min m (cnt w - q * m) \<and>
         (if original opts
          then stacks w (orig_name opts (int q + 1)) \<noteq> None \<and>
               length (stack_list (stacks w) (orig_name opts (int q + 1))) = min m (cnt w - q * m)
          else stacks w (orig_name opts (int q + 1)) = None)) \<and>
      (\<forall>k. k < 1 \<or> nfile w \<le> k \<longrightarrow>
         stacks w (stack_name opts k) = fs0 (stack_name opts k) \<and>
         stacks w (orig_name opts k) = fs0 (orig_name opts k)))"

section \<open>Properties\<close>

subsection \<open>Exceptions and cell arithmetic\<close>

lemma ebind_Inr_iff: "ebind m f = Inr y \<longleftrightarrow> (\<exists>x. m = Inr x \<and> f x = Inr y)"
  by (cases m) (simp_all add: ebind_def)

lemma ebind_Inl_iff: "ebind m f = Inl e \<longleftrightarrow> m = Inl e \<or> (\<exists>x. m = Inr x \<and> f x = Inl e)"
  by (cases m) (simp_all add: ebind_def)

lemma ebind_Inr [simp]: "ebind (Inr x) f = f x"
  by (simp add: ebind_def)

lemma ebind_Inl [simp]: "ebind (Inl e) f = Inl e"
  by (simp add: ebind_def)

lemma py_div_float_Inr:
  "py_div_float a c = Inr r \<Longrightarrow> \<exists>x. to_real a = Some x \<and> c \<noteq> 0 \<and> r = VFloat (x / c)"
  by (cases a) (auto split: if_splits)

lemma py_mul_float_Inr:
  "py_mul_float a c = Inr r \<Longrightarrow> \<exists>x. to_real a = Some x \<and> r = VFloat (x * c)"
  by (cases a) auto

lemma py_add_to_real:
  "py_add a b = Inr s \<Longrightarrow> to_real s = Some z \<Longrightarrow>
     \<exists>x y. to_real a = Some x \<and> to_real b = Some y \<and> z = x + y"
  by (cases a; cases b) auto

lemma py_sub_to_real:
  "py_sub a b = Inr s \<Longrightarrow>
     \<exists>x y. to_real a = Some x \<and> to_real b = Some y \<and> to_real s = Some (x - y)"
  by (cases a; cases b) auto

lemma py_add_float_Inr:
  "py_add a (VFloat c) = Inr r \<Longrightarrow> \<exists>x. to_real a = Some x \<and> r = VFloat (x + c)"
  by (cases a) auto

lemma py_neg_Inr: "py_neg a = Inr r \<Longrightarrow> \<exists>x. to_real a = Some x \<and> to_real r = Some (- x)"
  by (cases a) auto

subsection \<open>Decimal strings, splitting and file names\<close>

lemma digit_char_inj: "a < 10 \<Longrightarrow> b < 10 \<Longrightarrow> digit_char a = digit_char b \<Longrightarrow> a = b"
proof -
  assume a: "a < 10" and b: "b < 10" and e: "digit_char a = digit_char b"
  have d: "distinct ''0123456789''" by simp
  have l: "length ''0123456789'' = 10" by simp
  from e have "''0123456789'' ! a = ''0123456789'' ! b" by (simp only: digit_char_def)
  with d a b l show "a = b" by (simp only: nth_eq_iff_index_eq)
qed

lemma is_digit_digit_char: "d < 10 \<Longrightarrow> is_digit (digit_char d)"
  unfolding is_digit_def digit_char_def
  by (rule nth_mem) simp

lemma dec_nonempty: "dec n \<noteq> []"
  by (subst dec.simps) simp

lemma dec_last_digit: "is_digit (last (dec n))"
  by (subst dec.simps) (simp add: is_digit_digit_char)

lemma dec_digits: "c \<in> set (dec n) \<Longrightarrow> is_digit c"
proof (induction n arbitrary: c rule: dec.induct)
  case (1 n)
  show ?case
  proof (cases "n < 10")
    case True
    with "1.prems" show ?thesis by (subst (asm) dec.simps) (simp add: is_digit_digit_char)
  next
    case False
    with "1.prems" have "c \<in> set (dec (n div 10)) \<or> c = digit_char (n mod 10)"
      by (subst (asm) dec.simps) auto
    with "1.IH"[OF False] show ?thesis by (auto simp: is_digit_digit_char)
  qed
qed

lemma dec_length_1: "length (dec n) = Suc 0 \<longleftrightarrow> n < 10"
proof (cases "n < 10")
  case True
  then show ?thesis by (subst dec.simps) simp
next
  case False
  have "length (dec (n div 10)) > 0" using dec_nonempty by simp
  with False show ?thesis by (subst dec.simps) simp
qed

lemma dec_inj: "dec a = dec b \<Longrightarrow> a = b"
proof (induction a arbitrary: b rule: dec.induct)
  case (1 n)
  show ?case
  proof (cases "n < 10")
    case True
    with dec_length_1[of n] "1.prems" have "length (dec b) = Suc 0" by simp
    then have b: "b < 10" by (simp add: dec_length_1)
    from True b "1.prems" have "[digit_char n] = [digit_char b]"
      by (simp add: dec.simps[of n] dec.simps[of b])
    with True b show ?thesis by (auto dest: digit_char_inj)
  next
    case False
    with dec_length_1[of n] "1.prems" have "length (dec b) \<noteq> Suc 0" by simp
    then have b: "\<not> b < 10" by (simp add: dec_length_1)
    from False b "1.prems" have
      e: "dec (n div 10) @ [digit_char (n mod 10)] = dec (b div 10) @ [digit_char (b mod 10)]"
      by (simp add: dec.simps[of n] dec.simps[of b])
    then have "dec (n div 10) = dec (b div 10)" and d: "digit_char (n mod 10) = digit_char (b mod 10)"
      by simp_all
    with "1.IH"[OF False] have q: "n div 10 = b div 10" by simp
    from d have "n mod 10 = b mod 10" by (auto dest!: digit_char_inj[rotated 2])
    with q show ?thesis by (metis div_mult_mod_eq)
  qed
qed

lemma str_int_nonempty: "str_int k \<noteq> []"
  by (simp add: str_int_def dec_nonempty)

lemma str_int_last_digit: "is_digit (last (str_int k))"
  by (simp add: str_int_def dec_nonempty dec_last_digit)

lemma str_int_inj: "str_int a = str_int b \<Longrightarrow> a = b"
proof -
  assume e: "str_int a = str_int b"
  have nd: "\<not> is_digit (CHR ''-'')" by (simp add: is_digit_def)
  have hd_dec: "\<And>n. hd (dec n) \<noteq> CHR ''-''"
  proof -
    fix n
    have "hd (dec n) \<in> set (dec n)" using dec_nonempty by simp
    then have "is_digit (hd (dec n))" by (rule dec_digits)
    with nd show "hd (dec n) \<noteq> CHR ''-''" by auto
  qed
  show "a = b"
  proof (cases "a < 0"; cases "b < 0")
    assume "a < 0" "b < 0"
    with e have "dec (nat (- a)) = dec (nat (- b))" by (simp add: str_int_def)
    then have "nat (- a) = nat (- b)" by (rule dec_inj)
    with \<open>a < 0\<close> \<open>b < 0\<close> show ?thesis by simp
  next
    assume "a < 0" "\<not> b < 0"
    with e have "CHR ''-'' # dec (nat (- a)) = dec (nat b)" by (simp add: str_int_def)
    then have "hd (dec (nat b)) = CHR ''-''" by (metis list.sel(1))
    with hd_dec show ?thesis by blast
  next
    assume "\<not> a < 0" "b < 0"
    with e have "dec (nat a) = CHR ''-'' # dec (nat (- b))" by (simp add: str_int_def)
    then have "hd (dec (nat a)) = CHR ''-''" by (metis list.sel(1))
    with hd_dec show ?thesis by blast
  next
    assume "\<not> a < 0" "\<not> b < 0"
    with e have "dec (nat a) = dec (nat b)" by (simp add: str_int_def)
    then have "nat a = nat b" by (rule dec_inj)
    with \<open>\<not> a < 0\<close> \<open>\<not> b < 0\<close> show ?thesis by simp
  qed
qed

lemma fmt_06d_pos: "fmt_06d (int n + 1) = replicate (6 - length (dec (n + 1))) (CHR ''0'') @ dec (n + 1)"
  by (simp add: fmt_06d_def zpad_def nat_add_distrib)

lemma split_on_nonempty: "split_on c s \<noteq> []"
  by (induction s) (auto split: list.splits)

lemma split_on_no_sep: "c \<notin> set s \<Longrightarrow> split_on c s = [s]"
  by (induction s) auto

lemma split_on_append: "c \<notin> set a \<Longrightarrow> split_on c (a @ c # b) = a # split_on c b"
  by (induction a) auto

lemma split_on_hd: "hd (split_on c s) = takeWhile (\<lambda>x. x \<noteq> c) s"
  by (induction s) (auto split: list.splits simp: split_on_nonempty)

lemma split_on_second:
  assumes "c \<notin> set a"
  shows "\<exists>rest. split_on c (a @ c # b) = a # takeWhile (\<lambda>x. x \<noteq> c) b # rest"
proof -
  obtain h t where ht: "split_on c b = h # t" using split_on_nonempty[of c b] by (cases "split_on c b") auto
  with split_on_hd[of c b] have "h = takeWhile (\<lambda>x. x \<noteq> c) b" by simp
  with ht split_on_append[OF assms, of b] show ?thesis by simp
qed

lemma join_split_on: "join [c] (split_on c s) = s"
proof (induction s)
  case Nil
  then show ?case by simp
next
  case (Cons x xs)
  obtain w ws where ws: "split_on c xs = w # ws"
    using split_on_nonempty[of c xs] by (cases "split_on c xs") auto
  with Cons show ?case by (cases ws) auto
qed

text \<open>
  The \<open>starpath\<close> is the path of the stack from the directory of the output table when
  the relative path from the directory named like the table starts with one step up;
  when the stack lies in that very directory, nothing of its name is left.
\<close>

lemma star_path_up:
  assumes "relpath E (suffix opts @ ''_'' @ str_int k) (output_name opts) = ''../'' @ p"
  shows "star_path E opts k = p @ ''.mrcs''"
proof -
  have "split_on (CHR ''/'') (''..'' @ CHR ''/'' # p) = ''..'' # split_on (CHR ''/'') p"
    by (rule split_on_append) simp
  with assms show ?thesis
    using join_split_on[of "CHR ''/''" p] by (simp add: star_path_def)
qed

lemma star_path_single:
  assumes "CHR ''/'' \<notin> set (relpath E (suffix opts @ ''_'' @ str_int k) (output_name opts))"
  shows "star_path E opts k = ''.mrcs''"
  using assms by (simp add: star_path_def split_on_no_sep)

lemma stack_name_inj: "stack_name opts a = stack_name opts b \<longleftrightarrow> a = b"
  by (auto simp: stack_name_def dest: str_int_inj)

lemma orig_name_inj: "orig_name opts a = orig_name opts b \<longleftrightarrow> a = b"
  by (auto simp: orig_name_def dest: str_int_inj)

lemma stem_last_append: "stem_last (xs @ ''.mrcs'') = last xs"
  by (simp add: stem_last_def)

lemma stem_last_stack: "is_digit (stem_last (stack_name opts k))"
proof -
  have "stack_name opts k = (suffix opts @ ''_'' @ str_int k) @ ''.mrcs''"
    by (simp add: stack_name_def)
  then have "stem_last (stack_name opts k) = last (suffix opts @ ''_'' @ str_int k)"
    by (simp only: stem_last_append)
  then show ?thesis using str_int_last_digit[of k] str_int_nonempty[of k]
    by simp
qed

lemma stem_last_orig: "stem_last (orig_name opts k) = CHR ''l''"
proof -
  have "orig_name opts k = (suffix opts @ ''_'' @ str_int k @ ''_original'') @ ''.mrcs''"
    by (simp add: orig_name_def)
  then have "stem_last (orig_name opts k) = last (suffix opts @ ''_'' @ str_int k @ ''_original'')"
    by (simp only: stem_last_append)
  then show ?thesis by simp
qed

lemma stack_name_neq_orig: "stack_name opts a \<noteq> orig_name opts b"
proof
  assume "stack_name opts a = orig_name opts b"
  then have "stem_last (stack_name opts a) = stem_last (orig_name opts b)" by simp
  with stem_last_stack[of opts a] stem_last_orig[of opts b] show False
    by (simp add: is_digit_def)
qed

lemma debug_names_stem: "s \<in> debug_names \<Longrightarrow> stem_last s \<in> set ''gsjb''"
  by (auto simp: debug_names_def stem_last_def)

lemma stack_name_not_debug: "stack_name opts k \<notin> debug_names"
proof
  assume "stack_name opts k \<in> debug_names"
  from debug_names_stem[OF this] stem_last_stack[of opts k] show False
    by (auto simp: is_digit_def)
qed

lemma orig_name_not_debug: "orig_name opts k \<notin> debug_names"
proof
  assume "orig_name opts k \<in> debug_names"
  from debug_names_stem[OF this] stem_last_orig[of opts k] show False
    by auto
qed

lemma append_image_apply:
  "append_image fs p img q = (if q = p then Some (stack_list fs p @ [img]) else fs q)"
  by (auto simp: append_image_def stack_list_def split: option.splits)

lemma remove_if_exists_apply:
  "remove_if_exists fs p q = (if q = p then None else fs q)"
  by (auto simp: remove_if_exists_def)

lemma debug_output_apply:
  assumes "debug_output E r fs = Inr fs'" and "q \<notin> debug_names"
  shows "fs' q = fs q"
proof -
  from assms(1) obtain a b c where
    "fs' = append_image (append_image (append_image (append_image (append_image fs
              ''poreclass_subimg.mrcs'' a)
              ''poreclass_lowpass.mrcs'' b)
              ''poreclass_sublowpass.mrcs'' c)
              ''poreclass_ctfproj.mrcs'' (ctfproj r))
              ''poreclass_ctfprojsub.mrcs'' (ctfproj_sub r)"
    unfolding debug_output_def ebind_Inr_iff by auto
  with assms(2) show ?thesis
    by (simp add: append_image_apply debug_names_def)
qed

subsection \<open>Reading and writing the table\<close>

lemma star_set_Inr_iff:
  "star_set st key i v = Inr st' \<longleftrightarrow>
     (\<exists>col. map_of st key = Some col \<and> i < length col \<and> st' = AList.update key (col[i := v]) st)"
  by (auto simp: star_set_def split: option.splits)

lemma star_get_star_set:
  assumes "star_set st key i v = Inr st'"
  shows "star_get st' k j = (if k = key \<and> j = i then Inr v else star_get st k j)"
  using assms by (auto simp: star_set_Inr_iff star_get_def update_conv')

lemma star_set_keys:
  assumes "star_set st key i v = Inr st'"
  shows "map fst st' = map fst st"
proof -
  from assms obtain col where "map_of st key = Some col" "st' = AList.update key (col[i := v]) st"
    by (auto simp: star_set_Inr_iff)
  moreover from this(1) have "key \<in> fst ` set st" by (force dest: map_of_SomeD)
  ultimately show ?thesis by (simp add: update_keys)
qed

lemma star_len_star_set:
  assumes "star_set st key i v = Inr st'"
  shows "star_len st' k = star_len st k"
  using assms by (auto simp: star_set_Inr_iff star_len_def update_conv')

lemma MetaData_update_Inr:
  assumes "MetaData_update m st = Inr st'"
  shows "star_get st' k j =
           (if j = meta_i m \<and> k = ''rlnOriginY'' then Inr (y_origin m)
            else if j = meta_i m \<and> k = ''rlnOriginX'' then Inr (x_origin m)
            else star_get st k j)"
    and "map fst st' = map fst st"
    and "star_len st' k = star_len st k"
  using assms unfolding MetaData_update_def ebind_Inr_iff
  by (auto simp: star_get_star_set star_set_keys star_len_star_set)

lemma star_line_cong:
  assumes "\<And>k. star_get st k i = star_get st' k i"
  shows "star_line E st hs i = star_line E st' hs i"
  unfolding star_line_def using assms by simp

lemma collect_Inr_iff: "collect xs = Inr ys \<longleftrightarrow> xs = map Inr ys"
proof (induction xs arbitrary: ys)
  case Nil
  then show ?case by auto
next
  case (Cons x xs)
  show ?case
  proof (cases x)
    case (Inl e)
    then show ?thesis by (cases ys) auto
  next
    case (Inr y)
    show ?thesis
    proof (cases "collect xs")
      case (Inl e)
      with Cons.IH Inr show ?thesis by (cases ys) auto
    next
      case r: (Inr zs)
      with Cons.IH[of zs] have "xs = map Inr zs" by simp
      with Inr r Cons.IH show ?thesis by (cases ys) auto
    qed
  qed
qed

lemma star_line_Inr_iff:
  "star_line E st hs i = Inr line \<longleftrightarrow>
     (\<exists>cells. map (\<lambda>key. star_get st key i) hs = map Inr cells \<and>
              line = join ''  '' (map (py_str E) cells) @ newline)"
  unfolding star_line_def ebind_Inr_iff collect_Inr_iff by auto

subsection \<open>One particle\<close>

lemma MetaData_init_fields:
  assumes "MetaData_init E st i = Inr m"
  shows "meta_i m = i"
    and "star_get st ''rlnAngleRot'' i = Inr (phi m)"
    and "star_get st ''rlnAnglePsi'' i = Inr (psi m)"
    and "star_get st ''rlnAngleTilt'' i = Inr (theta m)"
    and "star_get st ''rlnOriginX'' i = Inr (x_origin m)"
    and "star_get st ''rlnOriginY'' i = Inr (y_origin m)"
  using assms unfolding MetaData_init_def ebind_Inr_iff by auto

lemma MetaData_init_cong:
  assumes "\<And>k. star_get st k i = star_get st' k i"
  shows "MetaData_init E st i = MetaData_init E st' i"
  unfolding MetaData_init_def using assms by simp

lemma particle_at_Inr:
  assumes "particle_at E st fs i = Inr (p, m)"
  shows "\<exists>s frame path rest n.
           star_get st ''rlnImageName'' i = Inr (VStr s) \<and>
           split_on (CHR ''@'') s = frame # path # rest \<and>
           int_of_str E frame = Some n \<and>
           EMData_read E fs path (n - 1) = Inr p \<and>
           MetaData_init E st i = Inr m"
proof -
  from assms obtain name where
    n: "star_get st ''rlnImageName'' i = Inr name"
    unfolding particle_at_def ebind_Inr_iff by blast
  with assms obtain s where s: "name = VStr s"
    unfolding particle_at_def by (cases name) simp_all
  from assms n s obtain frame rest0 where f: "split_on (CHR ''@'') s = frame # rest0"
    unfolding particle_at_def by (cases "split_on (CHR ''@'') s") simp_all
  from assms n s f obtain k where k: "int_of_str E frame = Some k"
    unfolding particle_at_def by (cases "int_of_str E frame") simp_all
  from assms n s f k obtain path rest where r: "rest0 = path # rest"
    unfolding particle_at_def by (cases rest0) simp_all
  from assms n s f k r have "EMData_read E fs path (k - 1) = Inr p \<and> MetaData_init E st i = Inr m"
    unfolding particle_at_def by (auto simp: ebind_Inr_iff)
  with n s f k r show ?thesis by blast
qed

text \<open>A step of the generator reads its own row of the table only.\<close>

lemma particle_at_row:
  assumes "\<And>k. star_get st k i = star_get st' k i"
  shows "particle_at E st fs i = particle_at E st' fs i"
proof -
  from assms have "MetaData_init E st i = MetaData_init E st' i" by (rule MetaData_init_cong)
  then show ?thesis unfolding particle_at_def by (simp only: assms)
qed

lemma particle_at_good:
  assumes nm: "star_get st ''rlnImageName'' i = Inr (VStr (frame @ ''@'' @ rest))"
    and fr: "CHR ''@'' \<notin> set frame" and n: "int_of_str E frame = Some n"
  shows "particle_at E st fs i =
           ebind (EMData_read E fs (takeWhile (\<lambda>c. c \<noteq> CHR ''@'') rest) (n - 1)) (\<lambda>p.
           ebind (MetaData_init E st i) (\<lambda>m. Inr (p, m)))"
proof -
  from split_on_second[OF fr, of rest] obtain more where
    "split_on (CHR ''@'') (frame @ ''@'' @ rest) = frame # takeWhile (\<lambda>c. c \<noteq> CHR ''@'') rest # more"
    by auto
  with nm n show ?thesis by (simp add: particle_at_def)
qed

lemma particle_at_bad_frame:
  assumes nm: "star_get st ''rlnImageName'' i = Inr (VStr (frame @ ''@'' @ rest))"
    and fr: "CHR ''@'' \<notin> set frame" and n: "int_of_str E frame = None"
  shows "particle_at E st fs i = Inl ValueError"
proof -
  from split_on_append[OF fr, of rest] have
    "split_on (CHR ''@'') (frame @ ''@'' @ rest) = frame # split_on (CHR ''@'') rest" by simp
  with nm n show ?thesis by (simp add: particle_at_def)
qed

lemma particle_at_no_sep:
  assumes nm: "star_get st ''rlnImageName'' i = Inr (VStr s)" and ns: "CHR ''@'' \<notin> set s"
  shows "particle_at E st fs i = Inl (if int_of_str E s = None then ValueError else IndexError)"
  using nm split_on_no_sep[OF ns] by (auto simp: particle_at_def)

lemma particle_at_bad:
  assumes nm: "star_get st ''rlnImageName'' i = Inr (VStr s)"
    and bad: "CHR ''@'' \<notin> set s \<or> int_of_str E (takeWhile (\<lambda>c. c \<noteq> CHR ''@'') s) = None"
  shows "\<exists>e. particle_at E st fs i = Inl e"
proof (cases "particle_at E st fs i")
  case (Inl e)
  then show ?thesis by blast
next
  case (Inr pm)
  obtain p m where "pm = (p, m)" by (cases pm)
  with Inr particle_at_Inr[of E st fs i p m] nm obtain frame path rest n where
    h: "split_on (CHR ''@'') s = frame # path # rest" "int_of_str E frame = Some n"
    by auto
  from h(1) split_on_hd[of "CHR ''@''" s] have f: "frame = takeWhile (\<lambda>c. c \<noteq> CHR ''@'') s" by simp
  from bad show ?thesis
  proof
    assume "CHR ''@'' \<notin> set s"
    from split_on_no_sep[OF this] h(1) show ?thesis by simp
  next
    assume "int_of_str E (takeWhile (\<lambda>c. c \<noteq> CHR ''@'') s) = None"
    with h(2) f show ?thesis by simp
  qed
qed

lemma same_shape_trans: "same_shape a c \<Longrightarrow> same_shape b c \<Longrightarrow> same_shape a b"
  by (simp add: same_shape_def)

lemma em_minus_Inr_iff:
  "em_minus a b = Inr d \<longleftrightarrow> same_shape a b \<and> d = a\<lparr>pixels := map2 (-) (pixels a) (pixels b)\<rparr>"
  by (auto simp: em_minus_def)

lemma subtract_direct_Inr:
  assumes "subtract E (p, m) dens sub_dens rc True low high = Inr r"
  shows "\<exists>cp cps. make_proj E dens m = Inr cp \<and> make_proj E sub_dens m = Inr cps \<and>
           same_shape p cps \<and> ptcl_sub r = p\<lparr>pixels := map2 (-) (pixels p) (pixels cps)\<rparr> \<and>
           process E (ptcl_sub r) ''normalize'' [] = Inr (ptcl_norm_sub r) \<and>
           ptcl r = p \<and> ctfproj r = cp \<and> ctfproj_sub r = cps"
  using assms unfolding subtract_def Let_def ebind_Inr_iff
  by (auto simp: em_minus_Inr_iff)

lemma subtract_Inr:
  assumes "subtract E (p, m) dens sub_dens rc nofrc low high = Inr r"
  shows "ptcl r = p"
    and "make_proj E dens m = Inr (ctfproj r)"
    and "make_proj E sub_dens m = Inr (ctfproj_sub r)"
    and "process E (ptcl_sub r) ''normalize'' [] = Inr (ptcl_norm_sub r)"
    and "meta_i (meta r) = meta_i m"
    and "rc = None \<Longrightarrow> meta r = m"
    and "rc = Some v \<Longrightarrow> \<exists>t x y.
           set_rotation E (Transform E) (rotation_dict m) = Inr t \<and>
           to_real (x_origin m) = Some x \<and> to_real (y_origin m) = Some y \<and>
           meta r = m\<lparr>x_origin := VFloat (x + fst (transform E t v)),
                      y_origin := VFloat (y + fst (snd (transform E t v)))\<rparr>"
proof -
  from assms obtain cp cps ps pns m' where
    h: "make_proj E dens m = Inr cp" "make_proj E sub_dens m = Inr cps"
       "process E ps ''normalize'' [] = Inr pns"
       "(case rc of
               None \<Rightarrow> Inr m
             | Some v \<Rightarrow>
                 ebind (set_rotation E (Transform E) (rotation_dict m)) (\<lambda>t.
                 (let shift = transform E t v in
                  ebind (py_add (x_origin m) (VFloat (fst shift))) (\<lambda>x'.
                  ebind (py_add (y_origin m) (VFloat (fst (snd shift)))) (\<lambda>y'.
                    Inr (m\<lparr>x_origin := x', y_origin := y'\<rparr>)))))) = Inr m'"
       "r = \<lparr>ptcl = p, meta = m', ctfproj = cp, ctfproj_sub = cps, ptcl_sub = ps,
             ptcl_norm_sub = pns\<rparr>"
    unfolding subtract_def Let_def ebind_Inr_iff fst_conv snd_conv by auto
  from h show "ptcl r = p" "make_proj E dens m = Inr (ctfproj r)"
    "make_proj E sub_dens m = Inr (ctfproj_sub r)"
    "process E (ptcl_sub r) ''normalize'' [] = Inr (ptcl_norm_sub r)" by simp_all
  from h(4,5) show "meta_i (meta r) = meta_i m"
    by (cases rc) (auto simp: ebind_Inr_iff Let_def)
  from h(4,5) show "rc = None \<Longrightarrow> meta r = m" by simp
  assume "rc = Some v"
  with h(4) obtain t x' y' where
    t: "set_rotation E (Transform E) (rotation_dict m) = Inr t"
       "py_add (x_origin m) (VFloat (fst (transform E t v))) = Inr x'"
       "py_add (y_origin m) (VFloat (fst (snd (transform E t v)))) = Inr y'"
       "m' = m\<lparr>x_origin := x', y_origin := y'\<rparr>"
    by (auto simp: ebind_Inr_iff Let_def)
  from py_add_float_Inr[OF t(2)] py_add_float_Inr[OF t(3)] t(1,4) h(5)
  show "\<exists>t x y.
           set_rotation E (Transform E) (rotation_dict m) = Inr t \<and>
           to_real (x_origin m) = Some x \<and> to_real (y_origin m) = Some y \<and>
           meta r = m\<lparr>x_origin := VFloat (x + fst (transform E t v)),
                      y_origin := VFloat (y + fst (snd (transform E t v)))\<rparr>"
    by auto
qed

lemma subtract_meta_frame:
  assumes "subtract E (p, m) dens sub_dens rc nofrc low high = Inr r"
  shows "(meta r)\<lparr>x_origin := x_origin m, y_origin := y_origin m\<rparr> = m"
proof (cases rc)
  case None
  from subtract_Inr(6)[OF assms None] show ?thesis by simp
next
  case (Some v)
  from subtract_Inr(7)[OF assms Some] show ?thesis by auto
qed

lemma subtract_direct_mismatch:
  assumes "make_proj E dens m = Inr cp" and "make_proj E sub_dens m = Inr cps"
    and "\<not> same_shape p cps"
  shows "subtract E (p, m) dens sub_dens rc True low high = Inl IncompatibleShapes"
  using assms by (simp add: subtract_def em_minus_def)

lemma sub_optimal_mismatch:
  assumes "(k, PImg r) \<in> set args" and "\<not> same_shape img r"
  shows "sub_optimal E img args = Inl IncompatibleShapes"
proof -
  from assms have "\<not> list_all (\<lambda>a. case snd a of PImg r \<Rightarrow> same_shape img r | _ \<Rightarrow> True) args"
    by (force simp: list_all_iff)
  then show ?thesis by (simp add: sub_optimal_def)
qed

lemma sub_optimal_Inr:
  assumes "sub_optimal E img args = Inr d" and "(k, PImg r) \<in> set args"
  shows "same_shape img r"
proof (rule ccontr)
  assume "\<not> same_shape img r"
  from sub_optimal_mismatch[OF assms(2) this, of E] assms(1) show False by simp
qed

lemma subtract_optimal_mismatch:
  assumes "make_proj E dens m = Inr cp" and "make_proj E sub_dens m = Inr cps"
    and "\<not> same_shape p cp \<or> \<not> same_shape p cps"
  shows "subtract E (p, m) dens sub_dens rc False low high = Inl IncompatibleShapes"
proof -
  have "sub_optimal E p [(''ref'', PImg cp), (''actual'', PImg cps),
          (''low_cutoff_frequency'', PNum low), (''high_cutoff_frequency'', PNum high)] =
        Inl IncompatibleShapes"
    using assms(3)
  proof
    assume "\<not> same_shape p cp"
    then show ?thesis by (intro sub_optimal_mismatch[of "''ref''" cp]) simp_all
  next
    assume "\<not> same_shape p cps"
    then show ?thesis by (intro sub_optimal_mismatch[of "''actual''" cps]) simp_all
  qed
  with assms(1,2) show ?thesis by (simp add: subtract_def)
qed

lemma subtract_Inr_shapes:
  assumes "subtract E (p, m) dens sub_dens rc nofrc low high = Inr r"
    and "make_proj E dens m = Inr cp" and "make_proj E sub_dens m = Inr cps"
  shows "same_shape p cps" and "\<not> nofrc \<Longrightarrow> same_shape p cp"
proof -
  show "same_shape p cps"
  proof (rule ccontr)
    assume n: "\<not> same_shape p cps"
    show False
    proof (cases nofrc)
      case True
      with subtract_direct_mismatch[OF assms(2,3) n, of rc low high] assms(1) show False by simp
    next
      case False
      from n have "\<not> same_shape p cp \<or> \<not> same_shape p cps" by simp
      from subtract_optimal_mismatch[OF assms(2,3) this, of rc low high] assms(1) False
      show False by simp
    qed
  qed
  assume f: "\<not> nofrc"
  show "same_shape p cp"
  proof (rule ccontr)
    assume "\<not> same_shape p cp"
    then have "\<not> same_shape p cp \<or> \<not> same_shape p cps" by simp
    from subtract_optimal_mismatch[OF assms(2,3) this, of rc low high] assms(1) f
    show False by simp
  qed
qed

subsection \<open>One turn of the loop\<close>

text \<open>The state the body works on after the test of the counter.\<close>

lemma write_result_Inr:
  assumes "write_result E opts hs r w = Inr w'"
  defines "w1 \<equiv> (if int (cnt w) mod maxpart opts = 0 then open_stack E opts w else w)"
  shows "maxpart opts \<noteq> 0"
    and "meta_i (meta r) = cnt w"
    and "cnt w' = Suc (cnt w)"
    and "nfile w' = nfile w1" and "starpath w' = starpath w1"
    and "mrcs w' = mrcs w1" and "mrcs_orig w' = mrcs_orig w1"
    and "\<exists>st1 st2 line. star_set (star_tab w) ''rlnImageName'' (cnt w)
                    (VStr (image_name opts (cnt w) (starpath w1))) = Inr st1 \<and>
           MetaData_update (meta r) st1 = Inr st2 \<and> star_tab w' = st2 \<and>
           star_line E st2 hs (cnt w) = Inr line \<and>
           output_star w' = output_star w @ [line]"
    and "\<exists>fs1 fs2. append_to (stacks w1) (mrcs w1) (ptcl_norm_sub r) = Inr fs1 \<and>
           (if original opts then append_to fs1 (mrcs_orig w1) (ptcl r) else Inr fs1) = Inr fs2 \<and>
           (if debug opts then debug_output E r fs2 else Inr fs2) = Inr (stacks w')"
proof -
  have st1: "star_tab w1 = star_tab w" "output_star w1 = output_star w"
    by (simp_all add: w1_def open_stack_def)
  from assms(1) show mp: "maxpart opts \<noteq> 0"
    by (auto simp: write_result_def split: if_splits)
  from assms(1) mp have body:
    "ebind (append_to (stacks w1) (mrcs w1) (ptcl_norm_sub r)) (\<lambda>fs1.
       ebind (if original opts then append_to fs1 (mrcs_orig w1) (ptcl r) else Inr fs1) (\<lambda>fs2.
       ebind (if debug opts then debug_output E r fs2 else Inr fs2) (\<lambda>fs3.
       if meta_i (meta r) \<noteq> cnt w then Inl AssertionError
       else
         ebind (star_set (star_tab w1) ''rlnImageName'' (cnt w)
                  (VStr (image_name opts (cnt w) (starpath w1)))) (\<lambda>st1.
         ebind (MetaData_update (meta r) st1) (\<lambda>st2.
         ebind (collect (map (\<lambda>key. star_get st2 key (cnt w)) hs)) (\<lambda>cells.
           Inr (w1\<lparr>cnt := cnt w + 1, star_tab := st2, stacks := fs3,
                    output_star := output_star w1 @
                      [join ''  '' (map (py_str E) cells) @ newline]\<rparr>))))))) = Inr w'"
    unfolding write_result_def w1_def Let_def by (simp only: if_False)
  then obtain fs1 fs2 fs3 where
    f: "append_to (stacks w1) (mrcs w1) (ptcl_norm_sub r) = Inr fs1"
       "(if original opts then append_to fs1 (mrcs_orig w1) (ptcl r) else Inr fs1) = Inr fs2"
       "(if debug opts then debug_output E r fs2 else Inr fs2) = Inr fs3"
    and rest: "(if meta_i (meta r) \<noteq> cnt w then Inl AssertionError
         else
           ebind (star_set (star_tab w1) ''rlnImageName'' (cnt w)
                    (VStr (image_name opts (cnt w) (starpath w1)))) (\<lambda>st1.
           ebind (MetaData_update (meta r) st1) (\<lambda>st2.
           ebind (collect (map (\<lambda>key. star_get st2 key (cnt w)) hs)) (\<lambda>cells.
             Inr (w1\<lparr>cnt := cnt w + 1, star_tab := st2, stacks := fs3,
                      output_star := output_star w1 @
                        [join ''  '' (map (py_str E) cells) @ newline]\<rparr>))))) = Inr w'"
    unfolding ebind_Inr_iff by blast
  from rest show mi: "meta_i (meta r) = cnt w" by (auto split: if_splits)
  from rest mi have rest':
    "ebind (star_set (star_tab w1) ''rlnImageName'' (cnt w)
                    (VStr (image_name opts (cnt w) (starpath w1)))) (\<lambda>st1.
           ebind (MetaData_update (meta r) st1) (\<lambda>st2.
           ebind (collect (map (\<lambda>key. star_get st2 key (cnt w)) hs)) (\<lambda>cells.
             Inr (w1\<lparr>cnt := cnt w + 1, star_tab := st2, stacks := fs3,
                      output_star := output_star w1 @
                        [join ''  '' (map (py_str E) cells) @ newline]\<rparr>)))) = Inr w'"
    by simp
  then obtain sa sb cells where
    s: "star_set (star_tab w1) ''rlnImageName'' (cnt w)
                    (VStr (image_name opts (cnt w) (starpath w1))) = Inr sa"
       "MetaData_update (meta r) sa = Inr sb"
       "collect (map (\<lambda>key. star_get sb key (cnt w)) hs) = Inr cells"
    and w'0: "Inr (w1\<lparr>cnt := cnt w + 1, star_tab := sb, stacks := fs3,
                      output_star := output_star w1 @
                        [join ''  '' (map (py_str E) cells) @ newline]\<rparr>) = (Inr w' :: error + wstate)"
    unfolding ebind_Inr_iff by blast
  from w'0 have s4: "w' = w1\<lparr>cnt := cnt w + 1, star_tab := sb, stacks := fs3,
                      output_star := output_star w1 @
                        [join ''  '' (map (py_str E) cells) @ newline]\<rparr>" by simp
  note s = s s4
  from s(4) show "cnt w' = Suc (cnt w)" "nfile w' = nfile w1" "starpath w' = starpath w1"
    "mrcs w' = mrcs w1" "mrcs_orig w' = mrcs_orig w1" by simp_all
  from s st1 show "\<exists>st1 st2 line. star_set (star_tab w) ''rlnImageName'' (cnt w)
                    (VStr (image_name opts (cnt w) (starpath w1))) = Inr st1 \<and>
           MetaData_update (meta r) st1 = Inr st2 \<and> star_tab w' = st2 \<and>
           star_line E st2 hs (cnt w) = Inr line \<and>
           output_star w' = output_star w @ [line]"
    by (simp add: star_line_def)
  from f s(4) show "\<exists>fs1 fs2. append_to (stacks w1) (mrcs w1) (ptcl_norm_sub r) = Inr fs1 \<and>
           (if original opts then append_to fs1 (mrcs_orig w1) (ptcl r) else Inr fs1) = Inr fs2 \<and>
           (if debug opts then debug_output E r fs2 else Inr fs2) = Inr (stacks w')"
    by simp
qed

lemma write_result_row:
  assumes "write_result E opts hs r w = Inr w'"
  shows "star_get (star_tab w') k (cnt w) =
           (if k = ''rlnOriginY'' then Inr (y_origin (meta r))
            else if k = ''rlnOriginX'' then Inr (x_origin (meta r))
            else if k = ''rlnImageName'' then Inr (VStr (image_name opts (cnt w) (starpath w')))
            else star_get (star_tab w) k (cnt w))"
proof -
  from write_result_Inr(8)[OF assms] write_result_Inr(5)[OF assms] obtain st1 where
    s: "star_set (star_tab w) ''rlnImageName'' (cnt w) (VStr (image_name opts (cnt w) (starpath w'))) = Inr st1"
       "MetaData_update (meta r) st1 = Inr (star_tab w')"
    by auto
  have mi: "meta_i (meta r) = cnt w" by (rule write_result_Inr(2)[OF assms])
  show ?thesis
    using MetaData_update_Inr(1)[OF s(2)] star_get_star_set[OF s(1)] mi by simp
qed

lemma write_result_mismatch:
  assumes "meta_i (meta r) \<noteq> cnt w"
  shows "\<exists>e. write_result E opts hs r w = Inl e"
proof (cases "write_result E opts hs r w")
  case (Inl e)
  then show ?thesis by blast
next
  case (Inr w')
  from write_result_Inr(2)[OF this] assms show ?thesis by simp
qed

lemma debug_output_Inr_files:
  assumes "debug_output E r fs = Inr fs1"
  shows "\<exists>fs2. debug_output E r fs' = Inr fs2"
  using assms unfolding debug_output_def ebind_Inr_iff by auto

lemma write_result_assertion:
  assumes ne: "meta_i (meta r) \<noteq> cnt w" and mp: "maxpart opts \<noteq> 0"
    and st: "int (cnt w) mod maxpart opts = 0 \<or>
             (mrcs w \<noteq> None \<and> (original opts \<longrightarrow> mrcs_orig w \<noteq> None))"
    and db: "debug opts \<longrightarrow> (\<exists>fs fs'. debug_output E r fs = Inr fs')"
  shows "write_result E opts hs r w = Inl AssertionError"
proof -
  define w1 where "w1 = (if int (cnt w) mod maxpart opts = 0 then open_stack E opts w else w)"
  from st have m1: "mrcs w1 \<noteq> None" and m2: "original opts \<longrightarrow> mrcs_orig w1 \<noteq> None"
    by (auto simp: w1_def open_stack_def)
  from m1 obtain fs1 where f1: "append_to (stacks w1) (mrcs w1) (ptcl_norm_sub r) = Inr fs1"
    by (auto simp: append_to_def)
  have "\<exists>fs2. (if original opts then append_to fs1 (mrcs_orig w1) (ptcl r) else Inr fs1) = Inr fs2"
  proof (cases "original opts")
    case True
    with m2 obtain path where "mrcs_orig w1 = Some path" by auto
    with True show ?thesis by (simp add: append_to_def)
  next
    case False
    then show ?thesis by simp
  qed
  then obtain fs2 where
    f2: "(if original opts then append_to fs1 (mrcs_orig w1) (ptcl r) else Inr fs1) = Inr fs2"
    by blast
  have "\<exists>fs3. (if debug opts then debug_output E r fs2 else Inr fs2) = Inr fs3"
  proof (cases "debug opts")
    case True
    with db obtain fs fs' where "debug_output E r fs = Inr fs'" by blast
    from debug_output_Inr_files[OF this, of fs2] True show ?thesis by simp
  next
    case False
    then show ?thesis by simp
  qed
  then obtain fs3 where f3: "(if debug opts then debug_output E r fs2 else Inr fs2) = Inr fs3"
    by blast
  have "write_result E opts hs r w =
      ebind (append_to (stacks w1) (mrcs w1) (ptcl_norm_sub r)) (\<lambda>fs1.
       ebind (if original opts then append_to fs1 (mrcs_orig w1) (ptcl r) else Inr fs1) (\<lambda>fs2.
       ebind (if debug opts then debug_output E r fs2 else Inr fs2) (\<lambda>fs3.
         Inl AssertionError)))"
    using mp ne unfolding write_result_def w1_def Let_def by (simp only: if_False if_True not_False_eq_True)
  also have "\<dots> = Inl AssertionError"
    by (simp only: f1 f2 f3 ebind_Inr)
  finally show ?thesis .
qed

lemma write_result_nfile_mono:
  assumes "write_result E opts hs r w = Inr w'"
  shows "nfile w \<le> nfile w'"
  using write_result_Inr(4)[OF assms] by (simp add: open_stack_def)

lemma write_result_star:
  assumes wr: "write_result E opts hs r w = Inr w'"
  shows "map fst (star_tab w') = map fst (star_tab w)"
    and "star_len (star_tab w') k = star_len (star_tab w) k"
    and "i \<noteq> cnt w \<Longrightarrow> star_get (star_tab w') k i = star_get (star_tab w) k i"
    and "k \<noteq> ''rlnImageName'' \<Longrightarrow> k \<noteq> ''rlnOriginX'' \<Longrightarrow> k \<noteq> ''rlnOriginY'' \<Longrightarrow>
           star_get (star_tab w') k i = star_get (star_tab w) k i"
proof -
  from write_result_Inr(8)[OF wr] obtain st1 sp where
    s: "star_set (star_tab w) ''rlnImageName'' (cnt w) (VStr (image_name opts (cnt w) sp)) = Inr st1"
       "MetaData_update (meta r) st1 = Inr (star_tab w')"
    by blast
  show "map fst (star_tab w') = map fst (star_tab w)"
    using MetaData_update_Inr(2)[OF s(2)] star_set_keys[OF s(1)] by simp
  show "star_len (star_tab w') k = star_len (star_tab w) k"
    using MetaData_update_Inr(3)[OF s(2)] star_len_star_set[OF s(1)] by simp
  have mi: "meta_i (meta r) = cnt w" by (rule write_result_Inr(2)[OF wr])
  show "i \<noteq> cnt w \<Longrightarrow> star_get (star_tab w') k i = star_get (star_tab w) k i"
    using MetaData_update_Inr(1)[OF s(2)] star_get_star_set[OF s(1)] mi by simp
  show "k \<noteq> ''rlnImageName'' \<Longrightarrow> k \<noteq> ''rlnOriginX'' \<Longrightarrow> k \<noteq> ''rlnOriginY'' \<Longrightarrow>
           star_get (star_tab w') k i = star_get (star_tab w) k i"
    using MetaData_update_Inr(1)[OF s(2)] star_get_star_set[OF s(1)] by simp
qed

lemma write_result_output:
  assumes "write_result E opts hs r w = Inr w'"
  shows "\<exists>line. star_line E (star_tab w') hs (cnt w) = Inr line \<and>
           output_star w' = output_star w @ [line]"
  using write_result_Inr(8)[OF assms] by blast

lemma write_result_open:
  assumes "write_result E opts hs r w = Inr w'"
  shows "mrcs w' \<noteq> None" and "original opts \<Longrightarrow> mrcs_orig w' \<noteq> None"
proof -
  define w1 where "w1 = (if int (cnt w) mod maxpart opts = 0 then open_stack E opts w else w)"
  note W = write_result_Inr[OF assms, folded w1_def]
  from W(9) obtain fs1 fs2 where
    f: "append_to (stacks w1) (mrcs w1) (ptcl_norm_sub r) = Inr fs1"
       "(if original opts then append_to fs1 (mrcs_orig w1) (ptcl r) else Inr fs1) = Inr fs2"
    by blast
  from f(1) W(6) show "mrcs w' \<noteq> None" by (auto simp: append_to_def split: option.splits)
  assume "original opts"
  with f(2) W(7) show "mrcs_orig w' \<noteq> None" by (auto simp: append_to_def split: option.splits)
qed

subsection \<open>The loop\<close>

lemma for_results_Cons_Inr:
  "for_results E opts hs (x # xs) w = Inr w' \<longleftrightarrow>
     (\<exists>r w1. x (star_tab w) (stacks w) = Inr r \<and> write_result E opts hs r w = Inr w1 \<and>
             for_results E opts hs xs w1 = Inr w')"
  by (auto simp: ebind_Inr_iff split: sum.splits)

lemma for_results_append:
  "for_results E opts hs (xs1 @ xs2) w = Inr w' \<longleftrightarrow>
     (\<exists>wm. for_results E opts hs xs1 w = Inr wm \<and> for_results E opts hs xs2 wm = Inr w')"
  by (induction xs1 arbitrary: w) (auto split: sum.splits)

text \<open>An exception of a result or of the body ends the loop: no later result is asked for.\<close>

lemma for_results_abort:
  assumes "for_results E opts hs xs1 w = Inr wa"
    and "ebind (x (star_tab wa) (stacks wa)) (\<lambda>r. write_result E opts hs r wa) = Inl e"
  shows "for_results E opts hs (xs1 @ x # xs2) w = Inl e"
  using assms by (induction xs1 arbitrary: w) (auto split: sum.splits)

lemma for_results_cnt:
  "for_results E opts hs xs w = Inr w' \<Longrightarrow> cnt w' = cnt w + length xs"
proof (induction xs arbitrary: w)
  case Nil
  then show ?case by simp
next
  case (Cons x xs)
  from Cons.prems obtain r w1 where
    w1: "write_result E opts hs r w = Inr w1" "for_results E opts hs xs w1 = Inr w'"
    unfolding for_results_Cons_Inr by blast
  from write_result_Inr(3)[OF w1(1)] Cons.IH[OF w1(2)] show ?case by simp
qed

lemma for_results_star:
  assumes "for_results E opts hs xs w = Inr w'"
  shows "map fst (star_tab w') = map fst (star_tab w)"
    and "star_len (star_tab w') k = star_len (star_tab w) k"
    and "i < cnt w \<or> cnt w' \<le> i \<Longrightarrow> star_get (star_tab w') k i = star_get (star_tab w) k i"
    and "k \<noteq> ''rlnImageName'' \<Longrightarrow> k \<noteq> ''rlnOriginX'' \<Longrightarrow> k \<noteq> ''rlnOriginY'' \<Longrightarrow>
           star_get (star_tab w') k i = star_get (star_tab w) k i"
  using assms
proof (induction xs arbitrary: w)
  case Nil
  { case 1 then show ?case by simp }
  { case 2 then show ?case by simp }
  { case 3 then show ?case by simp }
  { case 4 then show ?case by simp }
next
  case (Cons x xs)
  { case 1
    then obtain r w1 where
      w1: "write_result E opts hs r w = Inr w1" "for_results E opts hs xs w1 = Inr w'"
      unfolding for_results_Cons_Inr by blast
    show ?case using Cons.IH(1)[OF w1(2)] write_result_star(1)[OF w1(1)] by simp }
  { case 2
    then obtain r w1 where
      w1: "write_result E opts hs r w = Inr w1" "for_results E opts hs xs w1 = Inr w'"
      unfolding for_results_Cons_Inr by blast
    show ?case using Cons.IH(2)[OF w1(2)] write_result_star(2)[OF w1(1)] by simp }
  { case 3
    from 3(2) obtain r w1 where
      w1: "write_result E opts hs r w = Inr w1" "for_results E opts hs xs w1 = Inr w'"
      unfolding for_results_Cons_Inr by blast
    from write_result_Inr(3)[OF w1(1)] have c: "cnt w1 = Suc (cnt w)" .
    from for_results_cnt[OF w1(2)] c have c': "cnt w' \<ge> Suc (cnt w)" by simp
    from 3(1) c c' have a: "i < cnt w1 \<or> cnt w' \<le> i" and b: "i \<noteq> cnt w" by auto
    show ?case using Cons.IH(3)[OF a w1(2)] write_result_star(3)[OF w1(1) b] by simp }
  { case 4
    from 4(4) obtain r w1 where
      w1: "write_result E opts hs r w = Inr w1" "for_results E opts hs xs w1 = Inr w'"
      unfolding for_results_Cons_Inr by blast
    show ?case using Cons.IH(4)[OF 4(1-3) w1(2)] write_result_star(4)[OF w1(1) 4(1-3)] by simp }
qed

lemma for_results_output:
  "for_results E opts hs xs w = Inr w' \<Longrightarrow>
     \<exists>ls. output_star w' = output_star w @ ls \<and> length ls = length xs"
proof (induction xs arbitrary: w)
  case Nil
  then show ?case by simp
next
  case (Cons x xs)
  from Cons.prems obtain r w1 where
    w1: "write_result E opts hs r w = Inr w1" "for_results E opts hs xs w1 = Inr w'"
    unfolding for_results_Cons_Inr by blast
  from write_result_output[OF w1(1)] obtain line where l: "output_star w1 = output_star w @ [line]"
    by blast
  from Cons.IH[OF w1(2)] obtain ls where "output_star w' = output_star w1 @ ls" "length ls = length xs"
    by blast
  with l have "output_star w' = output_star w @ (line # ls) \<and> length (line # ls) = length (x # xs)"
    by simp
  then show ?case by blast
qed

lemma for_results_split:
  assumes L: "for_results E opts hs xs w = Inr w'" and k: "k < length xs"
  shows "\<exists>wa r wb. for_results E opts hs (take k xs) w = Inr wa \<and> cnt wa = cnt w + k \<and>
           (xs ! k) (star_tab wa) (stacks wa) = Inr r \<and>
           write_result E opts hs r wa = Inr wb \<and>
           for_results E opts hs (drop (Suc k) xs) wb = Inr w'"
proof -
  from k have "xs = take k xs @ xs ! k # drop (Suc k) xs" by (simp add: id_take_nth_drop)
  with L have "for_results E opts hs (take k xs @ xs ! k # drop (Suc k) xs) w = Inr w'" by simp
  then obtain wa r wb where
    a: "for_results E opts hs (take k xs) w = Inr wa"
       "(xs ! k) (star_tab wa) (stacks wa) = Inr r"
       "write_result E opts hs r wa = Inr wb"
       "for_results E opts hs (drop (Suc k) xs) wb = Inr w'"
    unfolding for_results_append for_results_Cons_Inr by blast
  from for_results_cnt[OF a(1)] k have "cnt wa = cnt w + k" by simp
  with a show ?thesis by blast
qed

text \<open>What the turn for result \<open>k\<close> works on and what it leaves behind.\<close>

lemma for_results_row:
  assumes L: "for_results E opts hs xs w = Inr w'" and k: "k < length xs"
  shows "\<exists>wa r wb.
           for_results E opts hs (take k xs) w = Inr wa \<and> cnt wa = cnt w + k \<and>
           (xs ! k) (star_tab wa) (stacks wa) = Inr r \<and>
           write_result E opts hs r wa = Inr wb \<and>
           (\<forall>key. star_get (star_tab wa) key (cnt w + k) = star_get (star_tab w) key (cnt w + k)) \<and>
           (\<forall>key. star_get (star_tab w') key (cnt w + k) = star_get (star_tab wb) key (cnt w + k)) \<and>
           star_line E (star_tab w') hs (cnt w + k) = Inr (output_star w' ! (length (output_star w) + k))"
proof -
  from for_results_split[OF L k] obtain wa r wb where
    s: "for_results E opts hs (take k xs) w = Inr wa" "cnt wa = cnt w + k"
       "(xs ! k) (star_tab wa) (stacks wa) = Inr r"
       "write_result E opts hs r wa = Inr wb"
       "for_results E opts hs (drop (Suc k) xs) wb = Inr w'"
    by blast
  from write_result_Inr(3)[OF s(4)] s(2) have cb: "cnt wb = Suc (cnt w + k)" by simp
  have pre: "\<forall>key. star_get (star_tab wa) key (cnt w + k) = star_get (star_tab w) key (cnt w + k)"
    using for_results_star(3)[OF s(1)] s(2) by simp
  have post: "\<forall>key. star_get (star_tab w') key (cnt w + k) = star_get (star_tab wb) key (cnt w + k)"
    using for_results_star(3)[OF s(5)] cb by simp
  from write_result_output[OF s(4)] s(2) obtain line where
    l: "star_line E (star_tab wb) hs (cnt w + k) = Inr line" "output_star wb = output_star wa @ [line]"
    by auto
  from for_results_output[OF s(1)] k obtain ls1 where
    l1: "output_star wa = output_star w @ ls1" "length ls1 = k" by auto
  from for_results_output[OF s(5)] obtain ls2 where
    l2: "output_star w' = output_star wb @ ls2" by blast
  from l(2) l1 l2 have "output_star w' = (output_star w @ ls1) @ line # ls2" by simp
  moreover from l1(2) have "length (output_star w @ ls1) = length (output_star w) + k"
    by simp
  ultimately have "output_star w' ! (length (output_star w) + k) = line"
    by (metis nth_append_length)
  moreover have "star_line E (star_tab w') hs (cnt w + k) = star_line E (star_tab wb) hs (cnt w + k)"
    by (rule star_line_cong) (simp add: post)
  ultimately have ln: "star_line E (star_tab w') hs (cnt w + k) =
      Inr (output_star w' ! (length (output_star w) + k))" using l(1) by simp
  show ?thesis
    using s(1) s(2) s(3) s(4) pre post ln by (intro exI conjI)
qed

lemma for_results_open:
  assumes "for_results E opts hs xs w = Inr w'" and "xs \<noteq> []"
  shows "mrcs w' \<noteq> None" and "original opts \<Longrightarrow> mrcs_orig w' \<noteq> None"
proof -
  from assms(2) have "xs = butlast xs @ [last xs]" by simp
  with assms(1) have "for_results E opts hs (butlast xs @ [last xs]) w = Inr w'" by simp
  then obtain wm r where wr: "write_result E opts hs r wm = Inr w'"
    unfolding for_results_append for_results_Cons_Inr by auto
  from write_result_open(1)[OF wr] show "mrcs w' \<noteq> None" .
  assume "original opts"
  with write_result_open(2)[OF wr] show "mrcs_orig w' \<noteq> None" .
qed

text \<open>Every result the loop has consumed carried the count of its turn.\<close>

lemma for_results_index:
  assumes L: "for_results E opts hs xs w = Inr w'" and k: "k < length xs"
  shows "\<exists>wa r wb. cnt wa = cnt w + k \<and> (xs ! k) (star_tab wa) (stacks wa) = Inr r \<and>
           write_result E opts hs r wa = Inr wb \<and> meta_i (meta r) = cnt w + k"
proof -
  from for_results_split[OF L k] obtain wa r wb where
    s: "cnt wa = cnt w + k" "(xs ! k) (star_tab wa) (stacks wa) = Inr r"
       "write_result E opts hs r wa = Inr wb"
    by blast
  from write_result_Inr(2)[OF s(3)] s(1) have "meta_i (meta r) = cnt w + k" by simp
  with s show ?thesis by blast
qed

subsection \<open>The stacks during the loop\<close>

lemma rot_iff:
  assumes "maxpart opts = int m"
  shows "(int i mod maxpart opts = 0) = (i mod m = 0)"
    and "int i mod maxpart opts + 1 = int (i mod m) + 1"
  using assms by (simp_all add: zmod_int[symmetric] del: zmod_int)

lemma div_pred:
  assumes "0 < (i::nat)" and "0 < m"
  shows "(i - Suc 0) div m = (if i mod m = 0 then i div m - 1 else i div m)"
proof -
  from assms(1) obtain j where j: "i = Suc j" by (cases i) auto
  show ?thesis using assms(2) unfolding j by (auto simp: div_Suc)
qed

lemma div_pos_of_mod0: "0 < (i::nat) \<Longrightarrow> 0 < m \<Longrightarrow> i mod m = 0 \<Longrightarrow> 0 < i div m"
  by (metis div_greater_zero_iff dvd_imp_le mod_0_imp_dvd)

lemma write_result_stack_inv:
  assumes wr: "write_result E opts hs r w = Inr w'"
    and mp: "maxpart opts = int m" and m: "0 < m"
    and inv: "stack_inv E opts m w"
  shows "nfile w' = int (cnt w div m) + 2"
    and "starpath w' = Some (star_path E opts (int (cnt w div m) + 1))"
    and "mrcs w' = Some (stack_name opts (int (cnt w div m) + 1))"
    and "mrcs_orig w' = Some (orig_name opts (int (cnt w div m) + 1))"
    and "stack_inv E opts m w'"
    and "cnt w mod m = 0 \<Longrightarrow> nfile w = int (cnt w div m) + 1"
proof -
  define w1 where "w1 = (if int (cnt w) mod maxpart opts = 0 then open_stack E opts w else w)"
  note W = write_result_Inr[OF wr, folded w1_def]
  have rot0: "cnt w mod m = 0 \<Longrightarrow> nfile w = int (cnt w div m) + 1"
  proof -
    assume z: "cnt w mod m = 0"
    show "nfile w = int (cnt w div m) + 1"
    proof (cases "cnt w = 0")
      case True
      with inv show ?thesis by (simp add: stack_inv_def)
    next
      case False
      with z m have "0 < cnt w div m" by (simp add: div_pos_of_mod0)
      with False inv z m show ?thesis
        by (simp add: stack_inv_def div_pred of_nat_diff)
    qed
  qed
  then show "cnt w mod m = 0 \<Longrightarrow> nfile w = int (cnt w div m) + 1" .
  have a: "nfile w1 = int (cnt w div m) + 2 \<and>
        starpath w1 = Some (star_path E opts (int (cnt w div m) + 1)) \<and>
        mrcs w1 = Some (stack_name opts (int (cnt w div m) + 1)) \<and>
        mrcs_orig w1 = Some (orig_name opts (int (cnt w div m) + 1))"
  proof (cases "cnt w mod m = 0")
    case True
    with rot0 show ?thesis
      by (simp add: w1_def rot_iff(1)[OF mp] open_stack_def)
  next
    case False
    then have "cnt w \<noteq> 0" by (cases "cnt w = 0") simp_all
    with False inv m show ?thesis
      by (simp add: w1_def rot_iff(1)[OF mp] stack_inv_def div_pred add.commute)
  qed
  with W(4-7) show "nfile w' = int (cnt w div m) + 2"
    "starpath w' = Some (star_path E opts (int (cnt w div m) + 1))"
    "mrcs w' = Some (stack_name opts (int (cnt w div m) + 1))"
    "mrcs_orig w' = Some (orig_name opts (int (cnt w div m) + 1))" by simp_all
  with W(3) show "stack_inv E opts m w'" by (simp add: stack_inv_def add.commute)
qed

lemma write_result_stacks:
  assumes wr: "write_result E opts hs r w = Inr w'"
    and mp: "maxpart opts = int m" and m: "0 < m"
    and inv: "stack_inv E opts m w"
  shows "stacks w' (stack_name opts k) =
           (if k = int (cnt w div m) + 1
            then Some ((if cnt w mod m = 0 then [] else stack_list (stacks w) (stack_name opts k)) @
                         [ptcl_norm_sub r])
            else stacks w (stack_name opts k))"
    and "stacks w' (orig_name opts k) =
           (if k = int (cnt w div m) + 1
            then (if original opts
                  then Some ((if cnt w mod m = 0 then [] else stack_list (stacks w) (orig_name opts k)) @
                         [ptcl r])
                  else if cnt w mod m = 0 then None else stacks w (orig_name opts k))
            else stacks w (orig_name opts k))"
proof -
  define w1 where "w1 = (if int (cnt w) mod maxpart opts = 0 then open_stack E opts w else w)"
  define c where "c = int (cnt w div m) + 1"
  note W = write_result_Inr[OF wr, folded w1_def]
  note I = write_result_stack_inv[OF wr mp m inv, folded c_def]
  from W(6,7) I(3,4) have cur: "mrcs w1 = Some (stack_name opts c)" "mrcs_orig w1 = Some (orig_name opts c)"
    by simp_all
  from W(9) cur obtain fs3 where
    f: "(if debug opts then debug_output E r fs3 else Inr fs3) = Inr (stacks w')"
       "fs3 = (if original opts
               then append_image (append_image (stacks w1) (stack_name opts c) (ptcl_norm_sub r))
                      (orig_name opts c) (ptcl r)
               else append_image (stacks w1) (stack_name opts c) (ptcl_norm_sub r))"
    by (auto simp: append_to_def split: if_splits)
  have d: "\<And>q. q \<notin> debug_names \<Longrightarrow> stacks w' q = fs3 q"
    using f(1) by (auto split: if_splits dest: debug_output_apply)
  have s1: "\<And>q. stacks w1 q =
      (if cnt w mod m = 0 \<and> (q = stack_name opts c \<or> q = orig_name opts c) then None else stacks w q)"
    using I(6) by (auto simp: w1_def rot_iff(1)[OF mp] open_stack_def remove_if_exists_apply c_def)
  have sl: "stack_list (stacks w1) (stack_name opts c) =
        (if cnt w mod m = 0 then [] else stack_list (stacks w) (stack_name opts c))"
       "stack_list (stacks w1) (orig_name opts c) =
        (if cnt w mod m = 0 then [] else stack_list (stacks w) (orig_name opts c))"
    by (simp_all add: stack_list_def s1)
  show "stacks w' (stack_name opts k) =
           (if k = c
            then Some ((if cnt w mod m = 0 then [] else stack_list (stacks w) (stack_name opts k)) @
                         [ptcl_norm_sub r])
            else stacks w (stack_name opts k))"
    using sl(1)
    by (simp add: d[OF stack_name_not_debug] f(2) append_image_apply stack_name_neq_orig
          stack_name_inj s1)
  show "stacks w' (orig_name opts k) =
           (if k = c
            then (if original opts
                  then Some ((if cnt w mod m = 0 then [] else stack_list (stacks w) (orig_name opts k)) @
                         [ptcl r])
                  else if cnt w mod m = 0 then None else stacks w (orig_name opts k))
            else stacks w (orig_name opts k))"
    using sl(2)
    by (simp add: d[OF orig_name_not_debug] f(2) append_image_apply stack_name_neq_orig[symmetric]
          orig_name_inj s1 stack_list_def)
qed

lemma older_stack_full:
  assumes "q * m < Suc i" and "q \<noteq> i div m" and "0 < (m::nat)"
  shows "q * m + m \<le> i"
proof -
  from assms(1) have "q * m \<le> i" by simp
  with assms(3) have "q \<le> i div m" by (simp add: less_eq_div_iff_mult_less_eq)
  with assms(2) have "Suc q \<le> i div m" by simp
  then have "Suc q * m \<le> (i div m) * m" by (rule mult_le_mono1)
  also have "\<dots> \<le> i" by simp
  finally show ?thesis by (simp add: add.commute)
qed

lemma write_result_files_inv:
  assumes wr: "write_result E opts hs r w = Inr w'"
    and mp: "maxpart opts = int m" and m: "0 < m"
    and inv: "stack_inv E opts m w"
    and F: "files_inv opts m fs0 w"
  shows "files_inv opts m fs0 w'"
proof -
  define i where "i = cnt w"
  note S = write_result_stacks[OF wr mp m inv, folded i_def]
  note I = write_result_stack_inv[OF wr mp m inv, folded i_def]
  have c': "cnt w' = Suc i" using write_result_Inr(3)[OF wr] by (simp add: i_def)
  have cur: "\<And>q. (int q + 1 = int (i div m) + 1) = (q = i div m)" by auto
  have modlt: "i mod m < m" using m by simp
  have rem: "i - (i div m) * m = i mod m" by (simp add: minus_div_mult_eq_mod)
  have rem': "Suc i - (i div m) * m = Suc (i mod m)"
    by (metis Suc_diff_le div_mult_mod_eq le_add1 rem)
  have F1: "\<And>q. q * m < i \<Longrightarrow>
         stacks w (stack_name opts (int q + 1)) \<noteq> None \<and>
         length (stack_list (stacks w) (stack_name opts (int q + 1))) = min m (i - q * m) \<and>
         (if original opts
          then stacks w (orig_name opts (int q + 1)) \<noteq> None \<and>
               length (stack_list (stacks w) (orig_name opts (int q + 1))) = min m (i - q * m)
          else stacks w (orig_name opts (int q + 1)) = None)"
    using F unfolding files_inv_def i_def by blast
  have F3: "\<And>k. k < 1 \<or> nfile w \<le> k \<Longrightarrow>
         stacks w (stack_name opts k) = fs0 (stack_name opts k) \<and>
         stacks w (orig_name opts k) = fs0 (orig_name opts k)"
    using F unfolding files_inv_def by blast
  have A: "stacks w' (stack_name opts (int q + 1)) \<noteq> None \<and>
         length (stack_list (stacks w') (stack_name opts (int q + 1))) = min m (Suc i - q * m) \<and>
         (if original opts
          then stacks w' (orig_name opts (int q + 1)) \<noteq> None \<and>
               length (stack_list (stacks w') (orig_name opts (int q + 1))) = min m (Suc i - q * m)
          else stacks w' (orig_name opts (int q + 1)) = None)"
    if q: "q * m < Suc i" for q
  proof (cases "q = i div m")
    case True
    show ?thesis
    proof (cases "i mod m = 0")
      case z: True
      with True m show ?thesis
        by (simp add: S cur stack_list_def rem')
    next
      case nz: False
      have lt: "(i div m) * m < i" using nz
        by (metis div_mult_mod_eq less_add_same_cancel1 neq0_conv)
      have mn: "min m (i mod m) = i mod m" "min m (Suc (i mod m)) = Suc (i mod m)"
        using modlt by simp_all
      note G = F1[OF lt, unfolded rem mn]
      from G have g1: "length (stack_list (stacks w) (stack_name opts (int (i div m) + 1))) = i mod m"
        by simp
      have s1: "stacks w' (stack_name opts (int (i div m) + 1)) \<noteq> None"
        "length (stack_list (stacks w') (stack_name opts (int (i div m) + 1))) = Suc (i mod m)"
        using g1 nz by (simp_all add: S stack_list_def)
      have s2: "(if original opts
          then stacks w' (orig_name opts (int (i div m) + 1)) \<noteq> None \<and>
               length (stack_list (stacks w') (orig_name opts (int (i div m) + 1))) = Suc (i mod m)
          else stacks w' (orig_name opts (int (i div m) + 1)) = None)"
      proof (cases "original opts")
        case True
        with G have "length (stack_list (stacks w) (orig_name opts (int (i div m) + 1))) = i mod m"
          by simp
        with True nz show ?thesis by (simp add: S stack_list_def)
      next
        case False
        with G have "stacks w (orig_name opts (int (i div m) + 1)) = None" by simp
        with False nz show ?thesis by (simp add: S)
      qed
      show ?thesis unfolding True rem' mn using s1 s2 by simp
    qed
  next
    case False
    from older_stack_full[OF q False m] have full: "q * m + m \<le> i" .
    then have lt: "q * m < i" using m by simp
    from full have mn: "min m (i - q * m) = m" "min m (Suc i - q * m) = m" by simp_all
    have e: "stacks w' (stack_name opts (int q + 1)) = stacks w (stack_name opts (int q + 1))"
      "stacks w' (orig_name opts (int q + 1)) = stacks w (orig_name opts (int q + 1))"
      using False by (simp_all add: S cur)
    then have e': "stack_list (stacks w') (stack_name opts (int q + 1)) =
        stack_list (stacks w) (stack_name opts (int q + 1))"
      "stack_list (stacks w') (orig_name opts (int q + 1)) =
        stack_list (stacks w) (orig_name opts (int q + 1))"
      by (simp_all add: stack_list_def)
    from F1[OF lt] show ?thesis unfolding e e' mn .
  qed
  have B: "stacks w' (stack_name opts k) = fs0 (stack_name opts k) \<and>
         stacks w' (orig_name opts k) = fs0 (orig_name opts k)"
    if k: "k < 1 \<or> nfile w' \<le> k" for k
  proof -
    from k I(1) have ne: "k \<noteq> int (i div m) + 1" by auto
    from k write_result_nfile_mono[OF wr] have "k < 1 \<or> nfile w \<le> k" by auto
    from F3[OF this] ne show ?thesis by (simp add: S)
  qed
  show ?thesis unfolding files_inv_def c' using A B by blast
qed

lemma for_results_invs:
  assumes "for_results E opts hs xs w = Inr w'"
    and "maxpart opts = int m" and "0 < m"
    and "stack_inv E opts m w"
    and "files_inv opts m fs0 w"
  shows "stack_inv E opts m w' \<and> files_inv opts m fs0 w'"
  using assms
proof (induction xs arbitrary: w)
  case Nil
  then show ?case by simp
next
  case (Cons x xs)
  from Cons.prems(1) obtain r w1 where
    w1: "write_result E opts hs r w = Inr w1" "for_results E opts hs xs w1 = Inr w'"
    unfolding for_results_Cons_Inr by blast
  have "stack_inv E opts m w1"
    by (rule write_result_stack_inv(5)[OF w1(1) Cons.prems(2,3,4)])
  moreover have "files_inv opts m fs0 w1"
    by (rule write_result_files_inv[OF w1(1) Cons.prems(2,3,4,5)])
  ultimately show ?case using Cons.IH[OF w1(2) Cons.prems(2,3)] by blast
qed

lemma init_state_invs:
  "stack_inv E opts m (init_state star0 fs0)" "files_inv opts m fs0 (init_state star0 fs0)"
  by (simp_all add: stack_inv_def files_inv_def init_state_def)

lemma stacks_count: "0 < (m::nat) \<Longrightarrow> (q * m < N) = (q < (N + m - 1) div m)"
proof -
  assume m: "0 < m"
  have "(q < (N + m - 1) div m) = (Suc q \<le> (N + m - 1) div m)" by auto
  also have "\<dots> = (Suc q * m \<le> N + m - 1)" using m by (simp add: less_eq_div_iff_mult_less_eq)
  also have "\<dots> = (q * m < N)" using m by auto
  finally show ?thesis by simp
qed

lemma stack_inv_nfile:
  assumes "stack_inv E opts m w" and "0 < m"
  shows "nfile w = 1 + int ((cnt w + m - 1) div m)"
proof (cases "cnt w = 0")
  case True
  with assms show ?thesis by (simp add: stack_inv_def)
next
  case False
  then obtain j where j: "cnt w = Suc j" by (cases "cnt w") auto
  have "(Suc j + m - 1) div m = (j + m) div m" by simp
  also have "\<dots> = j div m + 1" using assms(2) by simp
  finally show ?thesis using assms(1) j by (simp add: stack_inv_def)
qed

text \<open>What one turn of the loop does to the stacks, in a state the loop of \<open>main\<close> reaches.\<close>

lemma write_result_rotation:
  assumes wr: "write_result E opts hs r w = Inr w'"
    and mp: "maxpart opts = int m" and m: "0 < m"
    and inv: "stack_inv E opts m w"
  shows "if cnt w mod m = 0
         then nfile w' = nfile w + 1 \<and> mrcs w' = Some (stack_name opts (nfile w)) \<and>
              stacks w' (stack_name opts (nfile w)) = Some [ptcl_norm_sub r] \<and>
              stacks w' (orig_name opts (nfile w)) = (if original opts then Some [ptcl r] else None)
         else nfile w' = nfile w \<and> mrcs w' = mrcs w \<and>
              stacks w' (stack_name opts (nfile w - 1)) =
                Some (stack_list (stacks w) (stack_name opts (nfile w - 1)) @ [ptcl_norm_sub r]) \<and>
              stacks w' (orig_name opts (nfile w - 1)) =
                (if original opts
                 then Some (stack_list (stacks w) (orig_name opts (nfile w - 1)) @ [ptcl r])
                 else stacks w (orig_name opts (nfile w - 1)))"
proof (cases "cnt w mod m = 0")
  case True
  note I = write_result_stack_inv[OF wr mp m inv]
  from I(6)[OF True] have n: "nfile w = int (cnt w div m) + 1" .
  from I(1,3) n True show ?thesis
    by (simp add: write_result_stacks[OF wr mp m inv])
next
  case False
  then have pos: "cnt w \<noteq> 0" by (cases "cnt w = 0") simp_all
  note I = write_result_stack_inv[OF wr mp m inv]
  from inv pos False m have n: "nfile w = int (cnt w div m) + 2"
    and cur: "mrcs w = Some (stack_name opts (nfile w - 1))"
    by (simp_all add: stack_inv_def div_pred)
  from n have n1: "nfile w - 1 = int (cnt w div m) + 1" by simp
  from I(1,3) n cur False show ?thesis
    unfolding n1 by (simp add: write_result_stacks[OF wr mp m inv])
qed

subsection \<open>The whole run\<close>

lemma particles_nth:
  assumes "star_len star0 ''rlnImageName'' = Inr N"
  shows "length (particles E star0) = N"
    and "i < N \<Longrightarrow> particles E star0 ! i = (\<lambda>st fs. particle_at E st fs i)"
  using assms by (simp_all add: particles_def)

text \<open>
  Result \<open>i\<close> of either branch: \<open>subtract\<close> of the particle of row \<open>i\<close>, read from the
  table of the turn, and from the files of the turn or those the pool has seen.
\<close>

lemma results_nth:
  assumes len: "star_len star0 ''rlnImageName'' = Inr N"
  shows "length (results E opts star0 dens sub_dens rc n) = N"
    and "i < N \<Longrightarrow> (results E opts star0 dens sub_dens rc n ! i) st fs =
           ebind (particle_at E st (if nproc opts > 1 then pool_seen E i else fs) i)
             (\<lambda>x. subtract E x dens sub_dens rc (no_frc opts) (low_cutoff opts) (high_cutoff opts))"
proof -
  note P = particles_nth[OF len, where E = E]
  show "length (results E opts star0 dens sub_dens rc n) = N"
    using P(1) by (simp add: results_def imap_def)
  assume i: "i < N"
  show "(results E opts star0 dens sub_dens rc n ! i) st fs =
           ebind (particle_at E st (if nproc opts > 1 then pool_seen E i else fs) i)
             (\<lambda>x. subtract E x dens sub_dens rc (no_frc opts) (low_cutoff opts) (high_cutoff opts))"
  proof (cases "nproc opts > 1")
    case True
    with i P(1) have "results E opts star0 dens sub_dens rc n ! i =
        (\<lambda>st fs. ebind ((particles E star0 ! i) st (pool_seen E i))
           (\<lambda>x. subtract E x dens sub_dens rc (no_frc opts) (low_cutoff opts) (high_cutoff opts)))"
      by (simp add: results_def imap_def nth_enumerate_eq)
    with True P(2)[OF i] show ?thesis by simp
  next
    case False
    with i P(1) have "results E opts star0 dens sub_dens rc n ! i =
        (\<lambda>st fs. ebind ((particles E star0 ! i) st fs)
           (\<lambda>x. subtract E x dens sub_dens rc (no_frc opts) (low_cutoff opts) (high_cutoff opts)))"
      by (simp add: results_def)
    with False P(2)[OF i] show ?thesis by simp
  qed
qed

lemma main_Inr:
  assumes "main E options0 star0 fs0 dens sub_dens = Inr w'"
  shows "\<exists>N rc. star_len star0 ''rlnImageName'' = Inr N \<and>
           recenter_vector E (chop_options options0) dens sub_dens = Inr rc \<and>
           for_results E (chop_options options0) (map fst star0)
             (results E (chop_options options0) star0 dens sub_dens rc N)
             (init_state star0 fs0) = Inr w'"
  using assms unfolding main_def results_def Let_def ebind_Inr_iff by blast

lemma init_state_simps [simp]:
  "cnt (init_state star0 fs0) = 0" "star_tab (init_state star0 fs0) = star0"
  "stacks (init_state star0 fs0) = fs0" "nfile (init_state star0 fs0) = 1"
  "length (output_star (init_state star0 fs0)) = Suc (length star0)"
  by (simp_all add: init_state_def star_header_def)

lemma chop_options_simps [simp]:
  "maxpart (chop_options o0) = maxpart o0" "recenter (chop_options o0) = recenter o0"
  "original (chop_options o0) = original o0" "no_frc (chop_options o0) = no_frc o0"
  "debug (chop_options o0) = debug o0" "nproc (chop_options o0) = nproc o0"
  by (simp_all add: chop_options_def)

lemma main_cnt:
  assumes run: "main E options0 star0 fs0 dens sub_dens = Inr w'"
    and len: "star_len star0 ''rlnImageName'' = Inr N"
  shows "cnt w' = N" and "length (output_star w') = Suc (length star0) + N"
proof -
  from main_Inr[OF run] len obtain rc where
    L: "for_results E (chop_options options0) (map fst star0)
          (results E (chop_options options0) star0 dens sub_dens rc N) (init_state star0 fs0) = Inr w'"
    by auto
  from for_results_cnt[OF L] results_nth(1)[OF len] show "cnt w' = N" by simp
  from for_results_output[OF L] results_nth(1)[OF len]
  show "length (output_star w') = Suc (length star0) + N" by auto
qed

text \<open>The turn of \<open>main\<close> for row \<open>i\<close>.\<close>

lemma main_row:
  assumes run: "main E options0 star0 fs0 dens sub_dens = Inr w'"
    and len: "star_len star0 ''rlnImageName'' = Inr N"
    and i: "i < N"
  shows "\<exists>rc wa wb p m r.
           recenter_vector E (chop_options options0) dens sub_dens = Inr rc \<and>
           for_results E (chop_options options0) (map fst star0)
             (take i (results E (chop_options options0) star0 dens sub_dens rc N))
             (init_state star0 fs0) = Inr wa \<and>
           cnt wa = i \<and>
           particle_at E (star_tab wa) (if nproc options0 > 1 then pool_seen E i else stacks wa) i =
             Inr (p, m) \<and>
           MetaData_init E star0 i = Inr m \<and>
           subtract E (p, m) dens sub_dens rc (no_frc options0) (low_cutoff (chop_options options0))
             (high_cutoff (chop_options options0)) = Inr r \<and>
           write_result E (chop_options options0) (map fst star0) r wa = Inr wb \<and>
           (\<forall>k. star_get (star_tab wa) k i = star_get star0 k i) \<and>
           (\<forall>k. star_get (star_tab w') k i = star_get (star_tab wb) k i) \<and>
           star_line E (star_tab w') (map fst star0) i = Inr (output_star w' ! (Suc (length star0) + i))"
proof -
  define opts where "opts = chop_options options0"
  from main_Inr[OF run] len obtain rc where
    rcv: "recenter_vector E opts dens sub_dens = Inr rc"
    and L: "for_results E opts (map fst star0) (results E opts star0 dens sub_dens rc N)
          (init_state star0 fs0) = Inr w'"
    unfolding opts_def by auto
  note R = results_nth[OF len, where E = E and opts = opts and dens = dens and sub_dens = sub_dens and rc = rc and n = N]
  from i R(1) have i': "i < length (results E opts star0 dens sub_dens rc N)" by simp
  from for_results_row[OF L i'] obtain wa r wb where
    h: "for_results E opts (map fst star0) (take i (results E opts star0 dens sub_dens rc N))
          (init_state star0 fs0) = Inr wa"
       "cnt wa = cnt (init_state star0 fs0) + i"
       "(results E opts star0 dens sub_dens rc N ! i) (star_tab wa) (stacks wa) = Inr r"
       "write_result E opts (map fst star0) r wa = Inr wb"
       "\<forall>key. star_get (star_tab wa) key (cnt (init_state star0 fs0) + i) =
              star_get (star_tab (init_state star0 fs0)) key (cnt (init_state star0 fs0) + i)"
       "\<forall>key. star_get (star_tab w') key (cnt (init_state star0 fs0) + i) =
              star_get (star_tab wb) key (cnt (init_state star0 fs0) + i)"
       "star_line E (star_tab w') (map fst star0) (cnt (init_state star0 fs0) + i) =
          Inr (output_star w' ! (length (output_star (init_state star0 fs0)) + i))"
    by blast
  from h(2) have c: "cnt wa = i" by simp
  from h(3) R(2)[OF i] obtain pm where
    pa0: "particle_at E (star_tab wa) (if nproc opts > 1 then pool_seen E i else stacks wa) i = Inr pm"
    and sb0: "subtract E pm dens sub_dens rc (no_frc opts) (low_cutoff opts) (high_cutoff opts) = Inr r"
    by (auto simp: ebind_Inr_iff)
  obtain p m where pm: "pm = (p, m)" by (cases pm)
  from pa0 pm have pa: "particle_at E (star_tab wa) (if nproc options0 > 1 then pool_seen E i else stacks wa) i =
      Inr (p, m)" by (simp add: opts_def)
  from sb0 pm have sb: "subtract E (p, m) dens sub_dens rc (no_frc options0) (low_cutoff opts)
      (high_cutoff opts) = Inr r" by (simp add: opts_def)
  from h(5) have pre: "\<forall>k. star_get (star_tab wa) k i = star_get star0 k i" by simp
  from h(6) have post: "\<forall>k. star_get (star_tab w') k i = star_get (star_tab wb) k i" by simp
  from h(7) have ln: "star_line E (star_tab w') (map fst star0) i =
      Inr (output_star w' ! (Suc (length star0) + i))" by simp
  from particle_at_Inr[OF pa] have "MetaData_init E (star_tab wa) i = Inr m" by blast
  with MetaData_init_cong[of "star_tab wa" i star0 E] pre
  have mi: "MetaData_init E star0 i = Inr m" by simp
  show ?thesis
    using rcv h(1) c pa mi sb h(4) pre post ln unfolding opts_def by (intro exI conjI)
qed

text \<open>
  In a state the loop of \<open>main\<close> reaches, the statements before the assertion pass
  (the debug output provided its processors do), so a result out of order fails the
  assertion.
\<close>

lemma main_turn_assertion:
  assumes L: "for_results E opts hs xs (init_state star0 fs0) = Inr wa"
    and mp: "maxpart opts \<noteq> 0" and ne: "meta_i (meta r) \<noteq> cnt wa"
    and db: "debug opts \<longrightarrow> (\<exists>fs fs'. debug_output E r fs = Inr fs')"
  shows "write_result E opts hs r wa = Inl AssertionError"
proof -
  have "int (cnt wa) mod maxpart opts = 0 \<or>
        (mrcs wa \<noteq> None \<and> (original opts \<longrightarrow> mrcs_orig wa \<noteq> None))"
  proof (cases "xs = []")
    case True
    with L have "wa = init_state star0 fs0" by simp
    then have "cnt wa = 0" by simp
    then show ?thesis by simp
  next
    case False
    from for_results_open[OF L False] show ?thesis by simp
  qed
  from write_result_assertion[OF ne mp this db] show ?thesis .
qed

text \<open>An exception of \<open>subtract\<close> in a turn of \<open>main\<close> is the outcome of \<open>main\<close>.\<close>

lemma main_abort:
  assumes len: "star_len star0 ''rlnImageName'' = Inr N" and i: "i < N"
    and rcv: "recenter_vector E (chop_options options0) dens sub_dens = Inr rc"
    and pre: "for_results E (chop_options options0) (map fst star0)
                (take i (results E (chop_options options0) star0 dens sub_dens rc N))
                (init_state star0 fs0) = Inr wa"
    and pa: "particle_at E (star_tab wa) (if nproc options0 > 1 then pool_seen E i else stacks wa) i =
               Inr (p, m)"
    and se: "subtract E (p, m) dens sub_dens rc (no_frc options0) (low_cutoff (chop_options options0))
               (high_cutoff (chop_options options0)) = Inl e"
  shows "main E options0 star0 fs0 dens sub_dens = Inl e"
proof -
  define opts where "opts = chop_options options0"
  define xs where "xs = results E opts star0 dens sub_dens rc N"
  note R = results_nth[OF len, where E = E and opts = opts and dens = dens and sub_dens = sub_dens
      and rc = rc and n = N, folded xs_def]
  from i R(1) have k: "i < length xs" by simp
  from R(2)[OF i, of "star_tab wa" "stacks wa"] pa se
  have "(xs ! i) (star_tab wa) (stacks wa) = Inl e" by (simp add: opts_def)
  then have "ebind ((xs ! i) (star_tab wa) (stacks wa)) (\<lambda>r. write_result E opts (map fst star0) r wa) = Inl e"
    by simp
  moreover have "for_results E opts (map fst star0) (take i xs) (init_state star0 fs0) = Inr wa"
    using pre by (simp add: opts_def xs_def)
  ultimately have "for_results E opts (map fst star0) (take i xs @ xs ! i # drop (Suc i) xs)
      (init_state star0 fs0) = Inl e"
    by (intro for_results_abort[where x = "xs ! i" and wa = wa])
  with k have "for_results E opts (map fst star0) xs (init_state star0 fs0) = Inl e"
    by (simp add: id_take_nth_drop[symmetric])
  with len rcv show ?thesis by (simp add: main_def results_def opts_def xs_def)
qed

lemma main_row_stack_inv:
  assumes L: "for_results E opts hs xs (init_state star0 fs0) = Inr wa"
    and mp: "maxpart opts = int m" and m: "0 < m"
  shows "stack_inv E opts m wa" and "files_inv opts m fs0 wa"
  using for_results_invs[OF L mp m init_state_invs] by simp_all

lemma main_bad_reference:
  assumes nm: "star_get star0 ''rlnImageName'' i = Inr (VStr s)"
    and bad: "CHR ''@'' \<notin> set s \<or> int_of_str E (takeWhile (\<lambda>c. c \<noteq> CHR ''@'') s) = None"
  shows "\<exists>e. main E options0 star0 fs0 dens sub_dens = Inl e"
proof (cases "main E options0 star0 fs0 dens sub_dens")
  case (Inl e)
  then show ?thesis by blast
next
  case (Inr w')
  from main_Inr[OF Inr] obtain N where len: "star_len star0 ''rlnImageName'' = Inr N" by blast
  from nm len have i: "i < N"
    by (auto simp: star_get_def star_len_def split: option.splits if_splits)
  from main_row[OF Inr len i] obtain wa :: wstate and p m where
    h: "particle_at E (star_tab wa) (if nproc options0 > 1 then pool_seen E i else stacks wa) i =
          Inr (p, m)"
       "\<forall>k. star_get (star_tab wa) k i = star_get star0 k i"
    by blast
  from h(2) nm have "star_get (star_tab wa) ''rlnImageName'' i = Inr (VStr s)" by simp
  from particle_at_bad[OF this bad, of "if nproc options0 > 1 then pool_seen E i else stacks wa"] h(1)
  show ?thesis by simp
qed

subsection \<open>The small runs\<close>

lemmas ex_defs = lib_ex_def star_ex_def files_ex_def options_ex_def img_ex_def vol_ex_def meta_ex_def
  img_big_def

lemmas model_defs = main_def chop_options_def rchop_def endswith_def star_len_def recenter_vector_def
  em_minus_def same_shape_def vec_minus_def init_state_def star_header_def newline_def
  results_def particles_def imap_def sub_optimal_def particle_at_def star_get_def star_set_def MetaData_init_def MetaData_update_def
  subtract_def make_proj_def rotation_dict_def py_float_def py_str_def write_result_def
  open_stack_def star_path_def stack_name_def orig_name_def append_to_def append_image_def
  remove_if_exists_def image_name_def fmt_06d_def zpad_def str_int_def dec.simps digit_char_def
  ebind_def Let_def

lemma replicate_numeral_Cons: "replicate (numeral k) x = x # replicate (pred_numeral k) x"
  by (simp add: numeral_eq_Suc)

lemma main_ex_run:
  "\<exists>w. main lib_ex options_ex star_ex files_ex (vol_ex 1) (vol_ex 2) = Inr w \<and>
       cnt w = 3 \<and> nfile w = 3 \<and>
       star_tab w =
         [(''rlnImageName'', [VStr ''000001@stacks/sub_1.mrcs'', VStr ''000002@stacks/sub_1.mrcs'',
                              VStr ''000001@stacks/sub_2.mrcs'']),
          (''rlnMicrographName'', [VStr ''a.mrc'', VStr ''b.mrc'', VStr ''c.mrc'']),
          (''rlnAngleRot'', [VInt 0, VInt 10, VInt 20]),
          (''rlnAnglePsi'', [VInt 0, VInt 30, VInt 40]),
          (''rlnAngleTilt'', [VInt 0, VInt 50, VInt 60]),
          (''rlnOriginX'', [VFloat 21, VFloat 22, VFloat 23]),
          (''rlnOriginY'', [VFloat 4, VFloat 5, VFloat 6]),
          (''rlnDefocusU'', [VInt 20000, VInt 21000, VInt 22000]),
          (''rlnDefocusV'', [VInt 10000, VInt 11000, VInt 12000]),
          (''rlnDefocusAngle'', [VInt 30, VInt 45, VInt 60]),
          (''rlnDetectorPixelSize'', [VInt 5, VInt 5, VInt 5]),
          (''rlnMagnification'', [VInt 50000, VInt 50000, VInt 50000]),
          (''rlnVoltage'', [VInt 300, VInt 300, VInt 300]),
          (''rlnSphericalAberration'', [VInt 2, VInt 2, VInt 2]),
          (''rlnAmplitudeContrast'', [VInt 1, VInt 1, VInt 1])] \<and>
       length (output_star w) = 19 \<and>
       output_star w ! 18 =
         ''000001@stacks/sub_2.mrcs  c.mrc  20  40  60  x  x  22000  12000  60  5  50000  300  2  1'' @ newline \<and>
       stacks w ''stacks/sub_1.mrcs'' =
         Some [\<lparr>nx = 1, ny = 2, nz = 1, pixels = [8, 7]\<rparr>, \<lparr>nx = 1, ny = 2, nz = 1, pixels = [18, 17]\<rparr>] \<and>
       stacks w ''stacks/sub_2.mrcs'' = Some [\<lparr>nx = 1, ny = 2, nz = 1, pixels = [28, 27]\<rparr>] \<and>
       stacks w ''stacks/sub_1_original.mrcs'' = Some [img_ex 10, img_ex 20] \<and>
       stacks w ''stacks/sub_2_original.mrcs'' = Some [img_ex 30]"
  by (simp add: model_defs ex_defs upt_rec enumerate_eq_zip replicate_numeral_Cons)

lemma main_plain_run:
  "\<exists>w. main lib_ex options_plain star_ex files_ex (vol_ex 1) (vol_ex 2) = Inr w \<and>
       cnt w = 3 \<and> nfile w = 4 \<and>
       star_get (star_tab w) ''rlnImageName'' 2 = Inr (VStr ''000001@sub_3.mrcs'') \<and>
       star_get (star_tab w) ''rlnOriginX'' 1 = Inr (VInt 2) \<and>
       star_get (star_tab w) ''rlnOriginY'' 1 = Inr (VInt 5) \<and>
       stacks w ''sub_3.mrcs'' = Some [img_ex 30] \<and>
       stacks w ''sub_3_original.mrcs'' = None \<and>
       map_option length (stacks w ''poreclass_ctfproj.mrcs'') = Some 3"
  by (simp add: model_defs ex_defs options_plain_def debug_output_def upt_rec enumerate_eq_zip
        replicate_numeral_Cons)

lemma mixed_turn:
  "\<exists>wa m.
     for_results lib_ex (chop_options options_ex) (map fst star_ex)
       (take 1 (results lib_ex (chop_options options_ex) star_ex (vol_ex 1) (vol_ex 2) (Some (20, 0, 0)) 3))
       (init_state star_ex files_mixed) = Inr wa \<and>
     particle_at lib_ex (star_tab wa) (if nproc options_ex > 1 then pool_seen lib_ex 1 else stacks wa) 1 =
       Inr (img_big, m) \<and>
     make_proj lib_ex (vol_ex 1) m = Inr \<lparr>nx = 1, ny = 2, nz = 1, pixels = [1, 2]\<rparr> \<and>
     make_proj lib_ex (vol_ex 2) m = Inr \<lparr>nx = 1, ny = 2, nz = 1, pixels = [2, 4]\<rparr>"
  by (simp add: model_defs ex_defs files_mixed_def upt_rec enumerate_eq_zip replicate_numeral_Cons)

lemma recenter_vector_ex:
  "recenter_vector lib_ex (chop_options options_ex) (vol_ex 1) (vol_ex 2) = Inr (Some (20, 0, 0))"
  by (simp add: recenter_vector_def chop_options_def options_ex_def em_minus_def same_shape_def
        vol_ex_def lib_ex_def vec_minus_def)

lemma star_len_ex: "star_len star_ex ''rlnImageName'' = Inr 3"
  by (simp add: star_len_def star_ex_def)

lemma maxpart_ex: "maxpart options_ex = int 2"
  by (simp add: options_ex_def)

lemma recenter_ex: "recenter options_ex"
  by (simp add: options_ex_def)

lemma MetaData_init_ex: "MetaData_init lib_ex star_ex 0 = Inr meta_ex"
  by (simp add: MetaData_init_def star_get_def star_ex_def py_float_def meta_ex_def)

lemma make_proj_ex1: "make_proj lib_ex (vol_ex 1) meta_ex = Inr \<lparr>nx = 1, ny = 2, nz = 1, pixels = [1, 2]\<rparr>"
  by (simp add: make_proj_def lib_ex_def vol_ex_def meta_ex_def)

lemma make_proj_ex2: "make_proj lib_ex (vol_ex 2) meta_ex = Inr \<lparr>nx = 1, ny = 2, nz = 1, pixels = [2, 4]\<rparr>"
  by (simp add: make_proj_def lib_ex_def vol_ex_def meta_ex_def)

lemma particle_at_ex:
  "particle_at lib_ex (star_tab (init_state star_ex files_ex)) (stacks (init_state star_ex files_ex)) 0 =
     Inr (img_ex 10, meta_ex)"
  by (simp add: particle_at_def star_get_def init_state_def MetaData_init_def py_float_def
        star_ex_def lib_ex_def files_ex_def meta_ex_def)

lemma image_name_ex: "star_get star_ex ''rlnImageName'' 0 = Inr (VStr ''1@in.mrcs'')"
  by (simp add: star_get_def star_ex_def)

lemma image_name_bad: "star_get star_bad ''rlnImageName'' 0 = Inr (VStr ''x@in.mrcs'')"
  by (simp add: star_get_def star_bad_def)

subsection \<open>C1: the order of the output rows\<close>

text \<open>
  C1. When \<open>main\<close> returns on a table of \<open>N\<close> particles, by the serial generator or by
  the pool, the loop has run \<open>N\<close> times and written \<open>N\<close> lines after the header; line
  \<open>i\<close> is the serialisation of row \<open>i\<close> of the table, which agrees with row \<open>i\<close> of the
  input outside the image name and the two origins, and those come from the result whose
  metadata was built from row \<open>i\<close> of the input and carries the index \<open>i\<close>, equal to
  the count of the loop in the state \<open>wa\<close> the loop had reached when it was written. In
  that state any result of another index fails the assertion. For the loop on any
  sequence of results: if it returns, every result it consumed carried the count of its
  turn; a result whose index differs from the count never passes the body, the exception
  of the body is the outcome of the loop whatever results are still to come, and it is
  the AssertionError whenever the statements before the assertion pass.
\<close>

theorem order_preservation:
  assumes run: "main E options0 star0 fs0 dens sub_dens = Inr w'"
    and len: "star_len star0 ''rlnImageName'' = Inr N"
  shows "cnt w' = N \<and> length (output_star w') = Suc (length star0) + N \<and>
         (\<forall>i<N.
            star_line E (star_tab w') (map fst star0) i = Inr (output_star w' ! (Suc (length star0) + i)) \<and>
            (\<forall>k. k \<noteq> ''rlnImageName'' \<and> k \<noteq> ''rlnOriginX'' \<and> k \<noteq> ''rlnOriginY'' \<longrightarrow>
                 star_get (star_tab w') k i = star_get star0 k i) \<and>
            (\<exists>rc m r wa wb.
               recenter_vector E (chop_options options0) dens sub_dens = Inr rc \<and>
               for_results E (chop_options options0) (map fst star0)
                 (take i (results E (chop_options options0) star0 dens sub_dens rc N))
                 (init_state star0 fs0) = Inr wa \<and>
               MetaData_init E star0 i = Inr m \<and>
               (meta r)\<lparr>x_origin := x_origin m, y_origin := y_origin m\<rparr> = m \<and>
               meta_i (meta r) = i \<and> cnt wa = i \<and>
               write_result E (chop_options options0) (map fst star0) r wa = Inr wb \<and>
               star_get (star_tab w') ''rlnOriginX'' i = Inr (x_origin (meta r)) \<and>
               star_get (star_tab w') ''rlnOriginY'' i = Inr (y_origin (meta r)) \<and>
               (\<forall>r'. meta_i (meta r') \<noteq> i \<and>
                     (debug options0 \<longrightarrow> (\<exists>fs fs'. debug_output E r' fs = Inr fs')) \<longrightarrow>
                  write_result E (chop_options options0) (map fst star0) r' wa = Inl AssertionError))) \<and>
         (\<forall>opts hs xs w w2 k. for_results E opts hs xs w = Inr w2 \<and> k < length xs \<longrightarrow>
            (\<exists>wa r wb. cnt wa = cnt w + k \<and> (xs ! k) (star_tab wa) (stacks wa) = Inr r \<and>
               write_result E opts hs r wa = Inr wb \<and> meta_i (meta r) = cnt w + k)) \<and>
         (\<forall>opts hs r w. meta_i (meta r) \<noteq> cnt w \<longrightarrow>
            (\<exists>e. write_result E opts hs r w = Inl e \<and>
                 (\<forall>x xs. x (star_tab w) (stacks w) = Inr r \<longrightarrow>
                    for_results E opts hs (x # xs) w = Inl e)) \<and>
            (maxpart opts \<noteq> 0 \<and>
             (int (cnt w) mod maxpart opts = 0 \<or>
              (mrcs w \<noteq> None \<and> (original opts \<longrightarrow> mrcs_orig w \<noteq> None))) \<and>
             (debug opts \<longrightarrow> (\<exists>fs fs'. debug_output E r fs = Inr fs')) \<longrightarrow>
               write_result E opts hs r w = Inl AssertionError))"
proof -
  define opts0 where "opts0 = chop_options options0"
  from main_Inr[OF run] len obtain rc0 where
    L: "for_results E opts0 (map fst star0) (results E opts0 star0 dens sub_dens rc0 N)
          (init_state star0 fs0) = Inr w'"
    unfolding opts0_def by auto
  note c = main_cnt(1)[OF run len]
  note o = main_cnt(2)[OF run len]
  have rows: "star_line E (star_tab w') (map fst star0) i = Inr (output_star w' ! (Suc (length star0) + i)) \<and>
            (\<forall>k. k \<noteq> ''rlnImageName'' \<and> k \<noteq> ''rlnOriginX'' \<and> k \<noteq> ''rlnOriginY'' \<longrightarrow>
                 star_get (star_tab w') k i = star_get star0 k i) \<and>
            (\<exists>rc m r wa wb.
               recenter_vector E opts0 dens sub_dens = Inr rc \<and>
               for_results E opts0 (map fst star0)
                 (take i (results E opts0 star0 dens sub_dens rc N))
                 (init_state star0 fs0) = Inr wa \<and>
               MetaData_init E star0 i = Inr m \<and>
               (meta r)\<lparr>x_origin := x_origin m, y_origin := y_origin m\<rparr> = m \<and>
               meta_i (meta r) = i \<and> cnt wa = i \<and>
               write_result E opts0 (map fst star0) r wa = Inr wb \<and>
               star_get (star_tab w') ''rlnOriginX'' i = Inr (x_origin (meta r)) \<and>
               star_get (star_tab w') ''rlnOriginY'' i = Inr (y_origin (meta r)) \<and>
               (\<forall>r'. meta_i (meta r') \<noteq> i \<and>
                     (debug options0 \<longrightarrow> (\<exists>fs fs'. debug_output E r' fs = Inr fs')) \<longrightarrow>
                  write_result E opts0 (map fst star0) r' wa = Inl AssertionError))"
    if i: "i < N" for i
  proof -
    from main_row[OF run len i] obtain rc wa wb p m r where
      rcv: "recenter_vector E opts0 dens sub_dens = Inr rc"
      and pre: "for_results E opts0 (map fst star0)
             (take i (results E opts0 star0 dens sub_dens rc N)) (init_state star0 fs0) = Inr wa"
      and sb: "subtract E (p, m) dens sub_dens rc (no_frc options0)
             (low_cutoff opts0) (high_cutoff opts0) = Inr r"
      and h: "cnt wa = i" "MetaData_init E star0 i = Inr m"
         "write_result E opts0 (map fst star0) r wa = Inr wb"
         "\<forall>k. star_get (star_tab w') k i = star_get (star_tab wb) k i"
         "star_line E (star_tab w') (map fst star0) i = Inr (output_star w' ! (Suc (length star0) + i))"
      unfolding opts0_def by blast
    from write_result_Inr(2)[OF h(3)] h(1) have mi: "meta_i (meta r) = i" by simp
    from write_result_row[OF h(3)] h(1,4) have
      xy: "star_get (star_tab w') ''rlnOriginX'' i = Inr (x_origin (meta r))"
          "star_get (star_tab w') ''rlnOriginY'' i = Inr (y_origin (meta r))"
      by simp_all
    from for_results_star(4)[OF L] have
      fr: "\<forall>k. k \<noteq> ''rlnImageName'' \<and> k \<noteq> ''rlnOriginX'' \<and> k \<noteq> ''rlnOriginY'' \<longrightarrow>
                 star_get (star_tab w') k i = star_get star0 k i"
      by simp
    have mp: "maxpart opts0 \<noteq> 0" by (rule write_result_Inr(1)[OF h(3)])
    have late: "\<forall>r'. meta_i (meta r') \<noteq> i \<and>
                     (debug options0 \<longrightarrow> (\<exists>fs fs'. debug_output E r' fs = Inr fs')) \<longrightarrow>
                  write_result E opts0 (map fst star0) r' wa = Inl AssertionError"
    proof (intro allI impI)
      fix r'
      assume a: "meta_i (meta r') \<noteq> i \<and>
                     (debug options0 \<longrightarrow> (\<exists>fs fs'. debug_output E r' fs = Inr fs'))"
      then have ne: "meta_i (meta r') \<noteq> cnt wa" using h(1) by simp
      from a have db: "debug opts0 \<longrightarrow> (\<exists>fs fs'. debug_output E r' fs = Inr fs')"
        by (simp add: opts0_def)
      show "write_result E opts0 (map fst star0) r' wa = Inl AssertionError"
        by (rule main_turn_assertion[OF pre mp ne db])
    qed
    have ex: "\<exists>rc m r wa wb.
               recenter_vector E opts0 dens sub_dens = Inr rc \<and>
               for_results E opts0 (map fst star0)
                 (take i (results E opts0 star0 dens sub_dens rc N))
                 (init_state star0 fs0) = Inr wa \<and>
               MetaData_init E star0 i = Inr m \<and>
               (meta r)\<lparr>x_origin := x_origin m, y_origin := y_origin m\<rparr> = m \<and>
               meta_i (meta r) = i \<and> cnt wa = i \<and>
               write_result E opts0 (map fst star0) r wa = Inr wb \<and>
               star_get (star_tab w') ''rlnOriginX'' i = Inr (x_origin (meta r)) \<and>
               star_get (star_tab w') ''rlnOriginY'' i = Inr (y_origin (meta r)) \<and>
               (\<forall>r'. meta_i (meta r') \<noteq> i \<and>
                     (debug options0 \<longrightarrow> (\<exists>fs fs'. debug_output E r' fs = Inr fs')) \<longrightarrow>
                  write_result E opts0 (map fst star0) r' wa = Inl AssertionError)"
      using rcv pre h(2) subtract_meta_frame[OF sb] mi h(1) h(3) xy late by (intro exI conjI)
    from h(5) fr ex show ?thesis by (intro conjI)
  qed
  have rows_all: "\<forall>i<N.
            star_line E (star_tab w') (map fst star0) i = Inr (output_star w' ! (Suc (length star0) + i)) \<and>
            (\<forall>k. k \<noteq> ''rlnImageName'' \<and> k \<noteq> ''rlnOriginX'' \<and> k \<noteq> ''rlnOriginY'' \<longrightarrow>
                 star_get (star_tab w') k i = star_get star0 k i) \<and>
            (\<exists>rc m r wa wb.
               recenter_vector E opts0 dens sub_dens = Inr rc \<and>
               for_results E opts0 (map fst star0)
                 (take i (results E opts0 star0 dens sub_dens rc N))
                 (init_state star0 fs0) = Inr wa \<and>
               MetaData_init E star0 i = Inr m \<and>
               (meta r)\<lparr>x_origin := x_origin m, y_origin := y_origin m\<rparr> = m \<and>
               meta_i (meta r) = i \<and> cnt wa = i \<and>
               write_result E opts0 (map fst star0) r wa = Inr wb \<and>
               star_get (star_tab w') ''rlnOriginX'' i = Inr (x_origin (meta r)) \<and>
               star_get (star_tab w') ''rlnOriginY'' i = Inr (y_origin (meta r)) \<and>
               (\<forall>r'. meta_i (meta r') \<noteq> i \<and>
                     (debug options0 \<longrightarrow> (\<exists>fs fs'. debug_output E r' fs = Inr fs')) \<longrightarrow>
                  write_result E opts0 (map fst star0) r' wa = Inl AssertionError))"
    by (intro allI impI) (rule rows)
  have consumed: "\<forall>opts hs xs w w2 k. for_results E opts hs xs w = Inr w2 \<and> k < length xs \<longrightarrow>
            (\<exists>wa r wb. cnt wa = cnt w + k \<and> (xs ! k) (star_tab wa) (stacks wa) = Inr r \<and>
               write_result E opts hs r wa = Inr wb \<and> meta_i (meta r) = cnt w + k)"
  proof (intro allI impI)
    fix opts hs xs w w2 k
    assume "for_results E opts hs xs w = Inr w2 \<and> k < length xs"
    then have l: "for_results E opts hs xs w = Inr w2" and k: "k < length xs" by simp_all
    show "\<exists>wa r wb. cnt wa = cnt w + k \<and> (xs ! k) (star_tab wa) (stacks wa) = Inr r \<and>
               write_result E opts hs r wa = Inr wb \<and> meta_i (meta r) = cnt w + k"
      by (rule for_results_index[OF l k])
  qed
  have asrt: "(\<exists>e. write_result E opts hs r w = Inl e \<and>
                 (\<forall>x xs. x (star_tab w) (stacks w) = Inr r \<longrightarrow>
                    for_results E opts hs (x # xs) w = Inl e)) \<and>
            (maxpart opts \<noteq> 0 \<and>
             (int (cnt w) mod maxpart opts = 0 \<or>
              (mrcs w \<noteq> None \<and> (original opts \<longrightarrow> mrcs_orig w \<noteq> None))) \<and>
             (debug opts \<longrightarrow> (\<exists>fs fs'. debug_output E r fs = Inr fs')) \<longrightarrow>
               write_result E opts hs r w = Inl AssertionError)"
    if ne: "meta_i (meta r) \<noteq> cnt w" for opts hs r w
  proof (intro conjI impI)
    from write_result_mismatch[OF ne] obtain e where e: "write_result E opts hs r w = Inl e"
      by blast
    then have "\<forall>x xs. x (star_tab w) (stacks w) = Inr r \<longrightarrow>
                    for_results E opts hs (x # xs) w = Inl e" by simp
    with e show "\<exists>e. write_result E opts hs r w = Inl e \<and>
                 (\<forall>x xs. x (star_tab w) (stacks w) = Inr r \<longrightarrow>
                    for_results E opts hs (x # xs) w = Inl e)" by blast
    assume a: "maxpart opts \<noteq> 0 \<and>
             (int (cnt w) mod maxpart opts = 0 \<or>
              (mrcs w \<noteq> None \<and> (original opts \<longrightarrow> mrcs_orig w \<noteq> None))) \<and>
             (debug opts \<longrightarrow> (\<exists>fs fs'. debug_output E r fs = Inr fs'))"
    from a have a1: "maxpart opts \<noteq> 0" by (rule conjunct1)
    from a have a2: "int (cnt w) mod maxpart opts = 0 \<or>
              (mrcs w \<noteq> None \<and> (original opts \<longrightarrow> mrcs_orig w \<noteq> None))"
      by (rule conjunct2[THEN conjunct1])
    from a have a3: "debug opts \<longrightarrow> (\<exists>fs fs'. debug_output E r fs = Inr fs')"
      by (rule conjunct2[THEN conjunct2])
    show "write_result E opts hs r w = Inl AssertionError"
      by (rule write_result_assertion[OF ne a1 a2 a3])
  qed
  have asrt_all: "\<forall>opts hs r w. meta_i (meta r) \<noteq> cnt w \<longrightarrow>
            (\<exists>e. write_result E opts hs r w = Inl e \<and>
                 (\<forall>x xs. x (star_tab w) (stacks w) = Inr r \<longrightarrow>
                    for_results E opts hs (x # xs) w = Inl e)) \<and>
            (maxpart opts \<noteq> 0 \<and>
             (int (cnt w) mod maxpart opts = 0 \<or>
              (mrcs w \<noteq> None \<and> (original opts \<longrightarrow> mrcs_orig w \<noteq> None))) \<and>
             (debug opts \<longrightarrow> (\<exists>fs fs'. debug_output E r fs = Inr fs')) \<longrightarrow>
               write_result E opts hs r w = Inl AssertionError)"
    by (intro allI impI) (rule asrt)
  show ?thesis unfolding opts0_def[symmetric]
    by (intro conjI) (rule c, rule o, rule rows_all, rule consumed, rule asrt_all)
qed

theorem order_preservation_witness:
  "(\<exists>w. main lib_ex options_plain star_ex files_ex (vol_ex 1) (vol_ex 2) = Inr w \<and>
        1 < nproc options_plain \<and> star_len star_ex ''rlnImageName'' = Inr 3 \<and>
        cnt w = 3 \<and> length (output_star w) = Suc (length star_ex) + 3 \<and>
        star_line lib_ex (star_tab w) (map fst star_ex) 2 = Inr (output_star w ! (Suc (length star_ex) + 2)) \<and>
        star_get (star_tab w) ''rlnMicrographName'' 2 = star_get star_ex ''rlnMicrographName'' 2) \<and>
   (\<exists>w. main lib_ex options_ex star_ex files_ex (vol_ex 1) (vol_ex 2) = Inr w \<and>
        \<not> 1 < nproc options_ex \<and>
        cnt w = 3 \<and> length (output_star w) = Suc (length star_ex) + 3 \<and>
        star_line lib_ex (star_tab w) (map fst star_ex) 2 = Inr (output_star w ! (Suc (length star_ex) + 2)) \<and>
        star_get (star_tab w) ''rlnMicrographName'' 2 = star_get star_ex ''rlnMicrographName'' 2) \<and>
   meta_i (meta result_late) \<noteq> cnt (init_state star_ex files_ex) \<and>
   write_result lib_ex (chop_options options_ex) (map fst star_ex) result_late
     (init_state star_ex files_ex) = Inl AssertionError"
proof -
  from main_plain_run obtain w where
    run: "main lib_ex options_plain star_ex files_ex (vol_ex 1) (vol_ex 2) = Inr w" by blast
  note T = order_preservation[OF run star_len_ex]
  from T have a: "cnt w = 3" "length (output_star w) = Suc (length star_ex) + 3" by blast+
  from T have "\<forall>i<3.
            star_line lib_ex (star_tab w) (map fst star_ex) i = Inr (output_star w ! (Suc (length star_ex) + i)) \<and>
            (\<forall>k. k \<noteq> ''rlnImageName'' \<and> k \<noteq> ''rlnOriginX'' \<and> k \<noteq> ''rlnOriginY'' \<longrightarrow>
                 star_get (star_tab w) k i = star_get star_ex k i)"
    by blast
  then have b: "star_line lib_ex (star_tab w) (map fst star_ex) 2 = Inr (output_star w ! (Suc (length star_ex) + 2))"
    and c: "\<forall>k. k \<noteq> ''rlnImageName'' \<and> k \<noteq> ''rlnOriginX'' \<and> k \<noteq> ''rlnOriginY'' \<longrightarrow>
                 star_get (star_tab w) k 2 = star_get star_ex k 2"
    by simp_all
  from c have d: "star_get (star_tab w) ''rlnMicrographName'' 2 = star_get star_ex ''rlnMicrographName'' 2"
    by simp
  have np: "1 < nproc options_plain" by (simp add: options_plain_def)
  have par: "\<exists>w. main lib_ex options_plain star_ex files_ex (vol_ex 1) (vol_ex 2) = Inr w \<and>
        1 < nproc options_plain \<and> star_len star_ex ''rlnImageName'' = Inr 3 \<and>
        cnt w = 3 \<and> length (output_star w) = Suc (length star_ex) + 3 \<and>
        star_line lib_ex (star_tab w) (map fst star_ex) 2 = Inr (output_star w ! (Suc (length star_ex) + 2)) \<and>
        star_get (star_tab w) ''rlnMicrographName'' 2 = star_get star_ex ''rlnMicrographName'' 2"
    using run np star_len_ex a b d by (intro exI conjI)
  from main_ex_run obtain v where
    run': "main lib_ex options_ex star_ex files_ex (vol_ex 1) (vol_ex 2) = Inr v" by blast
  note S = order_preservation[OF run' star_len_ex]
  from S have a': "cnt v = 3" "length (output_star v) = Suc (length star_ex) + 3" by blast+
  from S have "\<forall>i<3.
            star_line lib_ex (star_tab v) (map fst star_ex) i = Inr (output_star v ! (Suc (length star_ex) + i)) \<and>
            (\<forall>k. k \<noteq> ''rlnImageName'' \<and> k \<noteq> ''rlnOriginX'' \<and> k \<noteq> ''rlnOriginY'' \<longrightarrow>
                 star_get (star_tab v) k i = star_get star_ex k i)"
    by blast
  then have b': "star_line lib_ex (star_tab v) (map fst star_ex) 2 = Inr (output_star v ! (Suc (length star_ex) + 2))"
    and c': "\<forall>k. k \<noteq> ''rlnImageName'' \<and> k \<noteq> ''rlnOriginX'' \<and> k \<noteq> ''rlnOriginY'' \<longrightarrow>
                 star_get (star_tab v) k 2 = star_get star_ex k 2"
    by simp_all
  from c' have d': "star_get (star_tab v) ''rlnMicrographName'' 2 = star_get star_ex ''rlnMicrographName'' 2"
    by simp
  have np': "\<not> 1 < nproc options_ex" by (simp add: options_ex_def)
  have ser: "\<exists>w. main lib_ex options_ex star_ex files_ex (vol_ex 1) (vol_ex 2) = Inr w \<and>
        \<not> 1 < nproc options_ex \<and>
        cnt w = 3 \<and> length (output_star w) = Suc (length star_ex) + 3 \<and>
        star_line lib_ex (star_tab w) (map fst star_ex) 2 = Inr (output_star w ! (Suc (length star_ex) + 2)) \<and>
        star_get (star_tab w) ''rlnMicrographName'' 2 = star_get star_ex ''rlnMicrographName'' 2"
    using run' np' a' b' d' by (intro exI conjI)
  have ne: "meta_i (meta result_late) \<noteq> cnt (init_state star_ex files_ex)"
    by (simp add: result_late_def)
  from S have "\<forall>opts hs r w. meta_i (meta r) \<noteq> cnt w \<longrightarrow>
            (\<exists>e. write_result lib_ex opts hs r w = Inl e \<and>
                 (\<forall>x xs. x (star_tab w) (stacks w) = Inr r \<longrightarrow>
                    for_results lib_ex opts hs (x # xs) w = Inl e)) \<and>
            (maxpart opts \<noteq> 0 \<and>
             (int (cnt w) mod maxpart opts = 0 \<or>
              (mrcs w \<noteq> None \<and> (original opts \<longrightarrow> mrcs_orig w \<noteq> None))) \<and>
             (debug opts \<longrightarrow> (\<exists>fs fs'. debug_output lib_ex r fs = Inr fs')) \<longrightarrow>
               write_result lib_ex opts hs r w = Inl AssertionError)"
    by (rule conjunct2[THEN conjunct2, THEN conjunct2, THEN conjunct2])
  from this[rule_format, OF ne, of "chop_options options_ex" "map fst star_ex"]
  have "maxpart (chop_options options_ex) \<noteq> 0 \<and>
             (int (cnt (init_state star_ex files_ex)) mod maxpart (chop_options options_ex) = 0 \<or>
              (mrcs (init_state star_ex files_ex) \<noteq> None \<and>
               (original (chop_options options_ex) \<longrightarrow> mrcs_orig (init_state star_ex files_ex) \<noteq> None))) \<and>
             (debug (chop_options options_ex) \<longrightarrow> (\<exists>fs fs'. debug_output lib_ex result_late fs = Inr fs')) \<longrightarrow>
               write_result lib_ex (chop_options options_ex) (map fst star_ex) result_late
                 (init_state star_ex files_ex) = Inl AssertionError"
    by (rule conjunct2)
  moreover have "maxpart (chop_options options_ex) \<noteq> 0" "cnt (init_state star_ex files_ex) = 0"
    "\<not> debug (chop_options options_ex)"
    by (simp_all add: options_ex_def)
  ultimately have late: "write_result lib_ex (chop_options options_ex) (map fst star_ex) result_late
     (init_state star_ex files_ex) = Inl AssertionError" by simp
  show ?thesis using par ser ne late by (intro conjI)
qed

subsection \<open>C2: the output stacks\<close>

text \<open>
  C2. With a cap \<open>maxpart = m > 0\<close>, a turn of the loop of \<open>main\<close> opens a new stack
  exactly when its count is a multiple of \<open>m\<close>: then the file number goes up by one and
  the new stack (and its paired stack of originals, when they are requested) holds the
  one image just appended, whatever was stored at that path before; otherwise the image
  joins the current stack. When \<open>main\<close> returns on \<open>N\<close> particles, the stacks number
  \<open>1\<close> to \<open>ceil(N / m)\<close> exist, stack \<open>q + 1\<close> holds \<open>min m (N - q * m)\<close> images, at most
  \<open>m\<close>; the stacks of originals hold as many when requested and do not exist otherwise;
  and no file with the name of a stack of another number was touched.
\<close>

theorem stack_rotation:
  assumes run: "main E options0 star0 fs0 dens sub_dens = Inr w'"
    and len: "star_len star0 ''rlnImageName'' = Inr N"
    and mp: "maxpart options0 = int m" and m: "0 < m"
  shows "nfile w' = 1 + int ((N + m - 1) div m) \<and>
         (\<forall>q. q < (N + m - 1) div m \<longrightarrow>
            (\<exists>imgs. stacks w' (stack_name (chop_options options0) (int q + 1)) = Some imgs \<and>
                    length imgs = min m (N - q * m) \<and> length imgs \<le> m) \<and>
            (if original options0
             then \<exists>imgs. stacks w' (orig_name (chop_options options0) (int q + 1)) = Some imgs \<and>
                         length imgs = min m (N - q * m)
             else stacks w' (orig_name (chop_options options0) (int q + 1)) = None)) \<and>
         (\<forall>k. k < 1 \<or> 1 + int ((N + m - 1) div m) \<le> k \<longrightarrow>
            stacks w' (stack_name (chop_options options0) k) = fs0 (stack_name (chop_options options0) k) \<and>
            stacks w' (orig_name (chop_options options0) k) = fs0 (orig_name (chop_options options0) k)) \<and>
         (\<forall>i<N. \<exists>r wa wb.
            cnt wa = i \<and> write_result E (chop_options options0) (map fst star0) r wa = Inr wb \<and>
            (if i mod m = 0
             then nfile wb = nfile wa + 1 \<and>
                  mrcs wb = Some (stack_name (chop_options options0) (nfile wa)) \<and>
                  stacks wb (stack_name (chop_options options0) (nfile wa)) = Some [ptcl_norm_sub r] \<and>
                  stacks wb (orig_name (chop_options options0) (nfile wa)) =
                    (if original options0 then Some [ptcl r] else None)
             else nfile wb = nfile wa \<and> mrcs wb = mrcs wa \<and>
                  stacks wb (stack_name (chop_options options0) (nfile wa - 1)) =
                    Some (stack_list (stacks wa) (stack_name (chop_options options0) (nfile wa - 1)) @
                          [ptcl_norm_sub r])))"
proof -
  define opts where "opts = chop_options options0"
  have mp': "maxpart opts = int m" using mp by (simp add: opts_def)
  have orig: "original opts = original options0" by (simp add: opts_def)
  from main_Inr[OF run] len obtain rc where
    L: "for_results E opts (map fst star0) (results E opts star0 dens sub_dens rc N)
          (init_state star0 fs0) = Inr w'"
    unfolding opts_def by auto
  from main_cnt(1)[OF run len] have c: "cnt w' = N" .
  from for_results_invs[OF L mp' m init_state_invs]
  have inv: "stack_inv E opts m w'" and F: "files_inv opts m fs0 w'" by simp_all
  from stack_inv_nfile[OF inv m] c have n: "nfile w' = 1 + int ((N + m - 1) div m)" by simp
  have A: "\<forall>q. q < (N + m - 1) div m \<longrightarrow>
            (\<exists>imgs. stacks w' (stack_name opts (int q + 1)) = Some imgs \<and>
                    length imgs = min m (N - q * m) \<and> length imgs \<le> m) \<and>
            (if original options0
             then \<exists>imgs. stacks w' (orig_name opts (int q + 1)) = Some imgs \<and>
                         length imgs = min m (N - q * m)
             else stacks w' (orig_name opts (int q + 1)) = None)"
  proof (intro allI impI)
    fix q assume "q < (N + m - 1) div m"
    with stacks_count[OF m, of q N] have q: "q * m < cnt w'" using c by simp
    from F q have
      f: "stacks w' (stack_name opts (int q + 1)) \<noteq> None"
         "length (stack_list (stacks w') (stack_name opts (int q + 1))) = min m (cnt w' - q * m)"
         "(if original opts
          then stacks w' (orig_name opts (int q + 1)) \<noteq> None \<and>
               length (stack_list (stacks w') (orig_name opts (int q + 1))) = min m (cnt w' - q * m)
          else stacks w' (orig_name opts (int q + 1)) = None)"
      unfolding files_inv_def by blast+
    from f(1) obtain imgs where i1: "stacks w' (stack_name opts (int q + 1)) = Some imgs" by blast
    with f(2) c have i2: "length imgs = min m (N - q * m)" by (simp add: stack_list_def)
    then have i3: "length imgs \<le> m" by simp
    have s: "\<exists>imgs. stacks w' (stack_name opts (int q + 1)) = Some imgs \<and>
                    length imgs = min m (N - q * m) \<and> length imgs \<le> m"
      using i1 i2 i3 by blast
    have o: "(if original options0
             then \<exists>imgs. stacks w' (orig_name opts (int q + 1)) = Some imgs \<and>
                         length imgs = min m (N - q * m)
             else stacks w' (orig_name opts (int q + 1)) = None)"
    proof (cases "original options0")
      case True
      with f(3) orig obtain imgs' where "stacks w' (orig_name opts (int q + 1)) = Some imgs'"
        "length (stack_list (stacks w') (orig_name opts (int q + 1))) = min m (cnt w' - q * m)"
        by auto
      with c True show ?thesis by (simp add: stack_list_def)
    next
      case False
      with f(3) orig show ?thesis by simp
    qed
    from s o show "(\<exists>imgs. stacks w' (stack_name opts (int q + 1)) = Some imgs \<and>
                    length imgs = min m (N - q * m) \<and> length imgs \<le> m) \<and>
            (if original options0
             then \<exists>imgs. stacks w' (orig_name opts (int q + 1)) = Some imgs \<and>
                         length imgs = min m (N - q * m)
             else stacks w' (orig_name opts (int q + 1)) = None)" by (rule conjI)
  qed
  have B: "\<forall>k. k < 1 \<or> 1 + int ((N + m - 1) div m) \<le> k \<longrightarrow>
            stacks w' (stack_name opts k) = fs0 (stack_name opts k) \<and>
            stacks w' (orig_name opts k) = fs0 (orig_name opts k)"
    using F unfolding files_inv_def n by blast
  have C: "\<forall>i<N. \<exists>r wa wb.
            cnt wa = i \<and> write_result E opts (map fst star0) r wa = Inr wb \<and>
            (if i mod m = 0
             then nfile wb = nfile wa + 1 \<and>
                  mrcs wb = Some (stack_name opts (nfile wa)) \<and>
                  stacks wb (stack_name opts (nfile wa)) = Some [ptcl_norm_sub r] \<and>
                  stacks wb (orig_name opts (nfile wa)) =
                    (if original options0 then Some [ptcl r] else None)
             else nfile wb = nfile wa \<and> mrcs wb = mrcs wa \<and>
                  stacks wb (stack_name opts (nfile wa - 1)) =
                    Some (stack_list (stacks wa) (stack_name opts (nfile wa - 1)) @
                          [ptcl_norm_sub r]))"
  proof (intro allI impI)
    fix i assume i: "i < N"
    from main_row[OF run len i] obtain rc' wa wb r where
      h: "for_results E opts (map fst star0) (take i (results E opts star0 dens sub_dens rc' N))
            (init_state star0 fs0) = Inr wa"
         "cnt wa = i"
         "write_result E opts (map fst star0) r wa = Inr wb"
      unfolding opts_def by blast
    from main_row_stack_inv(1)[OF h(1) mp' m] have inva: "stack_inv E opts m wa" .
    from write_result_rotation[OF h(3) mp' m inva] h(2) orig
    have "(if i mod m = 0
             then nfile wb = nfile wa + 1 \<and>
                  mrcs wb = Some (stack_name opts (nfile wa)) \<and>
                  stacks wb (stack_name opts (nfile wa)) = Some [ptcl_norm_sub r] \<and>
                  stacks wb (orig_name opts (nfile wa)) =
                    (if original options0 then Some [ptcl r] else None)
             else nfile wb = nfile wa \<and> mrcs wb = mrcs wa \<and>
                  stacks wb (stack_name opts (nfile wa - 1)) =
                    Some (stack_list (stacks wa) (stack_name opts (nfile wa - 1)) @
                          [ptcl_norm_sub r]))"
      by (simp split: if_splits)
    with h(2,3) show "\<exists>r wa wb.
            cnt wa = i \<and> write_result E opts (map fst star0) r wa = Inr wb \<and>
            (if i mod m = 0
             then nfile wb = nfile wa + 1 \<and>
                  mrcs wb = Some (stack_name opts (nfile wa)) \<and>
                  stacks wb (stack_name opts (nfile wa)) = Some [ptcl_norm_sub r] \<and>
                  stacks wb (orig_name opts (nfile wa)) =
                    (if original options0 then Some [ptcl r] else None)
             else nfile wb = nfile wa \<and> mrcs wb = mrcs wa \<and>
                  stacks wb (stack_name opts (nfile wa - 1)) =
                    Some (stack_list (stacks wa) (stack_name opts (nfile wa - 1)) @
                          [ptcl_norm_sub r]))"
      by blast
  qed
  show ?thesis unfolding opts_def[symmetric]
    by (intro conjI) (rule n, rule A, rule B, rule C)
qed

theorem stack_rotation_witness:
  "\<exists>w. main lib_ex options_ex star_ex files_ex (vol_ex 1) (vol_ex 2) = Inr w \<and>
       star_len star_ex ''rlnImageName'' = Inr 3 \<and> maxpart options_ex = int 2 \<and> (0::nat) < 2 \<and>
       nfile w = 1 + int ((3 + 2 - 1) div 2) \<and>
       (\<exists>imgs. stacks w (stack_name (chop_options options_ex) (int 0 + 1)) = Some imgs \<and>
               length imgs = min 2 (3 - 0 * 2) \<and> length imgs \<le> 2) \<and>
       (\<exists>imgs. stacks w (stack_name (chop_options options_ex) (int 1 + 1)) = Some imgs \<and>
               length imgs = min 2 (3 - 1 * 2) \<and> length imgs \<le> 2)"
proof -
  from main_ex_run obtain w where
    run: "main lib_ex options_ex star_ex files_ex (vol_ex 1) (vol_ex 2) = Inr w" by blast
  have m: "(0::nat) < 2" by simp
  note T = stack_rotation[OF run star_len_ex maxpart_ex m]
  from T have a: "nfile w = 1 + int ((3 + 2 - 1) div 2)" by (rule conjunct1)
  from T have b: "\<forall>q. q < (3 + 2 - 1) div 2 \<longrightarrow>
            (\<exists>imgs. stacks w (stack_name (chop_options options_ex) (int q + 1)) = Some imgs \<and>
                    length imgs = min 2 (3 - q * 2) \<and> length imgs \<le> 2) \<and>
            (if original options_ex
             then \<exists>imgs. stacks w (orig_name (chop_options options_ex) (int q + 1)) = Some imgs \<and>
                         length imgs = min 2 (3 - q * 2)
             else stacks w (orig_name (chop_options options_ex) (int q + 1)) = None)"
    by (rule conjunct2[THEN conjunct1])
  have q0: "(0::nat) < (3 + 2 - 1) div 2" and q1: "(1::nat) < (3 + 2 - 1) div 2" by simp_all
  from b[rule_format, OF q0] have c0:
    "\<exists>imgs. stacks w (stack_name (chop_options options_ex) (int 0 + 1)) = Some imgs \<and>
               length imgs = min 2 (3 - 0 * 2) \<and> length imgs \<le> 2" by (rule conjunct1)
  from b[rule_format, OF q1] have c1:
    "\<exists>imgs. stacks w (stack_name (chop_options options_ex) (int 1 + 1)) = Some imgs \<and>
               length imgs = min 2 (3 - 1 * 2) \<and> length imgs \<le> 2" by (rule conjunct1)
  from run star_len_ex maxpart_ex m a c0 c1 show ?thesis by blast
qed

subsection \<open>C3: the new image names\<close>

text \<open>
  When \<open>main\<close> returns, with a cap \<open>maxpart = m > 0\<close>, the image name of row \<open>i\<close> is
  the index \<open>(i mod m) + 1\<close>, written in decimal and padded with zeros to six digits,
  then \<open>@\<close>, then the \<open>starpath\<close> the script computes for stack number \<open>i div m + 1\<close>;
  and the line written for the row is the join, with two spaces, of the row's cells
  taken in the order of the table's headings.
\<close>

lemma main_image_name:
  assumes run: "main E options0 star0 fs0 dens sub_dens = Inr w'"
    and len: "star_len star0 ''rlnImageName'' = Inr N"
    and mp: "maxpart options0 = int m" and m: "0 < m" and i: "i < N"
  shows "star_get (star_tab w') ''rlnImageName'' i =
           Inr (VStr (fmt_06d (int (i mod m) + 1) @ ''@'' @
                      star_path E (chop_options options0) (int (i div m) + 1))) \<and>
         fmt_06d (int (i mod m) + 1) =
           replicate (6 - length (dec (i mod m + 1))) (CHR ''0'') @ dec (i mod m + 1) \<and>
         (\<exists>cells. map (\<lambda>key. star_get (star_tab w') key i) (map fst star0) = map Inr cells \<and>
            output_star w' ! (Suc (length star0) + i) = join ''  '' (map (py_str E) cells) @ newline)"
proof -
  from main_row[OF run len i] obtain rc wa wb r where
    h: "for_results E (chop_options options0) (map fst star0)
          (take i (results E (chop_options options0) star0 dens sub_dens rc N))
          (init_state star0 fs0) = Inr wa"
       "cnt wa = i"
       "write_result E (chop_options options0) (map fst star0) r wa = Inr wb"
       "\<forall>k. star_get (star_tab w') k i = star_get (star_tab wb) k i"
       "star_line E (star_tab w') (map fst star0) i = Inr (output_star w' ! (Suc (length star0) + i))"
    by blast
  have mp': "maxpart (chop_options options0) = int m" using mp by simp
  from main_row_stack_inv(1)[OF h(1) mp' m] have inv: "stack_inv E (chop_options options0) m wa" .
  from write_result_stack_inv(2)[OF h(3) mp' m inv] h(2)
  have sp: "starpath wb = Some (star_path E (chop_options options0) (int (i div m) + 1))" by simp
  from write_result_row[OF h(3), of "''rlnImageName''"] h(2,4) sp
  have "star_get (star_tab w') ''rlnImageName'' i =
      Inr (VStr (image_name (chop_options options0) i
        (Some (star_path E (chop_options options0) (int (i div m) + 1)))))" by simp
  then have a: "star_get (star_tab w') ''rlnImageName'' i =
           Inr (VStr (fmt_06d (int (i mod m) + 1) @ ''@'' @
                      star_path E (chop_options options0) (int (i div m) + 1)))"
    by (simp add: image_name_def rot_iff(2)[OF mp])
  from h(5) obtain cells where
    c: "map (\<lambda>key. star_get (star_tab w') key i) (map fst star0) = map Inr cells"
       "output_star w' ! (Suc (length star0) + i) = join ''  '' (map (py_str E) cells) @ newline"
    unfolding star_line_Inr_iff by auto
  then have ex: "\<exists>cells. map (\<lambda>key. star_get (star_tab w') key i) (map fst star0) = map Inr cells \<and>
            output_star w' ! (Suc (length star0) + i) = join ''  '' (map (py_str E) cells) @ newline"
    by blast
  show ?thesis by (intro conjI) (rule a, rule fmt_06d_pos, rule ex)
qed

text \<open>
  C3. The index before \<open>@\<close> and the order of the cells are as the claim says (lemma
  \<open>main_image_name\<close>), but the text after \<open>@\<close> is not always a path of the stack. The
  script takes the path of the stack relative to the directory named like the output
  table without its extension and drops the first component, which is the step up when
  the stack lies elsewhere (lemma \<open>star_path_up\<close>), and is the name of the stack itself
  when the stack lies in that directory (lemma \<open>star_path_single\<close>). Run with output
  \<open>out.star\<close>, suffix \<open>out/sub\<close> and two particles for each stack on the table of three
  particles: the images go to \<open>out/sub_1.mrcs\<close> and \<open>out/sub_2.mrcs\<close>, and the table
  names \<open>.mrcs\<close> for every row, so the first and the third row carry the same image name,
  which is no file.
\<close>

theorem image_name_divergence:
  "\<exists>w. main lib_ex options_in star_ex files_ex (vol_ex 1) (vol_ex 2) = Inr w \<and>
       output_name (chop_options options_in) = ''out'' \<and>
       suffix (chop_options options_in) = ''out/sub'' \<and>
       relpath lib_ex ''out/sub_1'' ''out'' = ''sub_1'' \<and>
       relpath lib_ex ''out/sub_2'' ''out'' = ''sub_2'' \<and>
       star_get (star_tab w) ''rlnImageName'' 0 = Inr (VStr ''000001@.mrcs'') \<and>
       star_get (star_tab w) ''rlnImageName'' 1 = Inr (VStr ''000002@.mrcs'') \<and>
       star_get (star_tab w) ''rlnImageName'' 2 = Inr (VStr ''000001@.mrcs'') \<and>
       stacks w ''out/sub_1.mrcs'' =
         Some [\<lparr>nx = 1, ny = 2, nz = 1, pixels = [8, 7]\<rparr>, \<lparr>nx = 1, ny = 2, nz = 1, pixels = [18, 17]\<rparr>] \<and>
       stacks w ''out/sub_2.mrcs'' = Some [\<lparr>nx = 1, ny = 2, nz = 1, pixels = [28, 27]\<rparr>] \<and>
       stacks w ''.mrcs'' = None"
  by (simp add: model_defs ex_defs options_in_def upt_rec enumerate_eq_zip replicate_numeral_Cons)

subsection \<open>C4: direct subtraction\<close>

text \<open>
  C4. In direct mode (\<open>no_frc\<close>), for a particle image and a sub-map projection of the
  same dimensions, the raw subtracted image of every result is the elementwise
  difference of the two, with the dimensions of the particle image and no scale factor;
  and \<open>subtract\<close> does return such a result when the normalisation succeeds (here
  with recentering off).
\<close>

theorem direct_mode_difference:
  assumes "make_proj E dens m = Inr cp" and "make_proj E sub_dens m = Inr cps"
    and "same_shape p cps"
  shows "(\<forall>r. subtract E (p, m) dens sub_dens rc True low high = Inr r \<longrightarrow>
            nx (ptcl_sub r) = nx p \<and> ny (ptcl_sub r) = ny p \<and> nz (ptcl_sub r) = nz p \<and>
            length (pixels (ptcl_sub r)) = length (pixels p) \<and>
            (\<forall>k<length (pixels p). pixels (ptcl_sub r) ! k = pixels p ! k - pixels cps ! k)) \<and>
         (\<forall>pns. process E (p\<lparr>pixels := map2 (-) (pixels p) (pixels cps)\<rparr>) ''normalize'' [] = Inr pns \<longrightarrow>
            (\<exists>r. subtract E (p, m) dens sub_dens None True low high = Inr r \<and>
                 ptcl_sub r = p\<lparr>pixels := map2 (-) (pixels p) (pixels cps)\<rparr> \<and>
                 ptcl_norm_sub r = pns))"
proof (intro conjI allI impI)
  fix r assume r: "subtract E (p, m) dens sub_dens rc True low high = Inr r"
  from subtract_direct_Inr[OF r] assms(2)
  have ps: "ptcl_sub r = p\<lparr>pixels := map2 (-) (pixels p) (pixels cps)\<rparr>" by auto
  from assms(3) have len: "length (pixels p) = length (pixels cps)" by (simp add: same_shape_def)
  show "nx (ptcl_sub r) = nx p" "ny (ptcl_sub r) = ny p" "nz (ptcl_sub r) = nz p"
    using ps by simp_all
  show "length (pixels (ptcl_sub r)) = length (pixels p)" using ps len by simp
  fix k assume "k < length (pixels p)"
  then show "pixels (ptcl_sub r) ! k = pixels p ! k - pixels cps ! k"
    using ps len by simp
next
  fix pns
  assume "process E (p\<lparr>pixels := map2 (-) (pixels p) (pixels cps)\<rparr>) ''normalize'' [] = Inr pns"
  then show "\<exists>r. subtract E (p, m) dens sub_dens None True low high = Inr r \<and>
                 ptcl_sub r = p\<lparr>pixels := map2 (-) (pixels p) (pixels cps)\<rparr> \<and>
                 ptcl_norm_sub r = pns"
    using assms by (simp add: subtract_def em_minus_def)
qed

theorem direct_mode_difference_witness:
  "make_proj lib_ex (vol_ex 1) meta_ex = Inr \<lparr>nx = 1, ny = 2, nz = 1, pixels = [1, 2]\<rparr> \<and>
   make_proj lib_ex (vol_ex 2) meta_ex = Inr \<lparr>nx = 1, ny = 2, nz = 1, pixels = [2, 4]\<rparr> \<and>
   same_shape (img_ex 10) \<lparr>nx = 1, ny = 2, nz = 1, pixels = [2, 4]\<rparr> \<and>
   (\<exists>r. subtract lib_ex (img_ex 10, meta_ex) (vol_ex 1) (vol_ex 2) None True 0 (7071 / 10000) = Inr r \<and>
        pixels (ptcl_sub r) = [10 - 2, 11 - 4])"
proof -
  have s: "same_shape (img_ex 10) \<lparr>nx = 1, ny = 2, nz = 1, pixels = [2, 4]\<rparr>"
    by (simp add: same_shape_def img_ex_def)
  have n: "process lib_ex (img_ex 10\<lparr>pixels := map2 (-) (pixels (img_ex 10))
              (pixels \<lparr>nx = 1, ny = 2, nz = 1, pixels = [2, 4]\<rparr>)\<rparr>) ''normalize'' [] =
            Inr \<lparr>nx = 1, ny = 2, nz = 1, pixels = [8, 7]\<rparr>"
    by (simp add: lib_ex_def img_ex_def)
  from direct_mode_difference[OF make_proj_ex1 make_proj_ex2 s, of None 0 "7071 / 10000"] n
  obtain r where "subtract lib_ex (img_ex 10, meta_ex) (vol_ex 1) (vol_ex 2) None True 0 (7071 / 10000) = Inr r"
     "ptcl_sub r = img_ex 10\<lparr>pixels := map2 (-) (pixels (img_ex 10))
              (pixels \<lparr>nx = 1, ny = 2, nz = 1, pixels = [2, 4]\<rparr>)\<rparr>"
    by blast
  then show ?thesis using make_proj_ex1 make_proj_ex2 s by (auto simp: img_ex_def)
qed

subsection \<open>C5: recentering\<close>

text \<open>
  C5. With recentering on, when \<open>main\<close> returns, the vector is the one value computed
  before the loop, \<open>Vec3f\<close> of the first three entries of \<open>phase_cog\<close> of the whole map
  minus that of the map \<open>dens - sub_dens\<close>; and for every row \<open>i\<close> the origin written
  to the table is the origin read from the input plus the x (respectively y) component
  of that vector transformed by the rotation set from the row's three Euler angles, with
  the dictionary \<open>make_proj\<close> uses.
\<close>

theorem recenter_origin_update:
  assumes run: "main E options0 star0 fs0 dens sub_dens = Inr w'"
    and len: "star_len star0 ''rlnImageName'' = Inr N"
    and rcn: "recenter options0"
  shows "\<exists>new_dens c_old c_new.
           em_minus dens sub_dens = Inr new_dens \<and>
           Vec3f E (take 3 (phase_cog E dens)) = Inr c_old \<and>
           Vec3f E (take 3 (phase_cog E new_dens)) = Inr c_new \<and>
           recenter_vector E (chop_options options0) dens sub_dens = Inr (Some (vec_minus c_old c_new)) \<and>
           (\<forall>i<N. \<exists>a_psi a_phi a_theta t x y.
              star_get star0 ''rlnAnglePsi'' i = Inr a_psi \<and>
              star_get star0 ''rlnAngleRot'' i = Inr a_phi \<and>
              star_get star0 ''rlnAngleTilt'' i = Inr a_theta \<and>
              set_rotation E (Transform E)
                [(''psi'', a_psi), (''phi'', a_phi), (''theta'', a_theta), (''type'', VStr ''spider'')] = Inr t \<and>
              cell star0 ''rlnOriginX'' i = Some x \<and> cell star0 ''rlnOriginY'' i = Some y \<and>
              star_get (star_tab w') ''rlnOriginX'' i =
                Inr (VFloat (x + fst (transform E t (vec_minus c_old c_new)))) \<and>
              star_get (star_tab w') ''rlnOriginY'' i =
                Inr (VFloat (y + fst (snd (transform E t (vec_minus c_old c_new))))))"
proof -
  from main_Inr[OF run] obtain rc where
    rcv: "recenter_vector E (chop_options options0) dens sub_dens = Inr rc" by blast
  with rcn obtain new_dens c_old c_new where
    v: "em_minus dens sub_dens = Inr new_dens"
       "Vec3f E (take 3 (phase_cog E dens)) = Inr c_old"
       "Vec3f E (take 3 (phase_cog E new_dens)) = Inr c_new"
       "rc = Some (vec_minus c_old c_new)"
    unfolding recenter_vector_def by (auto simp: ebind_Inr_iff)
  have rows: "\<forall>i<N. \<exists>a_psi a_phi a_theta t x y.
              star_get star0 ''rlnAnglePsi'' i = Inr a_psi \<and>
              star_get star0 ''rlnAngleRot'' i = Inr a_phi \<and>
              star_get star0 ''rlnAngleTilt'' i = Inr a_theta \<and>
              set_rotation E (Transform E)
                [(''psi'', a_psi), (''phi'', a_phi), (''theta'', a_theta), (''type'', VStr ''spider'')] = Inr t \<and>
              cell star0 ''rlnOriginX'' i = Some x \<and> cell star0 ''rlnOriginY'' i = Some y \<and>
              star_get (star_tab w') ''rlnOriginX'' i =
                Inr (VFloat (x + fst (transform E t (vec_minus c_old c_new)))) \<and>
              star_get (star_tab w') ''rlnOriginY'' i =
                Inr (VFloat (y + fst (snd (transform E t (vec_minus c_old c_new)))))"
  proof (intro allI impI)
    fix i assume i: "i < N"
    from main_row[OF run len i] obtain rc' wa wb p m r where
      h: "recenter_vector E (chop_options options0) dens sub_dens = Inr rc'"
         "cnt wa = i" "MetaData_init E star0 i = Inr m"
         "subtract E (p, m) dens sub_dens rc' (no_frc options0) (low_cutoff (chop_options options0))
             (high_cutoff (chop_options options0)) = Inr r"
         "write_result E (chop_options options0) (map fst star0) r wa = Inr wb"
         "\<forall>k. star_get (star_tab w') k i = star_get (star_tab wb) k i"
      by blast
    from h(1) rcv v(4) have rc': "rc' = Some (vec_minus c_old c_new)" by simp
    from subtract_Inr(7)[OF h(4) rc'] obtain t x y where
      s: "set_rotation E (Transform E) (rotation_dict m) = Inr t"
         "to_real (x_origin m) = Some x" "to_real (y_origin m) = Some y"
         "meta r = m\<lparr>x_origin := VFloat (x + fst (transform E t (vec_minus c_old c_new))),
                      y_origin := VFloat (y + fst (snd (transform E t (vec_minus c_old c_new))))\<rparr>"
      by blast
    note f = MetaData_init_fields[OF h(3)]
    from s(1) have t: "set_rotation E (Transform E)
        [(''psi'', psi m), (''phi'', phi m), (''theta'', theta m), (''type'', VStr ''spider'')] = Inr t"
      by (simp add: rotation_dict_def)
    from f(5) s(2) have cx: "cell star0 ''rlnOriginX'' i = Some x" by (simp add: cell_def)
    from f(6) s(3) have cy: "cell star0 ''rlnOriginY'' i = Some y" by (simp add: cell_def)
    from write_result_row[OF h(5)] h(2,6) s(4) have
      ox: "star_get (star_tab w') ''rlnOriginX'' i =
             Inr (VFloat (x + fst (transform E t (vec_minus c_old c_new))))"
      and oy: "star_get (star_tab w') ''rlnOriginY'' i =
             Inr (VFloat (y + fst (snd (transform E t (vec_minus c_old c_new)))))"
      by simp_all
    show "\<exists>a_psi a_phi a_theta t x y.
              star_get star0 ''rlnAnglePsi'' i = Inr a_psi \<and>
              star_get star0 ''rlnAngleRot'' i = Inr a_phi \<and>
              star_get star0 ''rlnAngleTilt'' i = Inr a_theta \<and>
              set_rotation E (Transform E)
                [(''psi'', a_psi), (''phi'', a_phi), (''theta'', a_theta), (''type'', VStr ''spider'')] = Inr t \<and>
              cell star0 ''rlnOriginX'' i = Some x \<and> cell star0 ''rlnOriginY'' i = Some y \<and>
              star_get (star_tab w') ''rlnOriginX'' i =
                Inr (VFloat (x + fst (transform E t (vec_minus c_old c_new)))) \<and>
              star_get (star_tab w') ''rlnOriginY'' i =
                Inr (VFloat (y + fst (snd (transform E t (vec_minus c_old c_new)))))"
      using f(3) f(2) f(4) t cx cy ox oy by (intro exI conjI)
  qed
  from rcv v(4) have rv: "recenter_vector E (chop_options options0) dens sub_dens =
      Inr (Some (vec_minus c_old c_new))" by simp
  show ?thesis
    using v(1) v(2) v(3) rv rows by (intro exI conjI)
qed

theorem recenter_origin_update_witness:
  "\<exists>w. main lib_ex options_ex star_ex files_ex (vol_ex 1) (vol_ex 2) = Inr w \<and>
       star_len star_ex ''rlnImageName'' = Inr 3 \<and> recenter options_ex \<and>
       (\<exists>new_dens c_old c_new.
           em_minus (vol_ex 1) (vol_ex 2) = Inr new_dens \<and>
           Vec3f lib_ex (take 3 (phase_cog lib_ex (vol_ex 1))) = Inr c_old \<and>
           Vec3f lib_ex (take 3 (phase_cog lib_ex new_dens)) = Inr c_new \<and>
           recenter_vector lib_ex (chop_options options_ex) (vol_ex 1) (vol_ex 2) =
             Inr (Some (vec_minus c_old c_new))) \<and>
       recenter_vector lib_ex (chop_options options_ex) (vol_ex 1) (vol_ex 2) = Inr (Some (20, 0, 0)) \<and>
       star_get star_ex ''rlnOriginX'' 0 = Inr (VInt 1) \<and>
       star_get (star_tab w) ''rlnOriginX'' 0 = Inr (VFloat (1 + 20))"
proof -
  from main_ex_run obtain w where
    run: "main lib_ex options_ex star_ex files_ex (vol_ex 1) (vol_ex 2) = Inr w"
    and tab: "star_get (star_tab w) ''rlnOriginX'' 0 = Inr (VFloat (1 + 20))"
    by (auto simp: star_get_def)
  from recenter_origin_update[OF run star_len_ex recenter_ex]
  have a: "\<exists>new_dens c_old c_new.
           em_minus (vol_ex 1) (vol_ex 2) = Inr new_dens \<and>
           Vec3f lib_ex (take 3 (phase_cog lib_ex (vol_ex 1))) = Inr c_old \<and>
           Vec3f lib_ex (take 3 (phase_cog lib_ex new_dens)) = Inr c_new \<and>
           recenter_vector lib_ex (chop_options options_ex) (vol_ex 1) (vol_ex 2) =
             Inr (Some (vec_minus c_old c_new))"
    by blast
  have b: "recenter_vector lib_ex (chop_options options_ex) (vol_ex 1) (vol_ex 2) = Inr (Some (20, 0, 0))"
    by (simp add: recenter_vector_def chop_options_def options_ex_def em_minus_def same_shape_def
          vol_ex_def lib_ex_def vec_minus_def)
  have c: "star_get star_ex ''rlnOriginX'' 0 = Inr (VInt 1)"
    by (simp add: star_get_def star_ex_def)
  from run star_len_ex recenter_ex a b c tab show ?thesis by blast
qed

subsection \<open>C6: what the run changes in the table\<close>

text \<open>
  C6. A record differs from the one built from the table at most in its two origins.
  One turn of the loop changes the table in row \<open>cnt\<close> only, and there only the image
  name and the two origins; a row below the count is never written again, whatever
  results the loop is given. So when
  \<open>main\<close> returns, the table has its columns in the same order, every cell outside
  the three columns is the input's, rows from \<open>N\<close> on are untouched, and every line
  written is the serialisation of its row. With recentering off the two origin columns
  are the input's too.
\<close>

theorem metadata_frame:
  assumes run: "main E options0 star0 fs0 dens sub_dens = Inr w'"
    and len: "star_len star0 ''rlnImageName'' = Inr N"
  shows "map fst (star_tab w') = map fst star0 \<and>
         (\<forall>k i. k \<noteq> ''rlnImageName'' \<and> k \<noteq> ''rlnOriginX'' \<and> k \<noteq> ''rlnOriginY'' \<longrightarrow>
            star_get (star_tab w') k i = star_get star0 k i) \<and>
         (\<forall>k i. N \<le> i \<longrightarrow> star_get (star_tab w') k i = star_get star0 k i) \<and>
         (\<forall>i<N. star_line E (star_tab w') (map fst star0) i =
                   Inr (output_star w' ! (Suc (length star0) + i))) \<and>
         (\<not> recenter options0 \<longrightarrow>
            (\<forall>i. star_get (star_tab w') ''rlnOriginX'' i = star_get star0 ''rlnOriginX'' i \<and>
                 star_get (star_tab w') ''rlnOriginY'' i = star_get star0 ''rlnOriginY'' i)) \<and>
         (\<forall>p m rc nofrc low high r.
            subtract E (p, m) dens sub_dens rc nofrc low high = Inr r \<longrightarrow>
              (meta r)\<lparr>x_origin := x_origin m, y_origin := y_origin m\<rparr> = m) \<and>
         (\<forall>opts hs r w w1 k i.
            write_result E opts hs r w = Inr w1 \<and>
            (i \<noteq> cnt w \<or> (k \<noteq> ''rlnImageName'' \<and> k \<noteq> ''rlnOriginX'' \<and> k \<noteq> ''rlnOriginY'')) \<longrightarrow>
              star_get (star_tab w1) k i = star_get (star_tab w) k i) \<and>
         (\<forall>opts hs xs w w2 k i.
            for_results E opts hs xs w = Inr w2 \<and> i < cnt w \<longrightarrow>
              star_get (star_tab w2) k i = star_get (star_tab w) k i)"
proof -
  from main_Inr[OF run] len obtain rc where
    rcv: "recenter_vector E (chop_options options0) dens sub_dens = Inr rc"
    and L: "for_results E (chop_options options0) (map fst star0)
          (results E (chop_options options0) star0 dens sub_dens rc N) (init_state star0 fs0) = Inr w'"
    by auto
  from main_cnt(1)[OF run len] have c: "cnt w' = N" .
  have keys: "map fst (star_tab w') = map fst star0"
    using for_results_star(1)[OF L] by simp
  have fr: "\<forall>k i. k \<noteq> ''rlnImageName'' \<and> k \<noteq> ''rlnOriginX'' \<and> k \<noteq> ''rlnOriginY'' \<longrightarrow>
            star_get (star_tab w') k i = star_get star0 k i"
    using for_results_star(4)[OF L] by simp
  have beyond: "\<forall>k i. N \<le> i \<longrightarrow> star_get (star_tab w') k i = star_get star0 k i"
    using for_results_star(3)[OF L] c by simp
  have lines: "\<forall>i<N. star_line E (star_tab w') (map fst star0) i =
                   Inr (output_star w' ! (Suc (length star0) + i))"
    using main_row[OF run len] by blast
  have norc: "\<not> recenter options0 \<longrightarrow>
            (\<forall>i. star_get (star_tab w') ''rlnOriginX'' i = star_get star0 ''rlnOriginX'' i \<and>
                 star_get (star_tab w') ''rlnOriginY'' i = star_get star0 ''rlnOriginY'' i)"
  proof (intro impI allI)
    fix i
    assume nr: "\<not> recenter options0"
    show "star_get (star_tab w') ''rlnOriginX'' i = star_get star0 ''rlnOriginX'' i \<and>
          star_get (star_tab w') ''rlnOriginY'' i = star_get star0 ''rlnOriginY'' i"
    proof (cases "i < N")
      case True
      from main_row[OF run len True] obtain rc' wa wb p m r where
        h: "recenter_vector E (chop_options options0) dens sub_dens = Inr rc'"
           "cnt wa = i" "MetaData_init E star0 i = Inr m"
           "subtract E (p, m) dens sub_dens rc' (no_frc options0) (low_cutoff (chop_options options0))
             (high_cutoff (chop_options options0)) = Inr r"
           "write_result E (chop_options options0) (map fst star0) r wa = Inr wb"
           "\<forall>k. star_get (star_tab w') k i = star_get (star_tab wb) k i"
        by blast
      from h(1) nr have "rc' = None" by (simp add: recenter_vector_def)
      from subtract_Inr(6)[OF h(4) this] have mr: "meta r = m" .
      from write_result_row[OF h(5)] h(2,6) mr have
        "star_get (star_tab w') ''rlnOriginX'' i = Inr (x_origin m)"
        "star_get (star_tab w') ''rlnOriginY'' i = Inr (y_origin m)"
        by simp_all
      with MetaData_init_fields(5,6)[OF h(3)] show ?thesis by simp
    next
      case False
      with beyond show ?thesis by simp
    qed
  qed
  have rec: "\<forall>p m rc nofrc low high r.
            subtract E (p, m) dens sub_dens rc nofrc low high = Inr r \<longrightarrow>
              (meta r)\<lparr>x_origin := x_origin m, y_origin := y_origin m\<rparr> = m"
    by (intro allI impI) (rule subtract_meta_frame)
  have step: "\<forall>opts hs r w w1 k i.
            write_result E opts hs r w = Inr w1 \<and>
            (i \<noteq> cnt w \<or> (k \<noteq> ''rlnImageName'' \<and> k \<noteq> ''rlnOriginX'' \<and> k \<noteq> ''rlnOriginY'')) \<longrightarrow>
              star_get (star_tab w1) k i = star_get (star_tab w) k i"
  proof (intro allI impI)
    fix opts hs r w w1 k i
    assume a: "write_result E opts hs r w = Inr w1 \<and>
            (i \<noteq> cnt w \<or> (k \<noteq> ''rlnImageName'' \<and> k \<noteq> ''rlnOriginX'' \<and> k \<noteq> ''rlnOriginY''))"
    then have wr: "write_result E opts hs r w = Inr w1" by simp
    from write_result_Inr(8)[OF wr] obtain st1 sp where
      s: "star_set (star_tab w) ''rlnImageName'' (cnt w) (VStr (image_name opts (cnt w) sp)) = Inr st1"
         "MetaData_update (meta r) st1 = Inr (star_tab w1)"
      by blast
    have mi: "meta_i (meta r) = cnt w" by (rule write_result_Inr(2)[OF wr])
    from a show "star_get (star_tab w1) k i = star_get (star_tab w) k i"
      using MetaData_update_Inr(1)[OF s(2)] star_get_star_set[OF s(1)] mi by auto
  qed
  have once: "\<forall>opts hs xs w w2 k i.
            for_results E opts hs xs w = Inr w2 \<and> i < cnt w \<longrightarrow>
              star_get (star_tab w2) k i = star_get (star_tab w) k i"
  proof (intro allI impI)
    fix opts hs xs w w2 k i
    assume a: "for_results E opts hs xs w = Inr w2 \<and> i < cnt w"
    then have l: "for_results E opts hs xs w = Inr w2" and i: "i < cnt w \<or> cnt w2 \<le> i"
      by simp_all
    show "star_get (star_tab w2) k i = star_get (star_tab w) k i"
      by (rule for_results_star(3)[OF l i])
  qed
  show ?thesis
    by (intro conjI) (rule keys, rule fr, rule beyond, rule lines, rule norc, rule rec, rule step, rule once)
qed

theorem metadata_frame_witness:
  "\<exists>w. main lib_ex options_plain star_ex files_ex (vol_ex 1) (vol_ex 2) = Inr w \<and>
       star_len star_ex ''rlnImageName'' = Inr 3 \<and> \<not> recenter options_plain \<and>
       map fst (star_tab w) = map fst star_ex \<and>
       star_get (star_tab w) ''rlnVoltage'' 1 = star_get star_ex ''rlnVoltage'' 1 \<and>
       star_get (star_tab w) ''rlnOriginX'' 1 = star_get star_ex ''rlnOriginX'' 1 \<and>
       star_get (star_tab w) ''rlnOriginY'' 1 = star_get star_ex ''rlnOriginY'' 1 \<and>
       star_get star_ex ''rlnOriginX'' 1 = Inr (VInt 2) \<and>
       star_line lib_ex (star_tab w) (map fst star_ex) 0 = Inr (output_star w ! (Suc (length star_ex) + 0))"
proof -
  from main_plain_run obtain w where
    run: "main lib_ex options_plain star_ex files_ex (vol_ex 1) (vol_ex 2) = Inr w" by blast
  have nr: "\<not> recenter options_plain" by (simp add: options_plain_def)
  note T = metadata_frame[OF run star_len_ex]
  from T have a: "map fst (star_tab w) = map fst star_ex" by (rule conjunct1)
  from T have "\<forall>k i. k \<noteq> ''rlnImageName'' \<and> k \<noteq> ''rlnOriginX'' \<and> k \<noteq> ''rlnOriginY'' \<longrightarrow>
            star_get (star_tab w) k i = star_get star_ex k i" by (rule conjunct2[THEN conjunct1])
  then have b: "star_get (star_tab w) ''rlnVoltage'' 1 = star_get star_ex ''rlnVoltage'' 1" by simp
  from T have "\<forall>i<3. star_line lib_ex (star_tab w) (map fst star_ex) i =
                   Inr (output_star w ! (Suc (length star_ex) + i))"
    by (rule conjunct2[THEN conjunct2, THEN conjunct2, THEN conjunct1])
  then have c: "star_line lib_ex (star_tab w) (map fst star_ex) 0 =
      Inr (output_star w ! (Suc (length star_ex) + 0))" by simp
  from T have "\<not> recenter options_plain \<longrightarrow>
            (\<forall>i. star_get (star_tab w) ''rlnOriginX'' i = star_get star_ex ''rlnOriginX'' i \<and>
                 star_get (star_tab w) ''rlnOriginY'' i = star_get star_ex ''rlnOriginY'' i)"
    by (rule conjunct2[THEN conjunct2, THEN conjunct2, THEN conjunct2, THEN conjunct1])
  with nr have d: "star_get (star_tab w) ''rlnOriginX'' 1 = star_get star_ex ''rlnOriginX'' 1"
    "star_get (star_tab w) ''rlnOriginY'' 1 = star_get star_ex ''rlnOriginY'' 1" by simp_all
  have e: "star_get star_ex ''rlnOriginX'' 1 = Inr (VInt 2)"
    by (simp add: star_get_def star_ex_def)
  from run star_len_ex nr a b d e c show ?thesis by blast
qed

subsection \<open>C7: projection\<close>

text \<open>
  C7. \<open>make_proj\<close> returns an image exactly when each of its steps does: the transform
  is built from the three Euler angles of the particle (spider convention), its
  translation is the negated origin \<open>(-x_origin, -y_origin)\<close>, the density is projected
  with that transform, and the projection is filtered with the CTF made from the
  particle's \<open>ctf_params\<close>.
\<close>

theorem make_proj_negated_shift:
  "make_proj E dens m = Inr img \<longleftrightarrow>
     (\<exists>x y t1 tx ty t2 proj ctf.
        set_rotation E (Transform E)
          [(''psi'', psi m), (''phi'', phi m), (''theta'', theta m), (''type'', VStr ''spider'')] = Inr t1 \<and>
        to_real (x_origin m) = Some x \<and> to_real (y_origin m) = Some y \<and>
        py_neg (x_origin m) = Inr tx \<and> py_neg (y_origin m) = Inr ty \<and>
        to_real tx = Some (- x) \<and> to_real ty = Some (- y) \<and>
        set_trans E t1 tx ty = Inr t2 \<and>
        project E dens ''standard'' t2 = Inr proj \<and>
        generate_ctf E (ctf_params m) = Inr ctf \<and>
        filt_ctf E proj ctf = Inr img)"
proof
  assume "make_proj E dens m = Inr img"
  then obtain t1 tx ty t2 proj ctf where
    h: "set_rotation E (Transform E) (rotation_dict m) = Inr t1"
       "py_neg (x_origin m) = Inr tx" "py_neg (y_origin m) = Inr ty"
       "set_trans E t1 tx ty = Inr t2" "project E dens ''standard'' t2 = Inr proj"
       "generate_ctf E (ctf_params m) = Inr ctf" "filt_ctf E proj ctf = Inr img"
    unfolding make_proj_def ebind_Inr_iff by blast
  from py_neg_Inr[OF h(2)] obtain x where x: "to_real (x_origin m) = Some x" "to_real tx = Some (- x)"
    by blast
  from py_neg_Inr[OF h(3)] obtain y where y: "to_real (y_origin m) = Some y" "to_real ty = Some (- y)"
    by blast
  from h x y show "\<exists>x y t1 tx ty t2 proj ctf.
        set_rotation E (Transform E)
          [(''psi'', psi m), (''phi'', phi m), (''theta'', theta m), (''type'', VStr ''spider'')] = Inr t1 \<and>
        to_real (x_origin m) = Some x \<and> to_real (y_origin m) = Some y \<and>
        py_neg (x_origin m) = Inr tx \<and> py_neg (y_origin m) = Inr ty \<and>
        to_real tx = Some (- x) \<and> to_real ty = Some (- y) \<and>
        set_trans E t1 tx ty = Inr t2 \<and>
        project E dens ''standard'' t2 = Inr proj \<and>
        generate_ctf E (ctf_params m) = Inr ctf \<and>
        filt_ctf E proj ctf = Inr img"
    unfolding rotation_dict_def by blast
next
  assume "\<exists>x y t1 tx ty t2 proj ctf.
        set_rotation E (Transform E)
          [(''psi'', psi m), (''phi'', phi m), (''theta'', theta m), (''type'', VStr ''spider'')] = Inr t1 \<and>
        to_real (x_origin m) = Some x \<and> to_real (y_origin m) = Some y \<and>
        py_neg (x_origin m) = Inr tx \<and> py_neg (y_origin m) = Inr ty \<and>
        to_real tx = Some (- x) \<and> to_real ty = Some (- y) \<and>
        set_trans E t1 tx ty = Inr t2 \<and>
        project E dens ''standard'' t2 = Inr proj \<and>
        generate_ctf E (ctf_params m) = Inr ctf \<and>
        filt_ctf E proj ctf = Inr img"
  then show "make_proj E dens m = Inr img"
    unfolding make_proj_def rotation_dict_def by auto
qed

subsection \<open>C8: the derived fields of a particle record\<close>

text \<open>
  C8 (as amended). When \<open>MetaData.__init__\<close> returns for row \<open>i\<close>, the cells it read
  are numbers and the magnification is not zero; the derived CTF parameters are the mean
  defocus \<open>(U + V) / 20000\<close>, the astigmatism \<open>(U - V) / 10000\<close> (the difference under
  the same change of unit, not the bare difference), the angle \<open>90 - A\<close>, the pixel
  size \<open>10000 * D / M\<close>, the amplitude contrast \<open>100 * C\<close> and a B-factor that is the
  integer 0; the list handed to the CTF synthesis holds them in sparx's order.
\<close>

theorem MetaData_init_derived:
  assumes "MetaData_init E st i = Inr m"
  shows "\<exists>u v a d g c M.
           cell st ''rlnDefocusU'' i = Some u \<and> cell st ''rlnDefocusV'' i = Some v \<and>
           cell st ''rlnDefocusAngle'' i = Some a \<and>
           cell st ''rlnDetectorPixelSize'' i = Some d \<and>
           star_get st ''rlnMagnification'' i = Inr M \<and> py_float E M = Inr g \<and> g \<noteq> 0 \<and>
           cell st ''rlnAmplitudeContrast'' i = Some c \<and>
           defocus m = VFloat ((u + v) / 20000) \<and>
           dfdiff m = VFloat ((u - v) / 10000) \<and>
           dfang m = VFloat (90 - a) \<and>
           apix m = VFloat (10000 * d / g) \<and>
           ac m = VFloat (c * 100) \<and>
           bfactor m = VInt 0 \<and>
           ctf_params m = [defocus m, cs m, voltage m, apix m, bfactor m, ac m, dfdiff m, dfang m]"
proof -
  from assms obtain v_phi v_psi v_theta v_x v_y u1 v1 s1 v_defocus u2 v2 d2 v_dfdiff a0 v_dfang
      d0 d' mg mg' v_apix v_voltage v_cs c0 v_ac where
    g: "star_get st ''rlnDefocusU'' i = Inr u1" "star_get st ''rlnDefocusV'' i = Inr v1"
       "py_add u1 v1 = Inr s1" "py_div_float s1 20000 = Inr v_defocus"
       "star_get st ''rlnDefocusU'' i = Inr u2" "star_get st ''rlnDefocusV'' i = Inr v2"
       "py_sub u2 v2 = Inr d2" "py_div_float d2 10000 = Inr v_dfdiff"
       "star_get st ''rlnDefocusAngle'' i = Inr a0" "py_sub (VFloat 90) a0 = Inr v_dfang"
       "star_get st ''rlnDetectorPixelSize'' i = Inr d0" "py_mul_float d0 10000 = Inr d'"
       "star_get st ''rlnMagnification'' i = Inr mg" "py_float E mg = Inr mg'"
       "py_div_float d' mg' = Inr v_apix"
       "star_get st ''rlnAmplitudeContrast'' i = Inr c0" "py_mul_float c0 100 = Inr v_ac"
    and m: "m = \<lparr>meta_i = i, phi = v_phi, psi = v_psi, theta = v_theta,
            x_origin = v_x, y_origin = v_y, defocus = v_defocus, dfdiff = v_dfdiff,
            dfang = v_dfang, apix = v_apix, voltage = v_voltage, cs = v_cs, ac = v_ac,
            bfactor = VInt 0,
            ctf_params = [v_defocus, v_cs, v_voltage, v_apix, VInt 0, v_ac, v_dfdiff,
                          v_dfang]\<rparr>"
    unfolding MetaData_init_def ebind_Inr_iff by auto
  from py_div_float_Inr[OF g(4)] obtain z where
    z: "to_real s1 = Some z" "v_defocus = VFloat (z / 20000)"
    by auto
  from py_add_to_real[OF g(3) z(1)] obtain u v where
    uv: "to_real u1 = Some u" "to_real v1 = Some v" "z = u + v" by auto
  from g(1,2,5,6) have same: "u2 = u1" "v2 = v1" by auto
  from py_sub_to_real[OF g(7)] uv same have d2: "to_real d2 = Some (u - v)" by auto
  with py_div_float_Inr[OF g(8)] have dfd: "v_dfdiff = VFloat ((u - v) / 10000)" by auto
  from py_sub_to_real[OF g(10)] obtain a where
    a: "to_real a0 = Some a" "to_real v_dfang = Some (90 - a)"
    by auto
  from g(10) a have dfa: "v_dfang = VFloat (90 - a)" by (cases a0) auto
  from py_mul_float_Inr[OF g(12)] obtain d where
    d: "to_real d0 = Some d" "d' = VFloat (d * 10000)"
    by auto
  from py_div_float_Inr[OF g(15)] d have ap: "mg' \<noteq> 0" "v_apix = VFloat (10000 * d / mg')"
    by (auto simp: mult.commute)
  from py_mul_float_Inr[OF g(17)] obtain c where
    c: "to_real c0 = Some c" "v_ac = VFloat (c * 100)"
    by auto
  show ?thesis
    using g(1,2,9,11,13,14,16) uv a(1) d(1) c z(2) dfd dfa ap m
    by (auto simp: cell_def)
qed

theorem MetaData_init_derived_witness:
  "\<exists>m. MetaData_init lib_ex star_ex 0 = Inr m \<and>
       defocus m = VFloat ((20000 + 10000) / 20000) \<and>
       dfdiff m = VFloat ((20000 - 10000) / 10000) \<and>
       dfang m = VFloat (90 - 30) \<and>
       apix m = VFloat (10000 * 5 / 50000) \<and>
       ac m = VFloat (1 * 100) \<and>
       bfactor m = VInt 0"
proof -
  obtain m where m: "MetaData_init lib_ex star_ex 0 = Inr m"
    using MetaData_init_ex by blast
  from MetaData_init_derived[OF m] obtain u v a d g c M where
    h: "cell star_ex ''rlnDefocusU'' 0 = Some u" "cell star_ex ''rlnDefocusV'' 0 = Some v"
       "cell star_ex ''rlnDefocusAngle'' 0 = Some a"
       "cell star_ex ''rlnDetectorPixelSize'' 0 = Some d"
       "star_get star_ex ''rlnMagnification'' 0 = Inr M" "py_float lib_ex M = Inr g"
       "cell star_ex ''rlnAmplitudeContrast'' 0 = Some c"
       "defocus m = VFloat ((u + v) / 20000)" "dfdiff m = VFloat ((u - v) / 10000)"
       "dfang m = VFloat (90 - a)" "apix m = VFloat (10000 * d / g)"
       "ac m = VFloat (c * 100)" "bfactor m = VInt 0"
    by blast
  from h(1-5,7) have "u = 20000" "v = 10000" "a = 30" "d = 5" "M = VInt 50000" "c = 1"
    by (auto simp: cell_def star_get_def star_ex_def)
  with h(6) have "g = 50000" by (simp add: py_float_def)
  with h(8-13) \<open>u = 20000\<close> \<open>v = 10000\<close> \<open>a = 30\<close> \<open>d = 5\<close> \<open>c = 1\<close> m show ?thesis
    by simp
qed

text \<open>
  C8 as the spec words it takes the astigmatism for the bare difference \<open>U - V\<close>. For
  \<open>U = 20000\<close> and \<open>V = 10000\<close> the record holds \<open>1.0\<close>, not \<open>10000\<close>.
\<close>

theorem MetaData_init_dfdiff_counterexample:
  "star_get star_ex ''rlnDefocusU'' 0 = Inr (VInt 20000) \<and>
   star_get star_ex ''rlnDefocusV'' 0 = Inr (VInt 10000) \<and>
   map_sum id dfdiff (MetaData_init lib_ex star_ex 0) = Inr (VFloat 1) \<and>
   VFloat 1 \<noteq> VFloat (20000 - 10000)"
  by (simp add: MetaData_init_ex) (simp add: star_get_def star_ex_def meta_ex_def)

subsection \<open>C9: images of different dimensions\<close>

text \<open>
  C9. Let the two projections of a particle exist. If the particle image differs in
  dimensions from the sub-map projection, \<open>subtract\<close> fails with IncompatibleShapes in
  both modes and returns no result; so it does if the image differs from the whole-map
  projection, in FRC mode always and in direct mode when the two projections are of one
  shape, as they are for maps on one grid (direct mode does not look at the whole-map
  projection). An IncompatibleShapes of a result ends the loop with that error whatever
  results are still to come; and when the turns of \<open>main\<close> before row \<open>i\<close> have passed
  and the particle of row \<open>i\<close> is such an image, \<open>main\<close> returns IncompatibleShapes and
  no final state.
\<close>

theorem subtract_shape_mismatch:
  assumes cp: "make_proj E dens m = Inr cp" and cps: "make_proj E sub_dens m = Inr cps"
  shows "(\<not> same_shape p cps \<longrightarrow>
            subtract E (p, m) dens sub_dens rc nofrc low high = Inl IncompatibleShapes) \<and>
         (\<not> same_shape p cp \<and> (\<not> nofrc \<or> same_shape cp cps) \<longrightarrow>
            subtract E (p, m) dens sub_dens rc nofrc low high = Inl IncompatibleShapes) \<and>
         (\<forall>opts hs xs1 x xs2 w wa.
            for_results E opts hs xs1 w = Inr wa \<and>
            x (star_tab wa) (stacks wa) = Inl IncompatibleShapes \<longrightarrow>
              for_results E opts hs (xs1 @ x # xs2) w = Inl IncompatibleShapes) \<and>
         (\<forall>options0 star0 fs0 N rc0 i wa.
            star_len star0 ''rlnImageName'' = Inr N \<and> i < N \<and>
            recenter_vector E (chop_options options0) dens sub_dens = Inr rc0 \<and>
            for_results E (chop_options options0) (map fst star0)
              (take i (results E (chop_options options0) star0 dens sub_dens rc0 N))
              (init_state star0 fs0) = Inr wa \<and>
            particle_at E (star_tab wa) (if nproc options0 > 1 then pool_seen E i else stacks wa) i =
              Inr (p, m) \<and>
            (\<not> same_shape p cps \<or>
             (\<not> same_shape p cp \<and> (\<not> no_frc options0 \<or> same_shape cp cps))) \<longrightarrow>
              main E options0 star0 fs0 dens sub_dens = Inl IncompatibleShapes)"
proof -
  have A: "subtract E (p, m) dens sub_dens rc' nofrc' low' high' = Inl IncompatibleShapes"
    if "\<not> same_shape p cps" for rc' nofrc' low' high'
  proof (cases nofrc')
    case True
    with subtract_direct_mismatch[OF cp cps that] show ?thesis by simp
  next
    case False
    from that have "\<not> same_shape p cp \<or> \<not> same_shape p cps" by simp
    from subtract_optimal_mismatch[OF cp cps this] False show ?thesis by simp
  qed
  have B: "subtract E (p, m) dens sub_dens rc' nofrc' low' high' = Inl IncompatibleShapes"
    if d: "\<not> same_shape p cp \<and> (\<not> nofrc' \<or> same_shape cp cps)" for rc' nofrc' low' high'
  proof (cases nofrc')
    case True
    with d have "same_shape cp cps" by simp
    with d same_shape_trans[of p cps cp] have "\<not> same_shape p cps" by blast
    then show ?thesis by (rule A)
  next
    case False
    from d have "\<not> same_shape p cp \<or> \<not> same_shape p cps" by simp
    from subtract_optimal_mismatch[OF cp cps this] False show ?thesis by simp
  qed
  have a: "\<not> same_shape p cps \<longrightarrow>
            subtract E (p, m) dens sub_dens rc nofrc low high = Inl IncompatibleShapes"
    using A by blast
  have b: "\<not> same_shape p cp \<and> (\<not> nofrc \<or> same_shape cp cps) \<longrightarrow>
            subtract E (p, m) dens sub_dens rc nofrc low high = Inl IncompatibleShapes"
    using B by blast
  have c: "\<forall>opts hs xs1 x xs2 w wa.
            for_results E opts hs xs1 w = Inr wa \<and>
            x (star_tab wa) (stacks wa) = Inl IncompatibleShapes \<longrightarrow>
              for_results E opts hs (xs1 @ x # xs2) w = Inl IncompatibleShapes"
  proof (intro allI impI)
    fix opts hs xs1 and x :: "Result deferred" and xs2 w wa
    assume h: "for_results E opts hs xs1 w = Inr wa \<and>
            x (star_tab wa) (stacks wa) = Inl IncompatibleShapes"
    then have pre: "for_results E opts hs xs1 w = Inr wa" by (rule conjunct1)
    from h have "ebind (x (star_tab wa) (stacks wa)) (\<lambda>r. write_result E opts hs r wa) =
        Inl IncompatibleShapes" by simp
    then show "for_results E opts hs (xs1 @ x # xs2) w = Inl IncompatibleShapes"
      by (intro for_results_abort[where x = x and wa = wa, OF pre])
  qed
  have d: "\<forall>options0 star0 fs0 N rc0 i wa.
            star_len star0 ''rlnImageName'' = Inr N \<and> i < N \<and>
            recenter_vector E (chop_options options0) dens sub_dens = Inr rc0 \<and>
            for_results E (chop_options options0) (map fst star0)
              (take i (results E (chop_options options0) star0 dens sub_dens rc0 N))
              (init_state star0 fs0) = Inr wa \<and>
            particle_at E (star_tab wa) (if nproc options0 > 1 then pool_seen E i else stacks wa) i =
              Inr (p, m) \<and>
            (\<not> same_shape p cps \<or>
             (\<not> same_shape p cp \<and> (\<not> no_frc options0 \<or> same_shape cp cps))) \<longrightarrow>
              main E options0 star0 fs0 dens sub_dens = Inl IncompatibleShapes"
  proof (intro allI impI)
    fix options0 star0 fs0 N rc0 i and wa :: wstate
    assume h: "star_len star0 ''rlnImageName'' = Inr N \<and> i < N \<and>
            recenter_vector E (chop_options options0) dens sub_dens = Inr rc0 \<and>
            for_results E (chop_options options0) (map fst star0)
              (take i (results E (chop_options options0) star0 dens sub_dens rc0 N))
              (init_state star0 fs0) = Inr wa \<and>
            particle_at E (star_tab wa) (if nproc options0 > 1 then pool_seen E i else stacks wa) i =
              Inr (p, m) \<and>
            (\<not> same_shape p cps \<or>
             (\<not> same_shape p cp \<and> (\<not> no_frc options0 \<or> same_shape cp cps)))"
    from h have len: "star_len star0 ''rlnImageName'' = Inr N" by (rule conjunct1)
    from h have i: "i < N" by (rule conjunct2[THEN conjunct1])
    from h have rcv: "recenter_vector E (chop_options options0) dens sub_dens = Inr rc0"
      by (rule conjunct2[THEN conjunct2, THEN conjunct1])
    from h have pre: "for_results E (chop_options options0) (map fst star0)
              (take i (results E (chop_options options0) star0 dens sub_dens rc0 N))
              (init_state star0 fs0) = Inr wa"
      by (rule conjunct2[THEN conjunct2, THEN conjunct2, THEN conjunct1])
    from h have pa: "particle_at E (star_tab wa) (if nproc options0 > 1 then pool_seen E i else stacks wa) i =
              Inr (p, m)"
      by (rule conjunct2[THEN conjunct2, THEN conjunct2, THEN conjunct2, THEN conjunct1])
    from h have ne: "\<not> same_shape p cps \<or>
             (\<not> same_shape p cp \<and> (\<not> no_frc options0 \<or> same_shape cp cps))"
      by (rule conjunct2[THEN conjunct2, THEN conjunct2, THEN conjunct2, THEN conjunct2])
    from ne have se: "subtract E (p, m) dens sub_dens rc0 (no_frc options0)
        (low_cutoff (chop_options options0)) (high_cutoff (chop_options options0)) =
        Inl IncompatibleShapes"
    proof
      assume "\<not> same_shape p cps"
      then show ?thesis by (rule A)
    next
      assume "\<not> same_shape p cp \<and> (\<not> no_frc options0 \<or> same_shape cp cps)"
      then show ?thesis by (rule B)
    qed
    show "main E options0 star0 fs0 dens sub_dens = Inl IncompatibleShapes"
      by (rule main_abort[OF len i rcv pre pa se])
  qed
  show ?thesis by (intro conjI) (rule a, rule b, rule c, rule d)
qed

theorem subtract_shape_mismatch_witness:
  "\<exists>wa m.
     star_len star_ex ''rlnImageName'' = Inr 3 \<and> (1::nat) < 3 \<and>
     recenter_vector lib_ex (chop_options options_ex) (vol_ex 1) (vol_ex 2) = Inr (Some (20, 0, 0)) \<and>
     for_results lib_ex (chop_options options_ex) (map fst star_ex)
       (take 1 (results lib_ex (chop_options options_ex) star_ex (vol_ex 1) (vol_ex 2) (Some (20, 0, 0)) 3))
       (init_state star_ex files_mixed) = Inr wa \<and>
     particle_at lib_ex (star_tab wa) (if nproc options_ex > 1 then pool_seen lib_ex 1 else stacks wa) 1 =
       Inr (img_big, m) \<and>
     make_proj lib_ex (vol_ex 1) m = Inr \<lparr>nx = 1, ny = 2, nz = 1, pixels = [1, 2]\<rparr> \<and>
     make_proj lib_ex (vol_ex 2) m = Inr \<lparr>nx = 1, ny = 2, nz = 1, pixels = [2, 4]\<rparr> \<and>
     \<not> same_shape img_big \<lparr>nx = 1, ny = 2, nz = 1, pixels = [2, 4]\<rparr> \<and>
     \<not> same_shape img_big \<lparr>nx = 1, ny = 2, nz = 1, pixels = [1, 2]\<rparr> \<and>
     subtract lib_ex (img_big, m) (vol_ex 1) (vol_ex 2) None True 0 (7071 / 10000) =
       Inl IncompatibleShapes \<and>
     subtract lib_ex (img_big, m) (vol_ex 1) (vol_ex 2) None False 0 (7071 / 10000) =
       Inl IncompatibleShapes \<and>
     main lib_ex options_ex star_ex files_mixed (vol_ex 1) (vol_ex 2) = Inl IncompatibleShapes"
proof -
  from mixed_turn obtain wa m where
    pre: "for_results lib_ex (chop_options options_ex) (map fst star_ex)
       (take 1 (results lib_ex (chop_options options_ex) star_ex (vol_ex 1) (vol_ex 2) (Some (20, 0, 0)) 3))
       (init_state star_ex files_mixed) = Inr wa"
    and pa: "particle_at lib_ex (star_tab wa) (if nproc options_ex > 1 then pool_seen lib_ex 1 else stacks wa) 1 =
       Inr (img_big, m)"
    and cp: "make_proj lib_ex (vol_ex 1) m = Inr \<lparr>nx = 1, ny = 2, nz = 1, pixels = [1, 2]\<rparr>"
    and cps: "make_proj lib_ex (vol_ex 2) m = Inr \<lparr>nx = 1, ny = 2, nz = 1, pixels = [2, 4]\<rparr>"
    by blast
  have i: "(1::nat) < 3" by simp
  have d: "\<not> same_shape img_big \<lparr>nx = 1, ny = 2, nz = 1, pixels = [2, 4]\<rparr>"
    and d': "\<not> same_shape img_big \<lparr>nx = 1, ny = 2, nz = 1, pixels = [1, 2]\<rparr>"
    by (simp_all add: same_shape_def img_big_def)
  note T = subtract_shape_mismatch[OF cp cps, of img_big]
  from T[of None True 0 "7071 / 10000"] d
  have s1: "subtract lib_ex (img_big, m) (vol_ex 1) (vol_ex 2) None True 0 (7071 / 10000) =
       Inl IncompatibleShapes" by blast
  from T[of None False 0 "7071 / 10000"] d'
  have s2: "subtract lib_ex (img_big, m) (vol_ex 1) (vol_ex 2) None False 0 (7071 / 10000) =
       Inl IncompatibleShapes" by blast
  from T[of None True 0 0] have "\<forall>options0 star0 fs0 N rc0 i wa.
            star_len star0 ''rlnImageName'' = Inr N \<and> i < N \<and>
            recenter_vector lib_ex (chop_options options0) (vol_ex 1) (vol_ex 2) = Inr rc0 \<and>
            for_results lib_ex (chop_options options0) (map fst star0)
              (take i (results lib_ex (chop_options options0) star0 (vol_ex 1) (vol_ex 2) rc0 N))
              (init_state star0 fs0) = Inr wa \<and>
            particle_at lib_ex (star_tab wa) (if nproc options0 > 1 then pool_seen lib_ex i else stacks wa) i =
              Inr (img_big, m) \<and>
            (\<not> same_shape img_big \<lparr>nx = 1, ny = 2, nz = 1, pixels = [2, 4]\<rparr> \<or>
             (\<not> same_shape img_big \<lparr>nx = 1, ny = 2, nz = 1, pixels = [1, 2]\<rparr> \<and>
              (\<not> no_frc options0 \<or>
               same_shape \<lparr>nx = 1, ny = 2, nz = 1, pixels = [1, 2]\<rparr> \<lparr>nx = 1, ny = 2, nz = 1, pixels = [2, 4]\<rparr>))) \<longrightarrow>
              main lib_ex options0 star0 fs0 (vol_ex 1) (vol_ex 2) = Inl IncompatibleShapes"
    by (rule conjunct2[THEN conjunct2, THEN conjunct2])
  from this[rule_format, of star_ex 3 1 options_ex "Some (20, 0, 0)" files_mixed wa]
    star_len_ex i recenter_vector_ex pre pa d
  have run: "main lib_ex options_ex star_ex files_mixed (vol_ex 1) (vol_ex 2) = Inl IncompatibleShapes"
    by blast
  show ?thesis
    using star_len_ex i recenter_vector_ex pre pa cp cps d d' s1 s2 run by (intro exI conjI)
qed

subsection \<open>C10: the input image references\<close>

text \<open>
  C10. For a reference \<open>s\<close> in row \<open>i\<close>, the generator takes the text before the first
  \<open>@\<close> as the frame token and reads it with \<open>int\<close>; for the value \<open>n\<close> it loads the
  image at position \<open>n - 1\<close> of the stack named by the text up to the next \<open>@\<close>, which
  is the whole path when the path has no \<open>@\<close>. A frame token that \<open>int\<close> rejects is a
  ValueError, a reference without \<open>@\<close> a ValueError or an IndexError; in both cases
  the generator does not yield and \<open>main\<close> returns the error of some turn instead of a
  final state.
\<close>

theorem particles_frame_index:
  assumes nm: "star_get st ''rlnImageName'' i = Inr (VStr s)"
  shows "(\<forall>frame rest n.
            s = frame @ ''@'' @ rest \<and> CHR ''@'' \<notin> set frame \<and> int_of_str E frame = Some n \<longrightarrow>
              particle_at E st fs i =
                ebind (EMData_read E fs (takeWhile (\<lambda>c. c \<noteq> CHR ''@'') rest) (n - 1)) (\<lambda>p.
                ebind (MetaData_init E st i) (\<lambda>m. Inr (p, m)))) \<and>
         (\<forall>frame path n.
            s = frame @ ''@'' @ path \<and> CHR ''@'' \<notin> set frame \<and> CHR ''@'' \<notin> set path \<and>
            int_of_str E frame = Some n \<longrightarrow>
              particle_at E st fs i =
                ebind (EMData_read E fs path (n - 1)) (\<lambda>p.
                ebind (MetaData_init E st i) (\<lambda>m. Inr (p, m)))) \<and>
         (\<forall>frame rest.
            s = frame @ ''@'' @ rest \<and> CHR ''@'' \<notin> set frame \<and> int_of_str E frame = None \<longrightarrow>
              particle_at E st fs i = Inl ValueError) \<and>
         (CHR ''@'' \<notin> set s \<longrightarrow>
            particle_at E st fs i = Inl (if int_of_str E s = None then ValueError else IndexError)) \<and>
         (CHR ''@'' \<notin> set s \<or> int_of_str E (takeWhile (\<lambda>c. c \<noteq> CHR ''@'') s) = None \<longrightarrow>
            (\<exists>e. particle_at E st fs i = Inl e) \<and>
            (\<forall>options0 fs0 dens sub_dens. \<exists>e. main E options0 st fs0 dens sub_dens = Inl e))"
proof (intro conjI allI impI)
  fix frame rest n
  assume a: "s = frame @ ''@'' @ rest \<and> CHR ''@'' \<notin> set frame \<and> int_of_str E frame = Some n"
  with nm have nm': "star_get st ''rlnImageName'' i = Inr (VStr (frame @ ''@'' @ rest))" by simp
  from a show "particle_at E st fs i =
                ebind (EMData_read E fs (takeWhile (\<lambda>c. c \<noteq> CHR ''@'') rest) (n - 1)) (\<lambda>p.
                ebind (MetaData_init E st i) (\<lambda>m. Inr (p, m)))"
    by (intro particle_at_good[OF nm']) simp_all
next
  fix frame path n
  assume a: "s = frame @ ''@'' @ path \<and> CHR ''@'' \<notin> set frame \<and> CHR ''@'' \<notin> set path \<and>
            int_of_str E frame = Some n"
  with nm have nm': "star_get st ''rlnImageName'' i = Inr (VStr (frame @ ''@'' @ path))" by simp
  from a have fr: "CHR ''@'' \<notin> set frame" and n: "int_of_str E frame = Some n" by simp_all
  from a have "takeWhile (\<lambda>c. c \<noteq> CHR ''@'') path = path" by (auto simp: takeWhile_eq_all_conv)
  with particle_at_good[OF nm' fr n, of fs]
  show "particle_at E st fs i =
                ebind (EMData_read E fs path (n - 1)) (\<lambda>p.
                ebind (MetaData_init E st i) (\<lambda>m. Inr (p, m)))" by simp
next
  fix frame rest
  assume a: "s = frame @ ''@'' @ rest \<and> CHR ''@'' \<notin> set frame \<and> int_of_str E frame = None"
  with nm have nm': "star_get st ''rlnImageName'' i = Inr (VStr (frame @ ''@'' @ rest))" by simp
  from a show "particle_at E st fs i = Inl ValueError"
    by (intro particle_at_bad_frame[OF nm']) simp_all
next
  assume "CHR ''@'' \<notin> set s"
  then show "particle_at E st fs i = Inl (if int_of_str E s = None then ValueError else IndexError)"
    by (rule particle_at_no_sep[OF nm])
next
  assume bad: "CHR ''@'' \<notin> set s \<or> int_of_str E (takeWhile (\<lambda>c. c \<noteq> CHR ''@'') s) = None"
  show "\<exists>e. particle_at E st fs i = Inl e" by (rule particle_at_bad[OF nm bad])
next
  fix options0 fs0 dens sub_dens
  assume bad: "CHR ''@'' \<notin> set s \<or> int_of_str E (takeWhile (\<lambda>c. c \<noteq> CHR ''@'') s) = None"
  show "\<exists>e. main E options0 st fs0 dens sub_dens = Inl e" by (rule main_bad_reference[OF nm bad])
qed

theorem particles_frame_index_witness:
  "star_get star_ex ''rlnImageName'' 0 = Inr (VStr ''1@in.mrcs'') \<and>
   int_of_str lib_ex ''1'' = Some 1 \<and>
   particle_at lib_ex star_ex files_ex 0 =
     ebind (EMData_read lib_ex files_ex ''in.mrcs'' (1 - 1)) (\<lambda>p.
     ebind (MetaData_init lib_ex star_ex 0) (\<lambda>m. Inr (p, m))) \<and>
   particle_at lib_ex star_ex files_ex 0 = Inr (img_ex 10, meta_ex) \<and>
   star_get star_bad ''rlnImageName'' 0 = Inr (VStr ''x@in.mrcs'') \<and>
   int_of_str lib_ex ''x'' = None \<and>
   particle_at lib_ex star_bad files_ex 0 = Inl ValueError \<and>
   (\<exists>e. main lib_ex options_ex star_bad files_ex (vol_ex 1) (vol_ex 2) = Inl e)"
proof -
  have i1: "int_of_str lib_ex ''1'' = Some 1" and ix: "int_of_str lib_ex ''x'' = None"
    by (simp_all add: lib_ex_def)
  note G = particles_frame_index[OF image_name_ex, of lib_ex files_ex]
  from G have "\<forall>frame path n.
            ''1@in.mrcs'' = frame @ ''@'' @ path \<and> CHR ''@'' \<notin> set frame \<and> CHR ''@'' \<notin> set path \<and>
            int_of_str lib_ex frame = Some n \<longrightarrow>
              particle_at lib_ex star_ex files_ex 0 =
                ebind (EMData_read lib_ex files_ex path (n - 1)) (\<lambda>p.
                ebind (MetaData_init lib_ex star_ex 0) (\<lambda>m. Inr (p, m)))"
    by (rule conjunct2[THEN conjunct1])
  from this[rule_format, of "''1''" "''in.mrcs''" 1] i1
  have a: "particle_at lib_ex star_ex files_ex 0 =
     ebind (EMData_read lib_ex files_ex ''in.mrcs'' (1 - 1)) (\<lambda>p.
     ebind (MetaData_init lib_ex star_ex 0) (\<lambda>m. Inr (p, m)))" by simp
  have "EMData_read lib_ex files_ex ''in.mrcs'' (1 - 1) = Inr (img_ex 10)"
    by (simp add: lib_ex_def files_ex_def)
  with a MetaData_init_ex have b: "particle_at lib_ex star_ex files_ex 0 = Inr (img_ex 10, meta_ex)"
    by simp
  note B = particles_frame_index[OF image_name_bad, of lib_ex files_ex]
  from B have "\<forall>frame rest.
            ''x@in.mrcs'' = frame @ ''@'' @ rest \<and> CHR ''@'' \<notin> set frame \<and> int_of_str lib_ex frame = None \<longrightarrow>
              particle_at lib_ex star_bad files_ex 0 = Inl ValueError"
    by (rule conjunct2[THEN conjunct2, THEN conjunct1])
  from this[rule_format, of "''x''" "''in.mrcs''"] ix
  have c: "particle_at lib_ex star_bad files_ex 0 = Inl ValueError" by simp
  from B have "CHR ''@'' \<notin> set ''x@in.mrcs'' \<or>
      int_of_str lib_ex (takeWhile (\<lambda>c. c \<noteq> CHR ''@'') ''x@in.mrcs'') = None \<longrightarrow>
            (\<exists>e. particle_at lib_ex star_bad files_ex 0 = Inl e) \<and>
            (\<forall>options0 fs0 dens sub_dens. \<exists>e. main lib_ex options0 star_bad fs0 dens sub_dens = Inl e)"
    by (rule conjunct2[THEN conjunct2, THEN conjunct2, THEN conjunct2])
  moreover have "int_of_str lib_ex (takeWhile (\<lambda>c. c \<noteq> CHR ''@'') ''x@in.mrcs'') = None"
    by (simp add: lib_ex_def)
  ultimately have d: "\<exists>e. main lib_ex options_ex star_bad files_ex (vol_ex 1) (vol_ex 2) = Inl e"
    by blast
  from image_name_ex i1 a b image_name_bad ix c d show ?thesis by (intro conjI)
qed

end
